theory Spec2Isabelle
  imports Main "HOL-Library.Sublist"
begin

section \<open>Certificate vendor: the certificate service\<close>

text \<open>
  A shallow embedding of \<^verbatim>\<open>CertificateService\<close>
  (\<^verbatim>\<open>certificatevendor/src/certificates/certificates.service.ts\<close>): its three public
  operations \<^verbatim>\<open>get\<close>, \<^verbatim>\<open>getWithCsr\<close> and \<^verbatim>\<open>ack\<close> and the private methods
  they call.

  The service is a sequence of calls to collaborators (the registry manager, AWS IoT, IoT data,
  S3, SSM, ACM PCA, the \<^verbatim>\<open>pem\<close> library). A call is modelled by what it is asked and what it
  answers: every call appends one event to the history of the run, and the answer of a
  collaborator is an arbitrary function of the history so far and of the arguments. A thrown
  \<^verbatim>\<open>Error\<close> (a rejected promise) is the left summand of the result, carrying
  \<^verbatim>\<open>err.message\<close>.
\<close>

subsection \<open>JavaScript strings and values\<close>

text \<open>\<^verbatim>\<open>s.includes(x)\<close>: \<open>x\<close> occurs in \<open>s\<close> as a contiguous substring.\<close>

fun str_includes :: "string \<Rightarrow> string \<Rightarrow> bool" where
  "str_includes [] x = (x = [])"
| "str_includes (c # s) x = (prefix x (c # s) \<or> str_includes s x)"

text \<open>\<^verbatim>\<open>s.split(sep)\<close> for a one-character separator: the pieces between the separators.\<close>

fun str_split :: "char \<Rightarrow> string \<Rightarrow> string list" where
  "str_split sep [] = [[]]"
| "str_split sep (c # s) =
     (if c = sep then [] # str_split sep s
      else (case str_split sep s of [] \<Rightarrow> [[c]] | w # ws \<Rightarrow> (c # w) # ws))"

text \<open>\<^verbatim>\<open>xs[1]\<close>: the second element, \<^verbatim>\<open>undefined\<close> (\<open>None\<close>) when there is none.\<close>

fun second :: "'a list \<Rightarrow> 'a option" where
  "second (x # y # ys) = Some y"
| "second ys = None"

text \<open>\<^verbatim>\<open>principal.split('/')[1]\<close>, the certificate id of a principal ARN.\<close>

definition certificateIdOf :: "string \<Rightarrow> string option" where
  "certificateIdOf princ = second (str_split CHR ''/'' princ)"

text \<open>Truthiness of an optional string: \<^verbatim>\<open>undefined\<close> and \<^verbatim>\<open>''\<close> are falsy.\<close>

fun truthy :: "string option \<Rightarrow> bool" where
  "truthy None = False"
| "truthy (Some s) = (s \<noteq> [])"

text \<open>An optional string inside a template literal: \<^verbatim>\<open>undefined\<close> prints as its name.\<close>

fun interpolate :: "string option \<Rightarrow> string" where
  "interpolate None = ''undefined''"
| "interpolate (Some s) = s"

subsection \<open>Data\<close>

text \<open>A settled promise: \<open>Inl m\<close> is a rejection by an \<^verbatim>\<open>Error\<close> with message \<open>m\<close>.\<close>

type_synonym 'a result = "string + 'a"

text \<open>\<^verbatim>\<open>CertificateResponseModel\<close>, the payload that is published; every field is optional.\<close>

record CertificateResponseModel =
  location :: "string option"
  certificate :: "string option"
  certificateId :: "string option"
  message :: "string option"

definition emptyResponse :: CertificateResponseModel where
  "emptyResponse = \<lparr>location = None, certificate = None, certificateId = None, message = None\<rparr>"

text \<open>\<^verbatim>\<open>CertInfo\<close> and \<^verbatim>\<open>ACMPCAParameters\<close> of the request; every field is optional.\<close>

record CertInfo =
  country :: "string option"
  organization :: "string option"
  organizationalUnit :: "string option"
  stateName :: "string option"
  commonName :: "string option"

record ACMPCAParameters =
  awsiotCaAlias :: "string option"
  awsiotCaID :: "string option"
  acmpcaCaAlias :: "string option"
  acmpcaCaArn :: "string option"
  certInfo :: "CertInfo option"

text \<open>The answer of \<^verbatim>\<open>s3.headObject\<close>: the object's metadata, when it has any.\<close>

record HeadObjectOutput =
  Metadata :: "(string \<times> string) list option"

text \<open>The answer of the \<^verbatim>\<open>certificateIssued\<close> waiter of ACM PCA.\<close>

record GetCertificateResponse =
  Certificate :: string
  CertificateChain :: string

datatype certStatus = ACTIVE | INACTIVE

text \<open>
  One event per call to a collaborator: the arguments of the call, then its answer. Policies
  are listed by their \<^verbatim>\<open>policyName\<close>, the only field the service reads.
\<close>

datatype event =
    IsWhitelisted string "bool result"
  | UpdateAssetStatus string "unit result"
  | HeadObject string string "HeadObjectOutput result"
  | GetSignedUrl string string int "string result"
  | UpdateCertificate "string option" certStatus "unit result"
  | Publish string CertificateResponseModel "unit result"
  | RemoveThingFromThingGroup string string "unit result"
  | ListThingPrincipals string "string list result"
  | DetachThingPrincipal string string "unit result"
  | ListPrincipalThings string "string list result"
  | ListAttachedPolicies string "string list result"
  | DetachPolicy string string "unit result"
  | DeleteCertificate "string option" "unit result"
  | DescribeCACertificate string "string result"
  | GetParameter string "string result"
  | CreateCertificate string int string string "string result"
  | RegisterCertificate string string "string result"
  | AttachThingPrincipal string string "unit result"
  | AttachPolicy string string "unit result"
  | GetEffectivePolicies string "string list result"
  | IssueCertificate string string string int "CertInfo option" "string result"
  | WaitForCertificateIssued string string "GetCertificateResponse result"

text \<open>
  The collaborators: what each call answers, given the history of the run so far and the
  arguments of the call.
\<close>

record env =
  registry_isWhitelisted :: "event list \<Rightarrow> string \<Rightarrow> bool result"
  registry_updateAssetStatus :: "event list \<Rightarrow> string \<Rightarrow> unit result"
  s3_headObject :: "event list \<Rightarrow> string \<Rightarrow> string \<Rightarrow> HeadObjectOutput result"
  s3_getSignedUrl :: "event list \<Rightarrow> string \<Rightarrow> string \<Rightarrow> int \<Rightarrow> string result"
  iot_updateCertificate :: "event list \<Rightarrow> string option \<Rightarrow> certStatus \<Rightarrow> unit result"
  iotData_publish :: "event list \<Rightarrow> string \<Rightarrow> CertificateResponseModel \<Rightarrow> unit result"
  iot_removeThingFromThingGroup :: "event list \<Rightarrow> string \<Rightarrow> string \<Rightarrow> unit result"
  iot_listThingPrincipals :: "event list \<Rightarrow> string \<Rightarrow> string list result"
  iot_detachThingPrincipal :: "event list \<Rightarrow> string \<Rightarrow> string \<Rightarrow> unit result"
  iot_listPrincipalThings :: "event list \<Rightarrow> string \<Rightarrow> string list result"
  iot_listAttachedPolicies :: "event list \<Rightarrow> string \<Rightarrow> string list result"
  iot_detachPolicy :: "event list \<Rightarrow> string \<Rightarrow> string \<Rightarrow> unit result"
  iot_deleteCertificate :: "event list \<Rightarrow> string option \<Rightarrow> unit result"
  iot_describeCACertificate :: "event list \<Rightarrow> string \<Rightarrow> string result"
  ssm_getParameter :: "event list \<Rightarrow> string \<Rightarrow> string result"
  pem_createCertificate :: "event list \<Rightarrow> string \<Rightarrow> int \<Rightarrow> string \<Rightarrow> string \<Rightarrow> string result"
  iot_registerCertificate :: "event list \<Rightarrow> string \<Rightarrow> string \<Rightarrow> string result"
  iot_attachThingPrincipal :: "event list \<Rightarrow> string \<Rightarrow> string \<Rightarrow> unit result"
  iot_attachPolicy :: "event list \<Rightarrow> string \<Rightarrow> string \<Rightarrow> unit result"
  iot_getEffectivePolicies :: "event list \<Rightarrow> string \<Rightarrow> string list result"
  acmpca_issueCertificate ::
    "event list \<Rightarrow> string \<Rightarrow> string \<Rightarrow> string \<Rightarrow> int \<Rightarrow> CertInfo option \<Rightarrow> string result"
  acmpca_waitFor :: "event list \<Rightarrow> string \<Rightarrow> string \<Rightarrow> GetCertificateResponse result"

text \<open>The injected configuration of the service (the constructor's parameters).\<close>

record config =
  accountId :: string
  region :: string
  s3Bucket :: string
  s3Prefix :: string
  s3Suffix :: string
  presignedUrlExpiresInSeconds :: int
  mqttGetSuccessTopic :: string
  mqttGetFailureTopic :: string
  mqttAckSuccessTopic :: string
  mqttAckFailureTopic :: string
  thingGroupName :: string
  caCertificateId :: string
  useDefaultPolicy :: bool
  rotatedCertificatePolicy :: string
  certificateExpiryDays :: int
  deletePreviousCertificate :: bool
  acmpcaCaArn :: string
  acmpcaEnabled :: bool
  acmpcaSigningAlgorithm :: string

text \<open>
  What the service takes from the JavaScript platform and the \<^verbatim>\<open>ow\<close> library, none of it
  code of the service: the message of a failed \<^verbatim>\<open>ow.string.nonEmpty\<close> (by the label given to
  \<^verbatim>\<open>ow\<close>), \<^verbatim>\<open>process.env\<close>, \<^verbatim>\<open>String.toUpperCase\<close> and \<^verbatim>\<open>String.replace\<close>
  (the string, the pattern, the replacement). They are parameters: every theorem holds for
  all of them.
\<close>

record platform =
  owNonEmptyMessage :: "string option \<Rightarrow> string"
  processEnv :: "string \<Rightarrow> string option"
  toUpperCase :: "string \<Rightarrow> string"
  replace :: "string \<Rightarrow> string \<Rightarrow> string \<Rightarrow> string"

subsection \<open>Sequencing\<close>

text \<open>
  An asynchronous computation: given the history so far, its result and the events it adds.
\<close>

type_synonym 'a io = "event list \<Rightarrow> 'a result \<times> event list"

definition resolve :: "'a \<Rightarrow> 'a io" where
  "resolve a = (\<lambda>t. (Inr a, []))"

definition throw :: "string \<Rightarrow> 'a io" where
  "throw m = (\<lambda>t. (Inl m, []))"

text \<open>\<^verbatim>\<open>const a = await m; f(a)\<close>: a rejection of \<open>m\<close> skips \<open>f\<close>.\<close>

definition andThen :: "'a io \<Rightarrow> ('a \<Rightarrow> 'b io) \<Rightarrow> 'b io" where
  "andThen m f = (\<lambda>t. case m t of
       (Inl err, es) \<Rightarrow> (Inl err, es)
     | (Inr a, es) \<Rightarrow> (case f a (t @ es) of (r, es') \<Rightarrow> (r, es @ es')))"

text \<open>\<^verbatim>\<open>try { m } catch (err) { h(err) }\<close>.\<close>

definition tryCatch :: "'a io \<Rightarrow> (string \<Rightarrow> 'a io) \<Rightarrow> 'a io" where
  "tryCatch m h = (\<lambda>t. case m t of
       (Inl err, es) \<Rightarrow> (case h err (t @ es) of (r, es') \<Rightarrow> (r, es @ es'))
     | (Inr a, es) \<Rightarrow> (Inr a, es))"

subsection \<open>Calls to the collaborators\<close>

definition isWhitelisted :: "env \<Rightarrow> string \<Rightarrow> bool io" where
  "isWhitelisted env deviceId = (\<lambda>t.
     (registry_isWhitelisted env t deviceId,
      [IsWhitelisted deviceId (registry_isWhitelisted env t deviceId)]))"

definition updateAssetStatus :: "env \<Rightarrow> string \<Rightarrow> unit io" where
  "updateAssetStatus env deviceId = (\<lambda>t.
     (registry_updateAssetStatus env t deviceId,
      [UpdateAssetStatus deviceId (registry_updateAssetStatus env t deviceId)]))"

definition headObject :: "env \<Rightarrow> string \<Rightarrow> string \<Rightarrow> HeadObjectOutput io" where
  "headObject env bucket key = (\<lambda>t.
     (s3_headObject env t bucket key, [HeadObject bucket key (s3_headObject env t bucket key)]))"

definition getSignedUrl :: "env \<Rightarrow> string \<Rightarrow> string \<Rightarrow> int \<Rightarrow> string io" where
  "getSignedUrl env bucket key expires = (\<lambda>t.
     (s3_getSignedUrl env t bucket key expires,
      [GetSignedUrl bucket key expires (s3_getSignedUrl env t bucket key expires)]))"

definition updateCertificate :: "env \<Rightarrow> string option \<Rightarrow> certStatus \<Rightarrow> unit io" where
  "updateCertificate env cid newStatus = (\<lambda>t.
     (iot_updateCertificate env t cid newStatus,
      [UpdateCertificate cid newStatus (iot_updateCertificate env t cid newStatus)]))"

definition publish :: "env \<Rightarrow> string \<Rightarrow> CertificateResponseModel \<Rightarrow> unit io" where
  "publish env topic payload = (\<lambda>t.
     (iotData_publish env t topic payload,
      [Publish topic payload (iotData_publish env t topic payload)]))"

definition removeThingFromThingGroup :: "env \<Rightarrow> string \<Rightarrow> string \<Rightarrow> unit io" where
  "removeThingFromThingGroup env thingName groupName = (\<lambda>t.
     (iot_removeThingFromThingGroup env t thingName groupName,
      [RemoveThingFromThingGroup thingName groupName
         (iot_removeThingFromThingGroup env t thingName groupName)]))"

definition listThingPrincipals :: "env \<Rightarrow> string \<Rightarrow> string list io" where
  "listThingPrincipals env thingName = (\<lambda>t.
     (iot_listThingPrincipals env t thingName,
      [ListThingPrincipals thingName (iot_listThingPrincipals env t thingName)]))"

definition detachThingPrincipal :: "env \<Rightarrow> string \<Rightarrow> string \<Rightarrow> unit io" where
  "detachThingPrincipal env thingName princ = (\<lambda>t.
     (iot_detachThingPrincipal env t thingName princ,
      [DetachThingPrincipal thingName princ
         (iot_detachThingPrincipal env t thingName princ)]))"

definition listPrincipalThings :: "env \<Rightarrow> string \<Rightarrow> string list io" where
  "listPrincipalThings env princ = (\<lambda>t.
     (iot_listPrincipalThings env t princ,
      [ListPrincipalThings princ (iot_listPrincipalThings env t princ)]))"

definition listAttachedPolicies :: "env \<Rightarrow> string \<Rightarrow> string list io" where
  "listAttachedPolicies env target = (\<lambda>t.
     (iot_listAttachedPolicies env t target,
      [ListAttachedPolicies target (iot_listAttachedPolicies env t target)]))"

definition detachPolicy :: "env \<Rightarrow> string \<Rightarrow> string \<Rightarrow> unit io" where
  "detachPolicy env target policyName = (\<lambda>t.
     (iot_detachPolicy env t target policyName,
      [DetachPolicy target policyName (iot_detachPolicy env t target policyName)]))"

definition deleteCertificate :: "env \<Rightarrow> string option \<Rightarrow> unit io" where
  "deleteCertificate env cid = (\<lambda>t.
     (iot_deleteCertificate env t cid, [DeleteCertificate cid (iot_deleteCertificate env t cid)]))"

definition describeCACertificate :: "env \<Rightarrow> string \<Rightarrow> string io" where
  "describeCACertificate env cid = (\<lambda>t.
     (iot_describeCACertificate env t cid,
      [DescribeCACertificate cid (iot_describeCACertificate env t cid)]))"

definition getParameter :: "env \<Rightarrow> string \<Rightarrow> string io" where
  "getParameter env name = (\<lambda>t.
     (ssm_getParameter env t name, [GetParameter name (ssm_getParameter env t name)]))"

definition createCertificate :: "env \<Rightarrow> string \<Rightarrow> int \<Rightarrow> string \<Rightarrow> string \<Rightarrow> string io" where
  "createCertificate env csr days serviceKey serviceCertificate = (\<lambda>t.
     (pem_createCertificate env t csr days serviceKey serviceCertificate,
      [CreateCertificate csr days serviceKey serviceCertificate
         (pem_createCertificate env t csr days serviceKey serviceCertificate)]))"

definition iotRegisterCertificate :: "env \<Rightarrow> string \<Rightarrow> string \<Rightarrow> string io" where
  "iotRegisterCertificate env ca pem = (\<lambda>t.
     (iot_registerCertificate env t ca pem,
      [RegisterCertificate ca pem (iot_registerCertificate env t ca pem)]))"

definition attachThingPrincipal :: "env \<Rightarrow> string \<Rightarrow> string \<Rightarrow> unit io" where
  "attachThingPrincipal env princ thingName = (\<lambda>t.
     (iot_attachThingPrincipal env t princ thingName,
      [AttachThingPrincipal princ thingName
         (iot_attachThingPrincipal env t princ thingName)]))"

definition attachPolicy :: "env \<Rightarrow> string \<Rightarrow> string \<Rightarrow> unit io" where
  "attachPolicy env target policyName = (\<lambda>t.
     (iot_attachPolicy env t target policyName,
      [AttachPolicy target policyName (iot_attachPolicy env t target policyName)]))"

definition iotGetEffectivePolicies :: "env \<Rightarrow> string \<Rightarrow> string list io" where
  "iotGetEffectivePolicies env princ = (\<lambda>t.
     (iot_getEffectivePolicies env t princ,
      [GetEffectivePolicies princ (iot_getEffectivePolicies env t princ)]))"

definition issueCertificate ::
  "env \<Rightarrow> string \<Rightarrow> string \<Rightarrow> string \<Rightarrow> int \<Rightarrow> CertInfo option \<Rightarrow> string io" where
  "issueCertificate env csr caArn algorithm days subject = (\<lambda>t.
     (acmpca_issueCertificate env t csr caArn algorithm days subject,
      [IssueCertificate csr caArn algorithm days subject
         (acmpca_issueCertificate env t csr caArn algorithm days subject)]))"

definition waitForCertificateIssued :: "env \<Rightarrow> string \<Rightarrow> string \<Rightarrow> GetCertificateResponse io" where
  "waitForCertificateIssued env caArn certArn = (\<lambda>t.
     (acmpca_waitFor env t caArn certArn,
      [WaitForCertificateIssued caArn certArn (acmpca_waitFor env t caArn certArn)]))"

subsection \<open>Validation with \<^verbatim>\<open>ow\<close>\<close>

text \<open>\<^verbatim>\<open>ow(v, label, ow.string.nonEmpty)\<close> on a string (the label is optional).\<close>

definition ow_string_nonEmpty :: "platform \<Rightarrow> string option \<Rightarrow> string \<Rightarrow> unit io" where
  "ow_string_nonEmpty pf label v = (if v = [] then throw (owNonEmptyMessage pf label) else resolve ())"

text \<open>\<^verbatim>\<open>ow(v, ow.string.message(msg))\<close>: \<open>v\<close> must be a string, of any length.\<close>

definition ow_string_message :: "string \<Rightarrow> string option \<Rightarrow> unit io" where
  "ow_string_message msg v = (case v of None \<Rightarrow> throw msg | Some s \<Rightarrow> resolve ())"

subsection \<open>The private methods\<close>

definition getCertificateId :: "env \<Rightarrow> string \<Rightarrow> string \<Rightarrow> string io" where
  "getCertificateId env bucketName key =
     tryCatch
       (andThen (headObject env bucketName key) (\<lambda>head.
          case Metadata head of
            None \<Rightarrow> throw ''MISSING_CERTIFICATE_ID''
          | Some md \<Rightarrow>
              (case map_of md ''certificateid'' of
                 None \<Rightarrow> throw ''MISSING_CERTIFICATE_ID''
               | Some cid \<Rightarrow> resolve cid)))
       (\<lambda>err. if err = ''MISSING_CERTIFICATE_ID'' then throw err
              else throw ''CERTIFICATE_NOT_FOUND'')"

definition activateCertificate :: "env \<Rightarrow> string \<Rightarrow> unit io" where
  "activateCertificate env cid =
     tryCatch (updateCertificate env (Some cid) ACTIVE)
       (\<lambda>err. throw ''UNABLE_TO_ACTIVATE_CERTIFICATE'')"

definition generatePresignedUrl :: "env \<Rightarrow> string \<Rightarrow> string \<Rightarrow> int \<Rightarrow> string io" where
  "generatePresignedUrl env bucketName key expires =
     tryCatch (getSignedUrl env bucketName key expires)
       (\<lambda>err. throw ''UNABLE_TO_PRESIGN_URL'')"

text \<open>The payload is the response itself (the source publishes its JSON text).\<close>

definition publishResponse ::
  "platform \<Rightarrow> env \<Rightarrow> string \<Rightarrow> string \<Rightarrow> CertificateResponseModel \<Rightarrow> unit io" where
  "publishResponse pf env topicTemplate deviceId r =
     tryCatch (publish env (replace pf topicTemplate ''{thingName}'' deviceId) r)
       (\<lambda>err. throw ''UNABLE_TO_PUBLISH_RESPONSE'')"

definition getCaCertificate :: "env \<Rightarrow> string \<Rightarrow> string io" where
  "getCaCertificate env cid =
     tryCatch (describeCACertificate env cid)
       (\<lambda>err. throw ''UNABLE_TO_GET_CA_CERTIFICATE'')"

definition getCAKey :: "env \<Rightarrow> string \<Rightarrow> string io" where
  "getCAKey env rootCACertId =
     tryCatch (getParameter env (''cdf-ca-key-'' @ rootCACertId))
       (\<lambda>err. throw ''UNABLE_TO_FETCH_CA_KEY'')"

definition createCertificateFromCsr :: "config \<Rightarrow> env \<Rightarrow> string \<Rightarrow> string \<Rightarrow> string \<Rightarrow> string io" where
  "createCertificateFromCsr cfg env csr rootKey rootPem =
     createCertificate env csr (certificateExpiryDays cfg) rootKey rootPem"

definition registerCertificate :: "env \<Rightarrow> string \<Rightarrow> string \<Rightarrow> string io" where
  "registerCertificate env ca pem =
     tryCatch (iotRegisterCertificate env ca pem)
       (\<lambda>err. throw ''UNABLE_TO_REGISTER_CERTIFICATE'')"

definition attachCertificateToThing :: "env \<Rightarrow> string \<Rightarrow> string \<Rightarrow> unit io" where
  "attachCertificateToThing env certificateArn deviceId =
     tryCatch (attachThingPrincipal env certificateArn deviceId)
       (\<lambda>err. throw ''UNABLE_TO_ATTACH_CERTIFICATE'')"

definition certArn :: "config \<Rightarrow> string \<Rightarrow> string" where
  "certArn cfg cid = ''arn:aws:iot:'' @ region cfg @ '':'' @ accountId cfg @ '':cert/'' @ cid"

definition getEffectivePolicies :: "config \<Rightarrow> env \<Rightarrow> string \<Rightarrow> string list io" where
  "getEffectivePolicies cfg env certId = iotGetEffectivePolicies env (certArn cfg certId)"

text \<open>
  The loop \<^verbatim>\<open>for (const param of params) await this.iot.attachPolicy(param)\<close>; a parameter
  is a target and a policy name.
\<close>

fun attachPolicies :: "env \<Rightarrow> (string \<times> string) list \<Rightarrow> unit io" where
  "attachPolicies env [] = resolve ()"
| "attachPolicies env (param # params) =
     andThen (attachPolicy env (fst param) (snd param)) (\<lambda>u. attachPolicies env params)"

definition attachPolicyToCertificate ::
  "config \<Rightarrow> env \<Rightarrow> string \<Rightarrow> string \<Rightarrow> string option \<Rightarrow> unit io" where
  "attachPolicyToCertificate cfg env certificateArn policy previousCertificateId =
     andThen
       (if truthy previousCertificateId \<and> \<not> useDefaultPolicy cfg
        then andThen (getEffectivePolicies cfg env (the previousCertificateId))
               (\<lambda>policies. resolve (map (\<lambda>policyName. (certificateArn, policyName)) policies))
        else resolve [(certificateArn, policy)])
       (\<lambda>params. tryCatch (attachPolicies env params) (\<lambda>err. throw ''UNABLE_TO_ATTACH_POLICY''))"

text \<open>The loop \<^verbatim>\<open>for (const policy of principalPolicies.policies)\<close> of the cleanup.\<close>

fun detachPolicies :: "env \<Rightarrow> string \<Rightarrow> string list \<Rightarrow> unit io" where
  "detachPolicies env target [] = resolve ()"
| "detachPolicies env target (policyName # policies) =
     andThen (detachPolicy env target policyName) (\<lambda>u. detachPolicies env target policies)"

text \<open>
  The body of the loop of \<^verbatim>\<open>removePreviousCertificate\<close> for a principal that is not
  skipped (lines 569 to 590): unbind it from the device, list the things still bound to it and,
  when there are none, detach its policies, deactivate it and delete it.
\<close>

definition removePrincipal :: "config \<Rightarrow> env \<Rightarrow> string \<Rightarrow> string \<Rightarrow> unit io" where
  "removePrincipal cfg env deviceId princ =
     andThen (detachThingPrincipal env deviceId princ) (\<lambda>u.
     andThen (listPrincipalThings env princ) (\<lambda>things.
       if things = [] then
         andThen (listAttachedPolicies env (certArn cfg (interpolate (certificateIdOf princ))))
           (\<lambda>policies.
         andThen (detachPolicies env (certArn cfg (interpolate (certificateIdOf princ))) policies)
           (\<lambda>u.
         andThen (updateCertificate env (certificateIdOf princ) INACTIVE) (\<lambda>u.
         deleteCertificate env (certificateIdOf princ))))
       else resolve ()))"

text \<open>The two tests at the head of the loop body: the principal is left alone.\<close>

definition skipped :: "string \<Rightarrow> string option \<Rightarrow> string \<Rightarrow> bool" where
  "skipped certId previousCertificateId princ =
     (if str_includes princ certId then True
      else if truthy previousCertificateId \<and> \<not> str_includes princ (the previousCertificateId)
      then True
      else False)"

fun removePrincipals ::
  "config \<Rightarrow> env \<Rightarrow> string \<Rightarrow> string \<Rightarrow> string option \<Rightarrow> string list \<Rightarrow> unit io" where
  "removePrincipals cfg env deviceId certId previousCertificateId [] = resolve ()"
| "removePrincipals cfg env deviceId certId previousCertificateId (princ # principals) =
     (if skipped certId previousCertificateId princ
      then removePrincipals cfg env deviceId certId previousCertificateId principals
      else andThen (removePrincipal cfg env deviceId princ)
             (\<lambda>u. removePrincipals cfg env deviceId certId previousCertificateId principals))"

definition removePreviousCertificate ::
  "config \<Rightarrow> env \<Rightarrow> string \<Rightarrow> string \<Rightarrow> string option \<Rightarrow> unit io" where
  "removePreviousCertificate cfg env deviceId certId previousCertificateId =
     andThen (listThingPrincipals env deviceId)
       (removePrincipals cfg env deviceId certId previousCertificateId)"

definition getSSMCertificate :: "config \<Rightarrow> env \<Rightarrow> string \<Rightarrow> string \<Rightarrow> string \<Rightarrow> string io" where
  "getSSMCertificate cfg env csr caPem rootCACertId =
     andThen (getCAKey env rootCACertId) (\<lambda>caKey. createCertificateFromCsr cfg env csr caKey caPem)"

text \<open>
  The request to ACM PCA carries the subject of \<^verbatim>\<open>certInfo\<close> when one is given; the
  answer of the waiter is the leaf certificate and its chain.
\<close>

definition getACMCertificate ::
  "config \<Rightarrow> env \<Rightarrow> string \<Rightarrow> string \<Rightarrow> CertInfo option \<Rightarrow> string io" where
  "getACMCertificate cfg env csr caArn info =
     andThen (issueCertificate env csr caArn (acmpcaSigningAlgorithm cfg)
                (certificateExpiryDays cfg) info) (\<lambda>certificateArn.
     andThen (tryCatch (waitForCertificateIssued env caArn certificateArn)
                (\<lambda>err. throw ''UNABLE_TO_ISSUE_CERTIFICATE'')) (\<lambda>cert.
     resolve (Certificate cert @ [CHR 0x0A] @ CertificateChain cert)))"

subsection \<open>The public operations\<close>

text \<open>
  The \<^verbatim>\<open>catch\<close> block of each operation: the message of the error is written into the
  response, the response is published on the failure topic, and the error is thrown again.
\<close>

definition catchBlock ::
  "platform \<Rightarrow> env \<Rightarrow> string \<Rightarrow> string \<Rightarrow> CertificateResponseModel \<Rightarrow> string \<Rightarrow> unit io" where
  "catchBlock pf env failureTopic deviceId response err =
     andThen (publishResponse pf env failureTopic deviceId (response\<lparr>message := Some err\<rparr>))
       (\<lambda>u. throw err)"

text \<open>
  The \<^verbatim>\<open>try\<close> block of each operation has the same shape: the steps, then the fields of
  the success response are assigned from what the steps returned (\<open>respond\<close>), then the
  response is published on the success topic. The response is a local variable that the
  \<^verbatim>\<open>catch\<close> block reads: an error of the steps finds it empty, an error of the success
  publish finds it assigned.
\<close>

definition tryThenPublish ::
  "'a io \<Rightarrow> ('a \<Rightarrow> CertificateResponseModel) \<Rightarrow> (CertificateResponseModel \<Rightarrow> unit io) \<Rightarrow>
   (CertificateResponseModel \<Rightarrow> string \<Rightarrow> unit io) \<Rightarrow> unit io" where
  "tryThenPublish steps respond publishSuccess handler = (\<lambda>t.
     case steps t of
       (Inl err, es) \<Rightarrow>
         (case handler emptyResponse err (t @ es) of (r, es') \<Rightarrow> (r, es @ es'))
     | (Inr a, es) \<Rightarrow>
         (case publishSuccess (respond a) (t @ es) of
            (Inl err, es') \<Rightarrow>
              (case handler (respond a) err (t @ es @ es') of (r, es'') \<Rightarrow> (r, es @ es' @ es''))
          | (Inr u, es') \<Rightarrow> (Inr u, es @ es')))"

text \<open>The steps of \<^verbatim>\<open>get\<close> before the response is assigned; they return the signed URL.\<close>

definition get_steps :: "config \<Rightarrow> platform \<Rightarrow> env \<Rightarrow> string \<Rightarrow> string io" where
  "get_steps cfg pf env deviceId =
     andThen (ow_string_nonEmpty pf (Some ''deviceId'') deviceId) (\<lambda>u.
     andThen (isWhitelisted env deviceId) (\<lambda>whitelisted.
       if whitelisted \<noteq> True then throw ''DEVICE_NOT_WHITELISTED''
       else
         andThen (getCertificateId env (s3Bucket cfg) (s3Prefix cfg @ deviceId @ s3Suffix cfg))
           (\<lambda>cid.
         andThen (activateCertificate env cid) (\<lambda>u.
         andThen (generatePresignedUrl env (s3Bucket cfg)
                    (s3Prefix cfg @ deviceId @ s3Suffix cfg) (presignedUrlExpiresInSeconds cfg))
           (\<lambda>presignedUrl.
         andThen (updateAssetStatus env deviceId) (\<lambda>u.
         resolve presignedUrl))))))"

definition get :: "config \<Rightarrow> platform \<Rightarrow> env \<Rightarrow> string \<Rightarrow> unit io" where
  "get cfg pf env deviceId =
     tryThenPublish (get_steps cfg pf env deviceId)
       (\<lambda>presignedUrl. emptyResponse\<lparr>location := Some presignedUrl\<rparr>)
       (publishResponse pf env (mqttGetSuccessTopic cfg) deviceId)
       (catchBlock pf env (mqttGetFailureTopic cfg) deviceId)"

text \<open>
  The choice of the authority in \<^verbatim>\<open>getWithCsr\<close> when ACM PCA is enabled (lines 153 to
  205): the id of the CA certificate, the ARN of the CA and the certificate info. An alias is
  looked up in \<^verbatim>\<open>process.env\<close>; parameters of the request have priority over the
  configuration.

  The source has the same block twice, for \<^verbatim>\<open>awsiotCaAlias\<close>/\<^verbatim>\<open>awsiotCaID\<close>
  (prefix \<^verbatim>\<open>CA_\<close>) and for \<^verbatim>\<open>acmpcaCaAlias\<close>/\<^verbatim>\<open>acmpcaCaArn\<close> (prefix
  \<^verbatim>\<open>PCA_\<close>): with an alias, the identifier is read from the environment and must be a
  string; without one, the identifier of the request must be a string. \<open>aliasOrId\<close> is that
  block, returning the identifier the request holds afterwards.
\<close>

definition aliasOrId :: "platform \<Rightarrow> string \<Rightarrow> string \<Rightarrow> string \<Rightarrow> string option \<Rightarrow> string option \<Rightarrow>
    string option io" where
  "aliasOrId pf envPrefix invalidAlias neither alias ident =
     (if truthy alias
      then andThen (ow_string_message invalidAlias
                      (processEnv pf (envPrefix @ toUpperCase pf (the alias))))
             (\<lambda>u. resolve (processEnv pf (envPrefix @ toUpperCase pf (the alias))))
      else andThen (ow_string_message neither ident) (\<lambda>u. resolve ident))"

definition selectAuthority ::
  "config \<Rightarrow> platform \<Rightarrow> ACMPCAParameters option \<Rightarrow> (string \<times> string \<times> CertInfo option) io" where
  "selectAuthority cfg pf acmpcaParameters =
     (case acmpcaParameters of
        None \<Rightarrow> resolve (caCertificateId cfg, config.acmpcaCaArn cfg, None)
      | Some ps \<Rightarrow>
          andThen (aliasOrId pf ''CA_'' ''Invalid `awsiotCaAlias`.''
                     ''Either `awsiotCaAlias` or `awsiotCaId` must be provided''
                     (awsiotCaAlias ps) (awsiotCaID ps)) (\<lambda>caID.
          andThen (aliasOrId pf ''PCA_'' ''Invalid `acmpcaCaAlias`.''
                     ''Either `acmpcaCaAlias` or `acmpcaCaArn` must be provided.''
                     (acmpcaCaAlias ps) (ACMPCAParameters.acmpcaCaArn ps)) (\<lambda>caArn.
          resolve (if truthy caID then the caID else caCertificateId cfg,
                   if truthy caArn then the caArn else config.acmpcaCaArn cfg,
                   certInfo ps))))"

text \<open>
  The issuance in \<^verbatim>\<open>getWithCsr\<close> (lines 148 to 213): the PEM of the CA certificate
  and the new certificate, from ACM PCA when it is enabled and from the CA key in SSM
  otherwise.
\<close>

definition issue :: "config \<Rightarrow> platform \<Rightarrow> env \<Rightarrow> string \<Rightarrow> ACMPCAParameters option \<Rightarrow>
    (string \<times> string) io" where
  "issue cfg pf env csr acmpcaParameters =
     (if acmpcaEnabled cfg then
        andThen (selectAuthority cfg pf acmpcaParameters) (\<lambda>sel.
        andThen (getCaCertificate env (fst sel)) (\<lambda>caPem.
        andThen (getACMCertificate cfg env csr (fst (snd sel)) (snd (snd sel))) (\<lambda>cert.
        resolve (caPem, cert))))
      else
        andThen (getCaCertificate env (caCertificateId cfg)) (\<lambda>caPem.
        andThen (getSSMCertificate cfg env csr caPem (caCertificateId cfg)) (\<lambda>cert.
        resolve (caPem, cert))))"

text \<open>
  The steps of \<^verbatim>\<open>getWithCsr\<close> before the response is assigned; they return the
  certificate and its ARN.
\<close>

definition getWithCsr_steps ::
  "config \<Rightarrow> platform \<Rightarrow> env \<Rightarrow> string \<Rightarrow> string \<Rightarrow> string option \<Rightarrow> ACMPCAParameters option \<Rightarrow>
   (string \<times> string) io" where
  "getWithCsr_steps cfg pf env deviceId csr previousCertificateId acmpcaParameters =
     andThen (ow_string_nonEmpty pf (Some ''deviceId'') deviceId) (\<lambda>u.
     andThen (ow_string_nonEmpty pf None csr) (\<lambda>u.
     andThen (isWhitelisted env deviceId) (\<lambda>whitelisted.
       if whitelisted \<noteq> True then throw ''DEVICE_NOT_WHITELISTED''
       else
         andThen (issue cfg pf env csr acmpcaParameters) (\<lambda>issued.
         andThen (registerCertificate env (fst issued) (snd issued)) (\<lambda>certificateArn.
         andThen (attachCertificateToThing env certificateArn deviceId) (\<lambda>u.
         andThen (attachPolicyToCertificate cfg env certificateArn
                    (rotatedCertificatePolicy cfg) previousCertificateId) (\<lambda>u.
         andThen (updateAssetStatus env deviceId) (\<lambda>u.
         resolve (snd issued, certificateArn)))))))))"

definition getWithCsr ::
  "config \<Rightarrow> platform \<Rightarrow> env \<Rightarrow> string \<Rightarrow> string \<Rightarrow> string option \<Rightarrow> ACMPCAParameters option \<Rightarrow>
   unit io" where
  "getWithCsr cfg pf env deviceId csr previousCertificateId acmpcaParameters =
     tryThenPublish (getWithCsr_steps cfg pf env deviceId csr previousCertificateId acmpcaParameters)
       (\<lambda>out. emptyResponse\<lparr>certificate := Some (fst out),
                              certificateId := certificateIdOf (snd out)\<rparr>)
       (publishResponse pf env (mqttGetSuccessTopic cfg) deviceId)
       (catchBlock pf env (mqttGetFailureTopic cfg) deviceId)"

text \<open>The steps of \<^verbatim>\<open>ack\<close> inside its \<^verbatim>\<open>try\<close> block.\<close>

definition ack_steps ::
  "config \<Rightarrow> env \<Rightarrow> string \<Rightarrow> string \<Rightarrow> string option \<Rightarrow> unit io" where
  "ack_steps cfg env deviceId certId previousCertificateId =
     andThen (isWhitelisted env deviceId) (\<lambda>whitelisted.
       if whitelisted \<noteq> True then throw ''DEVICE_NOT_WHITELISTED''
       else
         andThen (removeThingFromThingGroup env deviceId (thingGroupName cfg)) (\<lambda>u.
         if deletePreviousCertificate cfg
         then removePreviousCertificate cfg env deviceId certId previousCertificateId
         else resolve ()))"

text \<open>In \<^verbatim>\<open>ack\<close> the two \<^verbatim>\<open>ow\<close> checks stand before the \<^verbatim>\<open>try\<close> block.\<close>

definition ack ::
  "config \<Rightarrow> platform \<Rightarrow> env \<Rightarrow> string \<Rightarrow> string \<Rightarrow> string option \<Rightarrow> unit io" where
  "ack cfg pf env deviceId certId previousCertificateId =
     andThen (ow_string_nonEmpty pf (Some ''deviceId'') deviceId) (\<lambda>u.
     andThen (ow_string_nonEmpty pf None certId) (\<lambda>u.
     tryThenPublish (ack_steps cfg env deviceId certId previousCertificateId)
       (\<lambda>u. emptyResponse\<lparr>message := Some ''OK''\<rparr>)
       (publishResponse pf env (mqttAckSuccessTopic cfg) deviceId)
       (catchBlock pf env (mqttAckFailureTopic cfg) deviceId)))"

subsection \<open>Reading a history\<close>

text \<open>The kinds of events that the theorems below count or look for.\<close>

fun isPublish :: "event \<Rightarrow> bool" where
  "isPublish (Publish topic payload a) = True"
| "isPublish e = False"

fun isUpdateAssetStatus :: "event \<Rightarrow> bool" where
  "isUpdateAssetStatus (UpdateAssetStatus deviceId a) = True"
| "isUpdateAssetStatus e = False"

fun isAttachPolicy :: "event \<Rightarrow> bool" where
  "isAttachPolicy (AttachPolicy target policyName a) = True"
| "isAttachPolicy e = False"

text \<open>
  The calls between the listing of the things of an orphaned principal and its deletion:
  listing and detaching its policies, and deactivating it.
\<close>

fun cleanupStep :: "event \<Rightarrow> bool" where
  "cleanupStep (ListAttachedPolicies target a) = True"
| "cleanupStep (DetachPolicy target policyName a) = True"
| "cleanupStep (UpdateCertificate cid INACTIVE a) = True"
| "cleanupStep e = False"

text \<open>An event that leaves the certificate \<open>certId\<close> bound, active and in place.\<close>

fun spares :: "string \<Rightarrow> event \<Rightarrow> bool" where
  "spares certId (DetachThingPrincipal thing princ a) =
     (\<not> str_includes princ certId \<and> certificateIdOf princ \<noteq> Some certId)"
| "spares certId (UpdateCertificate cid newStatus a) = (cid \<noteq> Some certId)"
| "spares certId (DeleteCertificate cid a) = (cid \<noteq> Some certId)"
| "spares certId e = True"

text \<open>
  Every deletion in the history follows, for one principal that does not contain \<open>certId\<close>,
  the unbinding of that principal from the device and a listing of its things that found
  none, with nothing but cleanup steps in between.
\<close>

definition deletesGuarded :: "string \<Rightarrow> string \<Rightarrow> event list \<Rightarrow> bool" where
  "deletesGuarded deviceId certId es =
     (\<forall>es1 cid a es2. es = es1 @ DeleteCertificate cid a # es2 \<longrightarrow>
        (\<exists>es0 princ mid.
           es1 = es0 @ DetachThingPrincipal deviceId princ (Inr ()) #
                       ListPrincipalThings princ (Inr []) # mid \<and>
           certificateIdOf princ = cid \<and> \<not> str_includes princ certId \<and>
           (\<forall>e\<in>set mid. cleanupStep e)))"


text \<open>
  Two properties of a computation, used to follow kinds of events through a sequence of
  steps: every event it adds satisfies \<open>P\<close>, whatever the history and the answers; and it
  calls the status update of the device at most once, as its last call, resolving exactly
  when that call is accepted.
\<close>

definition emits :: "(event \<Rightarrow> bool) \<Rightarrow> 'a io \<Rightarrow> bool" where
  "emits P m = (\<forall>t r es. m t = (r, es) \<longrightarrow> (\<forall>e\<in>set es. P e))"

definition updatesLast :: "string \<Rightarrow> 'a io \<Rightarrow> bool" where
  "updatesLast deviceId m =
     (\<forall>t r es. m t = (r, es) \<longrightarrow>
        ((\<forall>e\<in>set es. \<not> isUpdateAssetStatus e) \<and> isl r) \<or>
        (\<exists>es0 a. es = es0 @ [UpdateAssetStatus deviceId a] \<and>
           (\<forall>e\<in>set es0. \<not> isUpdateAssetStatus e) \<and> (isl r \<longleftrightarrow> isl a)))"

subsection \<open>A deployment to run the operations on\<close>

definition demoConfig :: config where
  "demoConfig = \<lparr>accountId = ''1'', region = ''r'', s3Bucket = ''b'', s3Prefix = ''k/'',
     s3Suffix = ''.z'', presignedUrlExpiresInSeconds = 60, mqttGetSuccessTopic = ''g/ok'',
     mqttGetFailureTopic = ''g/no'', mqttAckSuccessTopic = ''a/ok'', mqttAckFailureTopic = ''a/no'',
     thingGroupName = ''grp'', caCertificateId = ''ca1'', useDefaultPolicy = False,
     rotatedCertificatePolicy = ''pol'', certificateExpiryDays = 30,
     deletePreviousCertificate = True, acmpcaCaArn = ''pca'', acmpcaEnabled = True,
     acmpcaSigningAlgorithm = ''alg''\<rparr>"

definition demoPlatform :: platform where
  "demoPlatform = \<lparr>owNonEmptyMessage = (\<lambda>label. ''empty''), processEnv = (\<lambda>name. None),
     toUpperCase = (\<lambda>s. s), replace = (\<lambda>s pattern replacement. s)\<rparr>"

text \<open>
  Collaborators that answer every call: every device but \<open>x\<close> is whitelisted; the device has
  the principals \<open>c/c1\<close>, \<open>c/c2\<close> and \<open>c/c3\<close>, of which \<open>c/c3\<close> is also bound to
  the thing \<open>e\<close>.
\<close>

definition demoEnv :: env where
  "demoEnv = \<lparr>
     registry_isWhitelisted = (\<lambda>t deviceId. Inr (deviceId \<noteq> ''x'')),
     registry_updateAssetStatus = (\<lambda>t deviceId. Inr ()),
     s3_headObject = (\<lambda>t bucket key. Inr \<lparr>Metadata = Some [(''certificateid'', ''c1'')]\<rparr>),
     s3_getSignedUrl = (\<lambda>t bucket key expires. Inr ''url''),
     iot_updateCertificate = (\<lambda>t cid newStatus. Inr ()),
     iotData_publish = (\<lambda>t topic payload. Inr ()),
     iot_removeThingFromThingGroup = (\<lambda>t thingName groupName. Inr ()),
     iot_listThingPrincipals = (\<lambda>t thingName. Inr [''c/c1'', ''c/c2'', ''c/c3'']),
     iot_detachThingPrincipal = (\<lambda>t thingName princ. Inr ()),
     iot_listPrincipalThings = (\<lambda>t princ. Inr (if princ = ''c/c3'' then [''e''] else [])),
     iot_listAttachedPolicies = (\<lambda>t target. Inr [''p1'']),
     iot_detachPolicy = (\<lambda>t target policyName. Inr ()),
     iot_deleteCertificate = (\<lambda>t cid. Inr ()),
     iot_describeCACertificate = (\<lambda>t cid. Inr ''ca''),
     ssm_getParameter = (\<lambda>t name. Inr ''key''),
     pem_createCertificate = (\<lambda>t csr days serviceKey serviceCertificate. Inr ''crt''),
     iot_registerCertificate = (\<lambda>t ca pem. Inr ''c/n1''),
     iot_attachThingPrincipal = (\<lambda>t princ thingName. Inr ()),
     iot_attachPolicy = (\<lambda>t target policyName. Inr ()),
     iot_getEffectivePolicies = (\<lambda>t princ. Inr [''p1'', ''p2'']),
     acmpca_issueCertificate = (\<lambda>t csr caArn algorithm days subject. Inr ''new''),
     acmpca_waitFor = (\<lambda>t caArn arn. Inr \<lparr>Certificate = ''L'', CertificateChain = ''C''\<rparr>)\<rparr>"

text \<open>The same collaborators with a broker that rejects every publish.\<close>

definition offlineEnv :: env where
  "offlineEnv = demoEnv\<lparr>iotData_publish := (\<lambda>t topic payload. Inl ''offline'')\<rparr>"

text \<open>The same collaborators with a broker that rejects a publish on the topic \<open>g/ok\<close>.\<close>

definition halfEnv :: env where
  "halfEnv = demoEnv\<lparr>iotData_publish :=
     (\<lambda>t topic payload. if topic = ''g/ok'' then Inl ''offline'' else Inr ())\<rparr>"

text \<open>
  The same collaborators with one call that fails: a staged object without metadata, a
  rejected lookup of the staged object, a rejected activation, a failure to sign the URL, and
  a registry that rejects the attachment of the policy \<open>p1\<close>.
\<close>

definition noMetadataEnv :: env where
  "noMetadataEnv = demoEnv\<lparr>s3_headObject := (\<lambda>t bucket key. Inr \<lparr>Metadata = None\<rparr>)\<rparr>"

definition noObjectEnv :: env where
  "noObjectEnv = demoEnv\<lparr>s3_headObject := (\<lambda>t bucket key. Inl ''NotFound'')\<rparr>"

definition noActivationEnv :: env where
  "noActivationEnv = demoEnv\<lparr>iot_updateCertificate := (\<lambda>t cid newStatus. Inl ''denied'')\<rparr>"

definition noUrlEnv :: env where
  "noUrlEnv = demoEnv\<lparr>s3_getSignedUrl := (\<lambda>t bucket key expires. Inl ''no credentials'')\<rparr>"

definition pickyEnv :: env where
  "pickyEnv = demoEnv\<lparr>iot_attachPolicy :=
     (\<lambda>t target policyName. if policyName = ''p1'' then Inl ''denied'' else Inr ())\<rparr>"



section \<open>Properties\<close>

subsection \<open>Strings\<close>

lemma str_includes_sublist: "str_includes s x \<longleftrightarrow> sublist x s"
  by (induction s) (auto simp: sublist_Cons_right)

lemma str_split_nonempty: "str_split sep s \<noteq> []"
  by (induction s) (auto split: list.splits)

lemma str_split_hd_prefix: "str_split sep s = w # ws \<Longrightarrow> prefix w s"
  by (induction s arbitrary: w ws) (auto split: list.splits if_splits)

lemma str_split_sublist: "w \<in> set (str_split sep s) \<Longrightarrow> sublist w s"
proof (induction s arbitrary: w)
  case Nil
  then show ?case by simp
next
  case (Cons c s)
  show ?case
  proof (cases "c = sep")
    case True
    with Cons show ?thesis by (auto simp: sublist_Cons_right)
  next
    case False
    obtain w0 ws where sp: "str_split sep s = w0 # ws"
      using str_split_nonempty [of sep s] by (cases "str_split sep s") auto
    from Cons.prems False sp have "w = c # w0 \<or> w \<in> set ws" by simp
    then show ?thesis
    proof
      assume "w = c # w0"
      with str_split_hd_prefix [OF sp] show ?thesis by (simp add: sublist_Cons_right)
    next
      assume "w \<in> set ws"
      with sp have "w \<in> set (str_split sep s)" by simp
      from Cons.IH [OF this] show ?thesis by (simp add: sublist_Cons_right)
    qed
  qed
qed

lemma second_mem: "second xs = Some y \<Longrightarrow> y \<in> set xs"
  by (cases xs rule: second.cases) auto

lemma certificateIdOf_includes: "certificateIdOf p = Some c \<Longrightarrow> str_includes p c"
  by (auto simp: certificateIdOf_def str_includes_sublist dest!: second_mem str_split_sublist)



subsection \<open>Sequencing\<close>

lemma andThen_Inr:
  "andThen m f t = (Inr b, es) \<longleftrightarrow>
     (\<exists>a es1 es2. m t = (Inr a, es1) \<and> f a (t @ es1) = (Inr b, es2) \<and> es = es1 @ es2)"
  by (auto simp: andThen_def split: prod.splits sum.splits)

lemma andThen_cases:
  assumes "andThen m f t = (r, es)"
  obtains (stop) e where "m t = (Inl e, es)" "r = Inl e"
        | (go) a es1 es2 where "m t = (Inr a, es1)" "f a (t @ es1) = (r, es2)" "es = es1 @ es2"
  using assms by (auto simp: andThen_def split: prod.splits sum.splits)

subsection \<open>The cleanup never touches the current certificate\<close>

lemma detachPolicies_events:
  "detachPolicies env target ps t = (r, es) \<Longrightarrow> e \<in> set es \<Longrightarrow> \<exists>n a. e = DetachPolicy target n a"
proof (induction ps arbitrary: t r es)
  case Nil
  then show ?case by (simp add: resolve_def)
next
  case (Cons p ps)
  from Cons.prems(1)
  have "andThen (detachPolicy env target p) (\<lambda>u. detachPolicies env target ps) t = (r, es)"
    by simp
  then show ?case
  proof (cases rule: andThen_cases)
    case (stop e')
    with Cons.prems(2) show ?thesis by (auto simp: detachPolicy_def)
  next
    case (go a es1 es2)
    with Cons.prems(2) Cons.IH [OF go(2)] show ?thesis by (auto simp: detachPolicy_def)
  qed
qed

lemmas call_defs = isWhitelisted_def updateAssetStatus_def headObject_def getSignedUrl_def
  updateCertificate_def publish_def removeThingFromThingGroup_def listThingPrincipals_def
  detachThingPrincipal_def listPrincipalThings_def listAttachedPolicies_def detachPolicy_def
  deleteCertificate_def describeCACertificate_def getParameter_def createCertificate_def
  iotRegisterCertificate_def attachThingPrincipal_def attachPolicy_def iotGetEffectivePolicies_def
  issueCertificate_def waitForCertificateIssued_def

lemma detachPolicies_cleanupStep:
  "detachPolicies env target ps t = (r, es) \<Longrightarrow> \<forall>e\<in>set es. cleanupStep e"
  by (auto dest: detachPolicies_events)

lemma split_at_last:
  assumes "\<forall>e\<in>set pre. \<not> P e" "P y" "pre @ [x] = es1 @ y # es2"
  shows "es1 = pre \<and> es2 = [] \<and> x = y"
  using assms
proof (induction pre arbitrary: es1)
  case Nil
  then show ?case by (auto simp: Cons_eq_append_conv)
next
  case (Cons z pre)
  show ?case
  proof (cases es1)
    case Nil
    with Cons.prems show ?thesis by auto
  next
    case (Cons z' es1')
    with Cons.prems Cons.IH [of es1'] show ?thesis by auto
  qed
qed

lemma cleanupStep_not_delete: "cleanupStep e \<Longrightarrow> \<not> (\<exists>cid a. e = DeleteCertificate cid a)"
  by (cases e) auto

lemma detachPolicies_spares:
  "detachPolicies env target ps t = (r, es) \<Longrightarrow> \<forall>e\<in>set es. spares c e"
  by (auto dest: detachPolicies_events)

lemma removePrincipal_events:
  assumes "removePrincipal cfg env d p t = (r, es)" and nc: "\<not> str_includes p c"
  shows "(\<forall>e\<in>set es. spares c e) \<and>
         ((\<forall>e\<in>set es. \<not> (\<exists>cid a. e = DeleteCertificate cid a)) \<or>
          (\<exists>mid a. es = (DetachThingPrincipal d p (Inr ()) # ListPrincipalThings p (Inr []) # mid) @
                        [DeleteCertificate (certificateIdOf p) a] \<and>
                  (\<forall>e\<in>set mid. cleanupStep e)))"
proof -
  from nc have nc': "certificateIdOf p \<noteq> Some c"
    by (auto dest: certificateIdOf_includes)
  let ?cid = "certificateIdOf p"
  let ?target = "certArn cfg (interpolate ?cid)"
  let ?nodel = "\<lambda>es. \<forall>e\<in>set es. \<not> (\<exists>cid a. e = DeleteCertificate cid a)"
  from assms(1) have "andThen (detachThingPrincipal env d p) (\<lambda>u.
     andThen (listPrincipalThings env p) (\<lambda>things.
       if things = [] then
         andThen (listAttachedPolicies env ?target) (\<lambda>policies.
         andThen (detachPolicies env ?target policies) (\<lambda>u.
         andThen (updateCertificate env ?cid INACTIVE) (\<lambda>u.
         deleteCertificate env ?cid)))
       else resolve ())) t = (r, es)"
    by (simp add: removePrincipal_def)
  then show ?thesis
  proof (cases rule: andThen_cases)
    case (stop e)
    with nc nc' show ?thesis by (auto simp: detachThingPrincipal_def)
  next
    case detach: (go u es1 es2)
    then have es1: "es1 = [DetachThingPrincipal d p (Inr ())]"
      by (auto simp: detachThingPrincipal_def)
    from detach(2) show ?thesis
    proof (cases rule: andThen_cases)
      case (stop e)
      with detach(3) es1 nc nc' show ?thesis by (auto simp: listPrincipalThings_def)
    next
      case list: (go things es3 es4)
      then have es3: "es3 = [ListPrincipalThings p (Inr things)]"
        by (auto simp: listPrincipalThings_def)
      show ?thesis
      proof (cases "things = []")
        case False
        with list(2) have "es4 = []" by (simp add: resolve_def)
        with detach(3) list(3) es1 es3 nc nc' show ?thesis by auto
      next
        case True
        with list(2) have "andThen (listAttachedPolicies env ?target) (\<lambda>policies.
            andThen (detachPolicies env ?target policies) (\<lambda>u.
            andThen (updateCertificate env ?cid INACTIVE) (\<lambda>u.
            deleteCertificate env ?cid))) ((t @ es1) @ es3) = (r, es4)" by simp
        then show ?thesis
        proof (cases rule: andThen_cases)
          case (stop e)
          with detach(3) list(3) es1 es3 nc nc' show ?thesis by (auto simp: listAttachedPolicies_def)
        next
          case la: (go policies es5 es6)
          then have es5: "\<exists>a. es5 = [ListAttachedPolicies ?target a]"
            by (auto simp: listAttachedPolicies_def)
          from la(2) show ?thesis
          proof (cases rule: andThen_cases)
            case (stop e)
            from detachPolicies_cleanupStep [OF stop(1)] have "?nodel es6"
              by (auto dest: cleanupStep_not_delete)
            with detach(3) list(3) la(3) es1 es3 es5 nc nc' detachPolicies_spares [OF stop(1), of c]
            show ?thesis by auto
          next
            case dp: (go u' es7 es8)
            from detachPolicies_cleanupStep [OF dp(1)] have c7: "\<forall>e\<in>set es7. cleanupStep e" .
            from detachPolicies_spares [OF dp(1)] have s7: "\<forall>e\<in>set es7. spares c e" .
            from dp(2) show ?thesis
            proof (cases rule: andThen_cases)
              case (stop e)
              then have "\<exists>a. es8 = [UpdateCertificate ?cid INACTIVE a]"
                by (auto simp: updateCertificate_def)
              with c7 s7 detach(3) list(3) la(3) dp(3) es1 es3 es5 nc nc' show ?thesis
                by (auto dest: cleanupStep_not_delete)
            next
              case up: (go u'' es9 es10)
              then have es9: "\<exists>a. es9 = [UpdateCertificate ?cid INACTIVE a]"
                by (auto simp: updateCertificate_def)
              from up(2) have es10: "\<exists>a. es10 = [DeleteCertificate ?cid a]"
                by (auto simp: deleteCertificate_def)
              from es5 es9 es10 c7 obtain a where
                "es = (DetachThingPrincipal d p (Inr ()) # ListPrincipalThings p (Inr []) #
                       (es5 @ es7 @ es9)) @ [DeleteCertificate ?cid a]"
                "\<forall>e\<in>set (es5 @ es7 @ es9). cleanupStep e"
                using detach(3) list(3) la(3) dp(3) up(3) es1 es3 True by auto
              moreover have "\<forall>e\<in>set es. spares c e"
                using es5 es9 es10 s7 detach(3) list(3) la(3) dp(3) up(3) es1 es3 nc nc' by auto
              ultimately show ?thesis by blast
            qed
          qed
        qed
      qed
    qed
  qed
qed

lemma removePrincipal_guard:
  assumes "removePrincipal cfg env d p t = (r, es)" "es = es1 @ DeleteCertificate cid a # es2"
    "\<not> str_includes p c"
  shows "\<exists>mid. es1 = DetachThingPrincipal d p (Inr ()) # ListPrincipalThings p (Inr []) # mid \<and>
           (\<forall>e\<in>set mid. cleanupStep e) \<and> cid = certificateIdOf p \<and> es2 = []"
proof -
  from removePrincipal_events [OF assms(1) assms(3)]
  have "(\<forall>e\<in>set es. \<not> (\<exists>cid a. e = DeleteCertificate cid a)) \<or>
          (\<exists>mid a. es = (DetachThingPrincipal d p (Inr ()) # ListPrincipalThings p (Inr []) # mid) @
                        [DeleteCertificate (certificateIdOf p) a] \<and>
                  (\<forall>e\<in>set mid. cleanupStep e))" by blast
  then show ?thesis
  proof
    assume "\<forall>e\<in>set es. \<not> (\<exists>cid a. e = DeleteCertificate cid a)"
    with assms(2) show ?thesis by auto
  next
    assume "\<exists>mid a. es = (DetachThingPrincipal d p (Inr ()) # ListPrincipalThings p (Inr []) # mid) @
                        [DeleteCertificate (certificateIdOf p) a] \<and>
                  (\<forall>e\<in>set mid. cleanupStep e)"
    then obtain mid a' where es: "es = (DetachThingPrincipal d p (Inr ()) #
        ListPrincipalThings p (Inr []) # mid) @ [DeleteCertificate (certificateIdOf p) a']"
      and mid: "\<forall>e\<in>set mid. cleanupStep e" by blast
    have nd: "\<forall>e\<in>set (DetachThingPrincipal d p (Inr ()) # ListPrincipalThings p (Inr []) # mid).
        \<not> (\<exists>cid a. e = DeleteCertificate cid a)"
      using mid by (auto dest: cleanupStep_not_delete)
    have "(DetachThingPrincipal d p (Inr ()) # ListPrincipalThings p (Inr []) # mid) @
        [DeleteCertificate (certificateIdOf p) a'] = es1 @ DeleteCertificate cid a # es2"
      using es assms(2) by simp
    from split_at_last [OF nd _ this] mid show ?thesis by auto
  qed
qed

lemma deletesGuarded_append:
  assumes "deletesGuarded d c es" "deletesGuarded d c es'"
  shows "deletesGuarded d c (es @ es')"
  unfolding deletesGuarded_def
proof (intro allI impI)
  fix es1 cid a es2
  assume eq: "es @ es' = es1 @ DeleteCertificate cid a # es2"
  then obtain us where "(es = es1 @ us \<and> us @ es' = DeleteCertificate cid a # es2) \<or>
      (es @ us = es1 \<and> es' = us @ DeleteCertificate cid a # es2)"
    by (auto simp: append_eq_append_conv2)
  then show "\<exists>es0 p mid. es1 = es0 @ DetachThingPrincipal d p (Inr ()) #
        ListPrincipalThings p (Inr []) # mid \<and>
      certificateIdOf p = cid \<and> \<not> str_includes p c \<and> (\<forall>e\<in>set mid. cleanupStep e)"
  proof
    assume a1: "es = es1 @ us \<and> us @ es' = DeleteCertificate cid a # es2"
    show ?thesis
    proof (cases us)
      case Nil
      with a1 have "es' = [] @ DeleteCertificate cid a # es2" by simp
      with assms(2) have "\<exists>es0 p mid. [] = es0 @ DetachThingPrincipal d p (Inr ()) #
        ListPrincipalThings p (Inr []) # mid" unfolding deletesGuarded_def by blast
      then show ?thesis by simp
    next
      case (Cons u us')
      with a1 have "es = es1 @ DeleteCertificate cid a # us'" by simp
      with assms(1) show ?thesis unfolding deletesGuarded_def by blast
    qed
  next
    assume a2: "es @ us = es1 \<and> es' = us @ DeleteCertificate cid a # es2"
    with assms(2) obtain es0 p mid where "us = es0 @ DetachThingPrincipal d p (Inr ()) #
        ListPrincipalThings p (Inr []) # mid" "certificateIdOf p = cid" "\<not> str_includes p c"
        "\<forall>e\<in>set mid. cleanupStep e"
      unfolding deletesGuarded_def by blast
    with a2 have "es1 = (es @ es0) @ DetachThingPrincipal d p (Inr ()) #
        ListPrincipalThings p (Inr []) # mid" by simp
    with \<open>certificateIdOf p = cid\<close> \<open>\<not> str_includes p c\<close> \<open>\<forall>e\<in>set mid. cleanupStep e\<close>
    show ?thesis by blast
  qed
qed

lemma deletesGuarded_Nil: "deletesGuarded d c []"
  by (simp add: deletesGuarded_def)

lemma deletesGuarded_removePrincipal:
  assumes "removePrincipal cfg env d p t = (r, es)" "\<not> str_includes p c"
  shows "deletesGuarded d c es"
  unfolding deletesGuarded_def
proof (intro allI impI)
  fix es1 cid a es2
  assume "es = es1 @ DeleteCertificate cid a # es2"
  from removePrincipal_guard [OF assms(1) this assms(2)] assms(2)
  show "\<exists>es0 p mid. es1 = es0 @ DetachThingPrincipal d p (Inr ()) #
        ListPrincipalThings p (Inr []) # mid \<and>
      certificateIdOf p = cid \<and> \<not> str_includes p c \<and> (\<forall>e\<in>set mid. cleanupStep e)"
    by (metis append_Nil)
qed

lemma removePrincipals_safe:
  "removePrincipals cfg env d c prev ps t = (r, es) \<Longrightarrow>
     deletesGuarded d c es \<and> (\<forall>e\<in>set es. spares c e)"
proof (induction ps arbitrary: t r es)
  case Nil
  then show ?case by (simp add: resolve_def deletesGuarded_Nil)
next
  case (Cons p ps)
  show ?case
  proof (cases "skipped c prev p")
    case True
    with Cons show ?thesis by simp
  next
    case False
    then have nc: "\<not> str_includes p c" by (auto simp: skipped_def split: if_splits)
    from Cons.prems False
    have "andThen (removePrincipal cfg env d p) (\<lambda>u. removePrincipals cfg env d c prev ps) t = (r, es)"
      by simp
    then show ?thesis
    proof (cases rule: andThen_cases)
      case (stop e)
      with deletesGuarded_removePrincipal [OF _ nc] removePrincipal_events [OF _ nc]
      show ?thesis by blast
    next
      case (go a es1 es2)
      from deletesGuarded_removePrincipal [OF go(1) nc] removePrincipal_events [OF go(1) nc]
        Cons.IH [OF go(2)] go(3)
      show ?thesis by (auto intro: deletesGuarded_append)
    qed
  qed
qed

lemma deletesGuarded_no_delete:
  "\<forall>e\<in>set es. \<not> (\<exists>cid a. e = DeleteCertificate cid a) \<Longrightarrow> deletesGuarded d c es"
  by (auto simp: deletesGuarded_def)

lemma removePreviousCertificate_safe:
  assumes "removePreviousCertificate cfg env d c prev t = (r, es)"
  shows "deletesGuarded d c es \<and> (\<forall>e\<in>set es. spares c e)"
proof -
  from assms have "andThen (listThingPrincipals env d) (removePrincipals cfg env d c prev) t = (r, es)"
    by (simp add: removePreviousCertificate_def)
  then show ?thesis
  proof (cases rule: andThen_cases)
    case (stop e)
    then show ?thesis
      by (auto simp: listThingPrincipals_def intro!: deletesGuarded_no_delete)
  next
    case (go ps es1 es2)
    then have es1: "es1 = [ListThingPrincipals d (Inr ps)]"
      by (auto simp: listThingPrincipals_def)
    then have "deletesGuarded d c es1" by (auto intro!: deletesGuarded_no_delete)
    with removePrincipals_safe [OF go(2)] have "deletesGuarded d c (es1 @ es2)"
      by (auto intro: deletesGuarded_append)
    with removePrincipals_safe [OF go(2)] go(3) es1 show ?thesis by auto
  qed
qed

lemma ack_steps_safe:
  assumes "ack_steps cfg env d c prev t = (r, es)"
  shows "deletesGuarded d c es \<and> (\<forall>e\<in>set es. spares c e)"
proof -
  from assms have "andThen (isWhitelisted env d) (\<lambda>whitelisted.
       if whitelisted \<noteq> True then throw ''DEVICE_NOT_WHITELISTED''
       else
         andThen (removeThingFromThingGroup env d (thingGroupName cfg)) (\<lambda>u.
         if deletePreviousCertificate cfg
         then removePreviousCertificate cfg env d c prev
         else resolve ())) t = (r, es)"
    by (simp add: ack_steps_def)
  then show ?thesis
  proof (cases rule: andThen_cases)
    case (stop e)
    then show ?thesis by (auto simp: isWhitelisted_def intro!: deletesGuarded_no_delete)
  next
    case w: (go whitelisted es1 es2)
    then have es1: "\<exists>a. es1 = [IsWhitelisted d a]" by (auto simp: isWhitelisted_def)
    show ?thesis
    proof (cases whitelisted)
      case False
      with w(2) have "es2 = []" by (simp add: throw_def)
      with w(3) es1 show ?thesis by (auto intro!: deletesGuarded_no_delete)
    next
      case True
      with w(2) have "andThen (removeThingFromThingGroup env d (thingGroupName cfg)) (\<lambda>u.
         if deletePreviousCertificate cfg
         then removePreviousCertificate cfg env d c prev
         else resolve ()) (t @ es1) = (r, es2)" by simp
      then show ?thesis
      proof (cases rule: andThen_cases)
        case (stop e)
        with w(3) es1 show ?thesis
          by (auto simp: removeThingFromThingGroup_def intro!: deletesGuarded_no_delete)
      next
        case g: (go u es3 es4)
        then have es3: "\<exists>a. es3 = [RemoveThingFromThingGroup d (thingGroupName cfg) a]"
          by (auto simp: removeThingFromThingGroup_def)
        have pre: "deletesGuarded d c (es1 @ es3)" "\<forall>e\<in>set (es1 @ es3). spares c e"
          using es1 es3 by (auto intro!: deletesGuarded_no_delete)
        have "deletesGuarded d c es4 \<and> (\<forall>e\<in>set es4. spares c e)"
        proof (cases "deletePreviousCertificate cfg")
          case True
          with g(2) removePreviousCertificate_safe show ?thesis by simp
        next
          case False
          with g(2) show ?thesis by (simp add: resolve_def deletesGuarded_Nil)
        qed
        then have rest: "deletesGuarded d c es4" "\<forall>e\<in>set es4. spares c e" by blast+
        from deletesGuarded_append [OF pre(1) rest(1)] pre(2) rest(2) w(3) g(3)
        show ?thesis by auto
      qed
    qed
  qed
qed

subsection \<open>The shape of an operation\<close>

lemma publishResponse_eq:
  "publishResponse pf env topic d resp t =
     (case iotData_publish env t (replace pf topic ''{thingName}'' d) resp of
        Inl m \<Rightarrow> Inl ''UNABLE_TO_PUBLISH_RESPONSE'' | Inr u \<Rightarrow> Inr u,
      [Publish (replace pf topic ''{thingName}'' d) resp
         (iotData_publish env t (replace pf topic ''{thingName}'' d) resp)])"
  by (simp add: publishResponse_def tryCatch_def publish_def throw_def split: sum.splits)

lemma catchBlock_eq:
  "catchBlock pf env topic d resp err t =
     (case iotData_publish env t (replace pf topic ''{thingName}'' d) (resp\<lparr>message := Some err\<rparr>) of
        Inl m \<Rightarrow> Inl ''UNABLE_TO_PUBLISH_RESPONSE'' | Inr u \<Rightarrow> Inl err,
      [Publish (replace pf topic ''{thingName}'' d) (resp\<lparr>message := Some err\<rparr>)
         (iotData_publish env t (replace pf topic ''{thingName}'' d) (resp\<lparr>message := Some err\<rparr>))])"
  by (simp add: catchBlock_def andThen_def publishResponse_eq throw_def split: sum.splits)

lemma operation_cases:
  assumes "tryThenPublish steps respond (publishResponse pf env okTopic d)
             (catchBlock pf env noTopic d) t = (r, es)"
  obtains
    (failed) err es1 a where "steps t = (Inl err, es1)"
      "es = es1 @ [Publish (replace pf noTopic ''{thingName}'' d)
                     (emptyResponse\<lparr>message := Some err\<rparr>) a]"
      "a = iotData_publish env (t @ es1) (replace pf noTopic ''{thingName}'' d)
             (emptyResponse\<lparr>message := Some err\<rparr>)"
      "r = (case a of Inl m \<Rightarrow> Inl ''UNABLE_TO_PUBLISH_RESPONSE'' | Inr u \<Rightarrow> Inl err)"
  | (published) x es1 where "steps t = (Inr x, es1)"
      "es = es1 @ [Publish (replace pf okTopic ''{thingName}'' d) (respond x) (Inr ())]"
      "iotData_publish env (t @ es1) (replace pf okTopic ''{thingName}'' d) (respond x) = Inr ()"
      "r = Inr ()"
  | (unpublished) x es1 m a where "steps t = (Inr x, es1)"
      "es = es1 @ [Publish (replace pf okTopic ''{thingName}'' d) (respond x) (Inl m),
                   Publish (replace pf noTopic ''{thingName}'' d)
                     ((respond x)\<lparr>message := Some ''UNABLE_TO_PUBLISH_RESPONSE''\<rparr>) a]"
      "iotData_publish env (t @ es1) (replace pf okTopic ''{thingName}'' d) (respond x) = Inl m"
      "r = (case a of Inl m \<Rightarrow> Inl ''UNABLE_TO_PUBLISH_RESPONSE''
            | Inr u \<Rightarrow> Inl ''UNABLE_TO_PUBLISH_RESPONSE'')"
proof (cases "steps t")
  case (Pair rs es1)
  show thesis
  proof (cases rs)
    case (Inl err)
    with Pair assms show thesis
      by (intro failed [of err es1]) (auto simp: tryThenPublish_def catchBlock_eq)
  next
    case (Inr x)
    show thesis
    proof (cases "iotData_publish env (t @ es1) (replace pf okTopic ''{thingName}'' d) (respond x)")
      case ok: (Inr u)
      with Pair Inr assms show thesis
        by (intro published [of x es1]) (auto simp: tryThenPublish_def publishResponse_eq)
    next
      case no: (Inl m)
      with Pair Inr assms show thesis
        by (intro unpublished [of x es1 m]) 
           (auto simp: tryThenPublish_def publishResponse_eq catchBlock_eq split: sum.splits)
    qed
  qed
qed

lemma ow_string_nonEmpty_eq:
  "ow_string_nonEmpty pf label v t = (if v = [] then (Inl (owNonEmptyMessage pf label), []) else (Inr (), []))"
  by (simp add: ow_string_nonEmpty_def throw_def resolve_def)

lemma ack_valid:
  assumes "d \<noteq> []" "c \<noteq> []"
  shows "ack cfg pf env d c prev t =
     tryThenPublish (ack_steps cfg env d c prev) (\<lambda>u. emptyResponse\<lparr>message := Some ''OK''\<rparr>)
       (publishResponse pf env (mqttAckSuccessTopic cfg) d)
       (catchBlock pf env (mqttAckFailureTopic cfg) d) t"
proof -
  obtain r es where run: "tryThenPublish (ack_steps cfg env d c prev)
       (\<lambda>u. emptyResponse\<lparr>message := Some ''OK''\<rparr>)
       (publishResponse pf env (mqttAckSuccessTopic cfg) d)
       (catchBlock pf env (mqttAckFailureTopic cfg) d) t = (r, es)"
    by (cases "tryThenPublish (ack_steps cfg env d c prev)
       (\<lambda>u. emptyResponse\<lparr>message := Some ''OK''\<rparr>)
       (publishResponse pf env (mqttAckSuccessTopic cfg) d)
       (catchBlock pf env (mqttAckFailureTopic cfg) d) t") auto
  with assms show ?thesis
    by (simp add: ack_def andThen_def ow_string_nonEmpty_eq)
qed

lemma ack_invalid:
  assumes "d = [] \<or> c = []"
  shows "\<exists>m. ack cfg pf env d c prev t = (Inl m, [])"
  using assms by (auto simp: ack_def andThen_def ow_string_nonEmpty_eq)

lemma isPublish_spares: "isPublish e \<Longrightarrow> spares c e \<and> \<not> (\<exists>cid a. e = DeleteCertificate cid a)"
  by (cases e) auto

lemma safe_append_publish:
  assumes "deletesGuarded d c es1 \<and> (\<forall>e\<in>set es1. spares c e)" "es = es1 @ ps"
    "\<forall>e\<in>set ps. isPublish e"
  shows "deletesGuarded d c es \<and> (\<forall>e\<in>set es. spares c e)"
proof -
  from assms(3) have "deletesGuarded d c ps"
    by (intro deletesGuarded_no_delete) (auto dest: isPublish_spares)
  with assms(1) have "deletesGuarded d c (es1 @ ps)" by (auto intro: deletesGuarded_append)
  moreover from assms have "\<forall>e\<in>set (es1 @ ps). spares c e" by (auto dest: isPublish_spares)
  ultimately show ?thesis using assms(2) by blast
qed

lemma ack_safe:
  assumes "ack cfg pf env d c prev t = (r, es)"
  shows "deletesGuarded d c es \<and> (\<forall>e\<in>set es. spares c e)"
proof (cases "d = [] \<or> c = []")
  case True
  from ack_invalid [OF this, of cfg pf env prev t] assms show ?thesis
    by (auto simp: deletesGuarded_Nil)
next
  case False
  with assms ack_valid [of d c cfg pf env prev t]
  have "tryThenPublish (ack_steps cfg env d c prev) (\<lambda>u. emptyResponse\<lparr>message := Some ''OK''\<rparr>)
       (publishResponse pf env (mqttAckSuccessTopic cfg) d)
       (catchBlock pf env (mqttAckFailureTopic cfg) d) t = (r, es)" by simp
  then show ?thesis
  proof (cases rule: operation_cases)
    case (failed err es1 a)
    from safe_append_publish [OF ack_steps_safe [OF failed(1)] failed(2)]
    show ?thesis by simp
  next
    case (published x es1)
    from safe_append_publish [OF ack_steps_safe [OF published(1)] published(2)]
    show ?thesis by simp
  next
    case (unpublished x es1 m a)
    from safe_append_publish [OF ack_steps_safe [OF unpublished(1)] unpublished(2)]
    show ?thesis by simp
  qed
qed

text \<open>
  Claim C1. Whatever the collaborators answer, and whatever principals the registry lists for
  the device, an acknowledgement never unbinds a principal that contains the current
  certificate id (in particular none whose certificate id is the current one), never changes
  the status of the current certificate and never deletes it; and every deletion it makes is
  that of a principal that it has just unbound from the device and whose things the registry
  then listed as none, with only the listing and detaching of its policies and its
  deactivation in between.
\<close>

theorem cleanup_spares_current_certificate:
  assumes "ack cfg pf env deviceId certId previousCertificateId t = (r, es)"
  shows "(\<forall>thing princ a. DetachThingPrincipal thing princ a \<in> set es \<longrightarrow>
            \<not> str_includes princ certId \<and> certificateIdOf princ \<noteq> Some certId) \<and>
         (\<forall>cid newStatus a. UpdateCertificate cid newStatus a \<in> set es \<longrightarrow> cid \<noteq> Some certId) \<and>
         (\<forall>cid a. DeleteCertificate cid a \<in> set es \<longrightarrow> cid \<noteq> Some certId) \<and>
         (\<forall>es1 cid a es2. es = es1 @ DeleteCertificate cid a # es2 \<longrightarrow>
            (\<exists>es0 princ mid.
               es1 = es0 @ DetachThingPrincipal deviceId princ (Inr ()) #
                           ListPrincipalThings princ (Inr []) # mid \<and>
               certificateIdOf princ = cid \<and> \<not> str_includes princ certId \<and>
               (\<forall>e\<in>set mid. cleanupStep e)))"
proof -
  from ack_safe [OF assms] have g: "deletesGuarded deviceId certId es"
    and s: "\<forall>e\<in>set es. spares certId e" by blast+
  from s have "\<forall>thing princ a. DetachThingPrincipal thing princ a \<in> set es \<longrightarrow>
            \<not> str_includes princ certId \<and> certificateIdOf princ \<noteq> Some certId"
    by fastforce
  moreover from s have "\<forall>cid newStatus a. UpdateCertificate cid newStatus a \<in> set es \<longrightarrow> cid \<noteq> Some certId"
    by fastforce
  moreover from s have "\<forall>cid a. DeleteCertificate cid a \<in> set es \<longrightarrow> cid \<noteq> Some certId"
    by fastforce
  ultimately show ?thesis using g unfolding deletesGuarded_def by blast
qed

theorem cleanup_spares_current_certificate_witness:
  "ack demoConfig demoPlatform demoEnv ''d'' ''c1'' None [] =
     (Inr (),
      [IsWhitelisted ''d'' (Inr True), RemoveThingFromThingGroup ''d'' ''grp'' (Inr ()),
       ListThingPrincipals ''d'' (Inr [''c/c1'', ''c/c2'', ''c/c3'']),
       DetachThingPrincipal ''d'' ''c/c2'' (Inr ()), ListPrincipalThings ''c/c2'' (Inr []),
       ListAttachedPolicies ''arn:aws:iot:r:1:cert/c2'' (Inr [''p1'']),
       DetachPolicy ''arn:aws:iot:r:1:cert/c2'' ''p1'' (Inr ()),
       UpdateCertificate (Some ''c2'') INACTIVE (Inr ()), DeleteCertificate (Some ''c2'') (Inr ()),
       DetachThingPrincipal ''d'' ''c/c3'' (Inr ()), ListPrincipalThings ''c/c3'' (Inr [''e'']),
       Publish ''a/ok'' (emptyResponse\<lparr>message := Some ''OK''\<rparr>) (Inr ())]) \<and>
   \<not> str_includes ''c/c2'' ''c1'' \<and> \<not> str_includes ''c/c3'' ''c1'' \<and>
   str_includes ''c/c1'' ''c1''"
proof -
  have run: "ack demoConfig demoPlatform demoEnv ''d'' ''c1'' None [] =
     (Inr (),
      [IsWhitelisted ''d'' (Inr True), RemoveThingFromThingGroup ''d'' ''grp'' (Inr ()),
       ListThingPrincipals ''d'' (Inr [''c/c1'', ''c/c2'', ''c/c3'']),
       DetachThingPrincipal ''d'' ''c/c2'' (Inr ()), ListPrincipalThings ''c/c2'' (Inr []),
       ListAttachedPolicies ''arn:aws:iot:r:1:cert/c2'' (Inr [''p1'']),
       DetachPolicy ''arn:aws:iot:r:1:cert/c2'' ''p1'' (Inr ()),
       UpdateCertificate (Some ''c2'') INACTIVE (Inr ()), DeleteCertificate (Some ''c2'') (Inr ()),
       DetachThingPrincipal ''d'' ''c/c3'' (Inr ()), ListPrincipalThings ''c/c3'' (Inr [''e'']),
       Publish ''a/ok'' (emptyResponse\<lparr>message := Some ''OK''\<rparr>) (Inr ())])"
    by code_simp
  from cleanup_spares_current_certificate [OF run]
  have "\<not> str_includes ''c/c2'' ''c1''" "\<not> str_includes ''c/c3'' ''c1''" by simp_all
  moreover have "str_includes ''c/c1'' ''c1''" by simp
  ultimately show ?thesis using run by blast
qed

subsection \<open>The cleanup of an eligible principal\<close>




lemma skipped_iff:
  "skipped c prev p \<longleftrightarrow> str_includes p c \<or> (truthy prev \<and> \<not> str_includes p (the prev))"
  by (simp add: skipped_def)





text \<open>
  Claim C9. The two tests that exempt a principal from the cleanup are substring tests on the
  ARN of the principal: a principal in which the current certificate id occurs anywhere is
  passed over, whatever its own certificate id; with a named previous certificate id, a
  principal in which that id does not occur is passed over; every other principal is cleaned.
  So a principal of another certificate whose ARN contains the current id is exempt as well.
\<close>

theorem exemption_is_substring_containment:
  "(str_includes princ certId \<longleftrightarrow> (\<exists>before after. princ = before @ certId @ after)) \<and>
   (str_includes princ certId \<longrightarrow>
      removePrincipals cfg env deviceId certId previousCertificateId (princ # rest) =
      removePrincipals cfg env deviceId certId previousCertificateId rest) \<and>
   (truthy previousCertificateId \<and> \<not> str_includes princ (the previousCertificateId) \<longrightarrow>
      removePrincipals cfg env deviceId certId previousCertificateId (princ # rest) =
      removePrincipals cfg env deviceId certId previousCertificateId rest) \<and>
   (\<not> str_includes princ certId \<and>
    (truthy previousCertificateId \<longrightarrow> str_includes princ (the previousCertificateId)) \<longrightarrow>
      removePrincipals cfg env deviceId certId previousCertificateId (princ # rest) =
      andThen (removePrincipal cfg env deviceId princ)
        (\<lambda>u. removePrincipals cfg env deviceId certId previousCertificateId rest)) \<and>
   (\<exists>other current. certificateIdOf other \<noteq> Some current \<and> certificateIdOf other \<noteq> None \<and>
      str_includes other current)"
proof -
  have "certificateIdOf ''c/c10'' \<noteq> Some ''c1'' \<and> certificateIdOf ''c/c10'' \<noteq> None \<and>
      str_includes ''c/c10'' ''c1''"
    by (simp add: certificateIdOf_def)
  then have "\<exists>other current. certificateIdOf other \<noteq> Some current \<and>
      certificateIdOf other \<noteq> None \<and> str_includes other current" by blast
  then show ?thesis
    by (simp add: skipped_iff str_includes_sublist sublist_def)
qed

theorem exemption_is_substring_containment_witness:
  "str_includes ''c/c10'' ''c1'' \<and> certificateIdOf ''c/c10'' = Some ''c10'' \<and>
   removePrincipals demoConfig demoEnv ''d'' ''c1'' None [''c/c10''] =
   removePrincipals demoConfig demoEnv ''d'' ''c1'' None [] \<and>
   removePrincipals demoConfig demoEnv ''d'' ''c1'' None [''c/c10''] [] = (Inr (), []) \<and>
   truthy (Some ''c2'') \<and>
   removePrincipals demoConfig demoEnv ''d'' ''c1'' (Some ''c2'') [''c/c3''] =
   removePrincipals demoConfig demoEnv ''d'' ''c1'' (Some ''c2'') []"
proof -
  have a: "str_includes ''c/c10'' ''c1''" by simp
  have b: "truthy (Some ''c2'') \<and> \<not> str_includes ''c/c3'' (the (Some ''c2''))" by simp
  have c: "certificateIdOf ''c/c10'' = Some ''c10''" by (simp add: certificateIdOf_def)
  have d: "removePrincipals demoConfig demoEnv ''d'' ''c1'' None [] [] = (Inr (), [])"
    by (simp add: resolve_def)
  from exemption_is_substring_containment
    [of "''c/c10''" "''c1''" demoConfig demoEnv "''d''" None "[]"] a
  have e: "removePrincipals demoConfig demoEnv ''d'' ''c1'' None [''c/c10''] =
   removePrincipals demoConfig demoEnv ''d'' ''c1'' None []" by blast
  from exemption_is_substring_containment
    [of "''c/c3''" "''c1''" demoConfig demoEnv "''d''" "Some ''c2''" "[]"] b
  have f: "removePrincipals demoConfig demoEnv ''d'' ''c1'' (Some ''c2'') [''c/c3''] =
   removePrincipals demoConfig demoEnv ''d'' ''c1'' (Some ''c2'') []" by blast
  from a b c d e f show ?thesis by simp
qed

subsection \<open>Failures of the steps\<close>

lemma getCertificateId_eq:
  "getCertificateId env bucket key t =
     (case s3_headObject env t bucket key of
        Inl m \<Rightarrow> if m = ''MISSING_CERTIFICATE_ID'' then Inl ''MISSING_CERTIFICATE_ID''
                 else Inl ''CERTIFICATE_NOT_FOUND''
      | Inr head \<Rightarrow>
          (case Metadata head of
             None \<Rightarrow> Inl ''MISSING_CERTIFICATE_ID''
           | Some md \<Rightarrow>
               (case map_of md ''certificateid'' of
                  None \<Rightarrow> Inl ''MISSING_CERTIFICATE_ID''
                | Some cid \<Rightarrow> Inr cid)),
      [HeadObject bucket key (s3_headObject env t bucket key)])"
  by (simp add: getCertificateId_def tryCatch_def andThen_def headObject_def throw_def resolve_def
      split: sum.splits option.splits)

lemma activateCertificate_eq:
  "activateCertificate env cid t =
     (case iot_updateCertificate env t (Some cid) ACTIVE of
        Inl m \<Rightarrow> Inl ''UNABLE_TO_ACTIVATE_CERTIFICATE'' | Inr u \<Rightarrow> Inr u,
      [UpdateCertificate (Some cid) ACTIVE (iot_updateCertificate env t (Some cid) ACTIVE)])"
  by (simp add: activateCertificate_def tryCatch_def updateCertificate_def throw_def
      split: sum.splits)

lemma generatePresignedUrl_eq:
  "generatePresignedUrl env bucket key expires t =
     (case s3_getSignedUrl env t bucket key expires of
        Inl m \<Rightarrow> Inl ''UNABLE_TO_PRESIGN_URL'' | Inr url \<Rightarrow> Inr url,
      [GetSignedUrl bucket key expires (s3_getSignedUrl env t bucket key expires)])"
  by (simp add: generatePresignedUrl_def tryCatch_def getSignedUrl_def throw_def
      split: sum.splits)

lemma getCaCertificate_eq:
  "getCaCertificate env cid t =
     (case iot_describeCACertificate env t cid of
        Inl m \<Rightarrow> Inl ''UNABLE_TO_GET_CA_CERTIFICATE'' | Inr pem \<Rightarrow> Inr pem,
      [DescribeCACertificate cid (iot_describeCACertificate env t cid)])"
  by (simp add: getCaCertificate_def tryCatch_def describeCACertificate_def throw_def
      split: sum.splits)

lemma registerCertificate_eq:
  "registerCertificate env ca pem t =
     (case iot_registerCertificate env t ca pem of
        Inl m \<Rightarrow> Inl ''UNABLE_TO_REGISTER_CERTIFICATE'' | Inr arn \<Rightarrow> Inr arn,
      [RegisterCertificate ca pem (iot_registerCertificate env t ca pem)])"
  by (simp add: registerCertificate_def tryCatch_def iotRegisterCertificate_def throw_def
      split: sum.splits)

lemma attachCertificateToThing_eq:
  "attachCertificateToThing env arn d t =
     (case iot_attachThingPrincipal env t arn d of
        Inl m \<Rightarrow> Inl ''UNABLE_TO_ATTACH_CERTIFICATE'' | Inr u \<Rightarrow> Inr u,
      [AttachThingPrincipal arn d (iot_attachThingPrincipal env t arn d)])"
  by (simp add: attachCertificateToThing_def tryCatch_def attachThingPrincipal_def throw_def
      split: sum.splits)

lemma get_steps_blocked:
  assumes "d \<noteq> []" "registry_isWhitelisted env t d = Inr False"
  shows "get_steps cfg pf env d t = (Inl ''DEVICE_NOT_WHITELISTED'', [IsWhitelisted d (Inr False)])"
  using assms
  by (simp add: get_steps_def andThen_def ow_string_nonEmpty_eq isWhitelisted_def throw_def)

lemma getWithCsr_steps_blocked:
  assumes "d \<noteq> []" "csr \<noteq> []" "registry_isWhitelisted env t d = Inr False"
  shows "getWithCsr_steps cfg pf env d csr prev ps t =
           (Inl ''DEVICE_NOT_WHITELISTED'', [IsWhitelisted d (Inr False)])"
  using assms
  by (simp add: getWithCsr_steps_def andThen_def ow_string_nonEmpty_eq isWhitelisted_def throw_def)

lemma ack_steps_blocked:
  assumes "registry_isWhitelisted env t d = Inr False"
  shows "ack_steps cfg env d c prev t =
           (Inl ''DEVICE_NOT_WHITELISTED'', [IsWhitelisted d (Inr False)])"
  using assms
  by (simp add: ack_steps_def andThen_def isWhitelisted_def throw_def)

lemma get_failed:
  assumes "get_steps cfg pf env d t = (Inl err, es1)"
  shows "get cfg pf env d t =
           (fst (catchBlock pf env (mqttGetFailureTopic cfg) d emptyResponse err (t @ es1)),
            es1 @ snd (catchBlock pf env (mqttGetFailureTopic cfg) d emptyResponse err (t @ es1)))"
  using assms by (simp add: get_def tryThenPublish_def catchBlock_eq)

lemma getWithCsr_failed:
  assumes "getWithCsr_steps cfg pf env d csr prev ps t = (Inl err, es1)"
  shows "getWithCsr cfg pf env d csr prev ps t =
           (fst (catchBlock pf env (mqttGetFailureTopic cfg) d emptyResponse err (t @ es1)),
            es1 @ snd (catchBlock pf env (mqttGetFailureTopic cfg) d emptyResponse err (t @ es1)))"
  using assms by (simp add: getWithCsr_def tryThenPublish_def catchBlock_eq)

lemma ack_failed:
  assumes "ack_steps cfg env d c prev t = (Inl err, es1)" "d \<noteq> []" "c \<noteq> []"
  shows "ack cfg pf env d c prev t =
           (fst (catchBlock pf env (mqttAckFailureTopic cfg) d emptyResponse err (t @ es1)),
            es1 @ snd (catchBlock pf env (mqttAckFailureTopic cfg) d emptyResponse err (t @ es1)))"
  using assms by (simp add: ack_valid tryThenPublish_def catchBlock_eq)

text \<open>
  Claim C3. When the registry answers that the device is not whitelisted (the arguments having
  passed validation, so that the question is asked), each of the three operations makes
  exactly two calls: the question itself and one publish on its failure topic, with the
  message \<open>DEVICE_NOT_WHITELISTED\<close> in the payload. No other call is made, so nothing in the
  registry or at the authority changes. The operation then raises \<open>DEVICE_NOT_WHITELISTED\<close>
  (or \<open>UNABLE_TO_PUBLISH_RESPONSE\<close> when the publish is rejected).
\<close>

theorem not_whitelisted_short_circuits:
  assumes "registry_isWhitelisted env t deviceId = Inr False" and "deviceId \<noteq> []"
  shows "(\<exists>a. get cfg pf env deviceId t =
            (case a of Inl m \<Rightarrow> Inl ''UNABLE_TO_PUBLISH_RESPONSE''
                     | Inr u \<Rightarrow> Inl ''DEVICE_NOT_WHITELISTED'',
             [IsWhitelisted deviceId (Inr False),
              Publish (replace pf (mqttGetFailureTopic cfg) ''{thingName}'' deviceId)
                (emptyResponse\<lparr>message := Some ''DEVICE_NOT_WHITELISTED''\<rparr>) a])) \<and>
         (csr \<noteq> [] \<longrightarrow>
          (\<exists>a. getWithCsr cfg pf env deviceId csr previousCertificateId acmpcaParameters t =
            (case a of Inl m \<Rightarrow> Inl ''UNABLE_TO_PUBLISH_RESPONSE''
                     | Inr u \<Rightarrow> Inl ''DEVICE_NOT_WHITELISTED'',
             [IsWhitelisted deviceId (Inr False),
              Publish (replace pf (mqttGetFailureTopic cfg) ''{thingName}'' deviceId)
                (emptyResponse\<lparr>message := Some ''DEVICE_NOT_WHITELISTED''\<rparr>) a]))) \<and>
         (certId \<noteq> [] \<longrightarrow>
          (\<exists>a. ack cfg pf env deviceId certId previousCertificateId t =
            (case a of Inl m \<Rightarrow> Inl ''UNABLE_TO_PUBLISH_RESPONSE''
                     | Inr u \<Rightarrow> Inl ''DEVICE_NOT_WHITELISTED'',
             [IsWhitelisted deviceId (Inr False),
              Publish (replace pf (mqttAckFailureTopic cfg) ''{thingName}'' deviceId)
                (emptyResponse\<lparr>message := Some ''DEVICE_NOT_WHITELISTED''\<rparr>) a])))"
proof (intro conjI impI)
  show "\<exists>a. get cfg pf env deviceId t =
            (case a of Inl m \<Rightarrow> Inl ''UNABLE_TO_PUBLISH_RESPONSE''
                     | Inr u \<Rightarrow> Inl ''DEVICE_NOT_WHITELISTED'',
             [IsWhitelisted deviceId (Inr False),
              Publish (replace pf (mqttGetFailureTopic cfg) ''{thingName}'' deviceId)
                (emptyResponse\<lparr>message := Some ''DEVICE_NOT_WHITELISTED''\<rparr>) a])"
    using get_failed [OF get_steps_blocked [OF assms(2) assms(1), of cfg pf]]
    by (simp add: catchBlock_eq)
next
  assume "csr \<noteq> []"
  from getWithCsr_failed [OF getWithCsr_steps_blocked [OF assms(2) this assms(1), of cfg pf]]
  show "\<exists>a. getWithCsr cfg pf env deviceId csr previousCertificateId acmpcaParameters t =
            (case a of Inl m \<Rightarrow> Inl ''UNABLE_TO_PUBLISH_RESPONSE''
                     | Inr u \<Rightarrow> Inl ''DEVICE_NOT_WHITELISTED'',
             [IsWhitelisted deviceId (Inr False),
              Publish (replace pf (mqttGetFailureTopic cfg) ''{thingName}'' deviceId)
                (emptyResponse\<lparr>message := Some ''DEVICE_NOT_WHITELISTED''\<rparr>) a])"
    by (simp add: catchBlock_eq)
next
  assume "certId \<noteq> []"
  from ack_failed [OF ack_steps_blocked [OF assms(1), of cfg] assms(2) this]
  show "\<exists>a. ack cfg pf env deviceId certId previousCertificateId t =
            (case a of Inl m \<Rightarrow> Inl ''UNABLE_TO_PUBLISH_RESPONSE''
                     | Inr u \<Rightarrow> Inl ''DEVICE_NOT_WHITELISTED'',
             [IsWhitelisted deviceId (Inr False),
              Publish (replace pf (mqttAckFailureTopic cfg) ''{thingName}'' deviceId)
                (emptyResponse\<lparr>message := Some ''DEVICE_NOT_WHITELISTED''\<rparr>) a])"
    by (simp add: catchBlock_eq)
qed

theorem not_whitelisted_short_circuits_witness:
  "registry_isWhitelisted demoEnv [] ''x'' = Inr False \<and>
   (\<exists>a. get demoConfig demoPlatform demoEnv ''x'' [] =
            (case a of Inl m \<Rightarrow> Inl ''UNABLE_TO_PUBLISH_RESPONSE''
                     | Inr u \<Rightarrow> Inl ''DEVICE_NOT_WHITELISTED'',
             [IsWhitelisted ''x'' (Inr False),
              Publish (replace demoPlatform (mqttGetFailureTopic demoConfig) ''{thingName}'' ''x'')
                (emptyResponse\<lparr>message := Some ''DEVICE_NOT_WHITELISTED''\<rparr>) a])) \<and>
   (\<exists>a. getWithCsr demoConfig demoPlatform demoEnv ''x'' ''csr'' None None [] =
            (case a of Inl m \<Rightarrow> Inl ''UNABLE_TO_PUBLISH_RESPONSE''
                     | Inr u \<Rightarrow> Inl ''DEVICE_NOT_WHITELISTED'',
             [IsWhitelisted ''x'' (Inr False),
              Publish (replace demoPlatform (mqttGetFailureTopic demoConfig) ''{thingName}'' ''x'')
                (emptyResponse\<lparr>message := Some ''DEVICE_NOT_WHITELISTED''\<rparr>) a])) \<and>
   (\<exists>a. ack demoConfig demoPlatform demoEnv ''x'' ''c1'' None [] =
            (case a of Inl m \<Rightarrow> Inl ''UNABLE_TO_PUBLISH_RESPONSE''
                     | Inr u \<Rightarrow> Inl ''DEVICE_NOT_WHITELISTED'',
             [IsWhitelisted ''x'' (Inr False),
              Publish (replace demoPlatform (mqttAckFailureTopic demoConfig) ''{thingName}'' ''x'')
                (emptyResponse\<lparr>message := Some ''DEVICE_NOT_WHITELISTED''\<rparr>) a]))"
proof -
  have h1: "registry_isWhitelisted demoEnv [] ''x'' = Inr False" by (simp add: demoEnv_def)
  have h2: "''x'' \<noteq> []" by simp
  from not_whitelisted_short_circuits [OF h1 h2, of demoConfig demoPlatform "''csr''" None None "''c1''"] h1
  show ?thesis by simp
qed

text \<open>
  Claim C10. In each operation, when the steps raise an error and the publish of the failure
  response is rejected, the operation raises \<open>UNABLE_TO_PUBLISH_RESPONSE\<close> and not the
  error of the steps, which is left in the payload of the rejected publish. More generally,
  an operation whose last call is a rejected publish raises \<open>UNABLE_TO_PUBLISH_RESPONSE\<close>.
\<close>

theorem failed_failure_publish_replaces_error:
  "(get_steps cfg pf env deviceId t = (Inl err, es1) \<and>
    iotData_publish env (t @ es1) (replace pf (mqttGetFailureTopic cfg) ''{thingName}'' deviceId)
      (emptyResponse\<lparr>message := Some err\<rparr>) = Inl m \<longrightarrow>
    get cfg pf env deviceId t =
      (Inl ''UNABLE_TO_PUBLISH_RESPONSE'',
       es1 @ [Publish (replace pf (mqttGetFailureTopic cfg) ''{thingName}'' deviceId)
                (emptyResponse\<lparr>message := Some err\<rparr>) (Inl m)])) \<and>
   (getWithCsr_steps cfg pf env deviceId csr previousCertificateId acmpcaParameters t = (Inl err, es1) \<and>
    iotData_publish env (t @ es1) (replace pf (mqttGetFailureTopic cfg) ''{thingName}'' deviceId)
      (emptyResponse\<lparr>message := Some err\<rparr>) = Inl m \<longrightarrow>
    getWithCsr cfg pf env deviceId csr previousCertificateId acmpcaParameters t =
      (Inl ''UNABLE_TO_PUBLISH_RESPONSE'',
       es1 @ [Publish (replace pf (mqttGetFailureTopic cfg) ''{thingName}'' deviceId)
                (emptyResponse\<lparr>message := Some err\<rparr>) (Inl m)])) \<and>
   (deviceId \<noteq> [] \<and> certId \<noteq> [] \<and>
    ack_steps cfg env deviceId certId previousCertificateId t = (Inl err, es1) \<and>
    iotData_publish env (t @ es1) (replace pf (mqttAckFailureTopic cfg) ''{thingName}'' deviceId)
      (emptyResponse\<lparr>message := Some err\<rparr>) = Inl m \<longrightarrow>
    ack cfg pf env deviceId certId previousCertificateId t =
      (Inl ''UNABLE_TO_PUBLISH_RESPONSE'',
       es1 @ [Publish (replace pf (mqttAckFailureTopic cfg) ''{thingName}'' deviceId)
                (emptyResponse\<lparr>message := Some err\<rparr>) (Inl m)])) \<and>
   (get cfg pf env deviceId t = (r, es) \<and> es \<noteq> [] \<and> last es = Publish topic payload (Inl m) \<longrightarrow>
      r = Inl ''UNABLE_TO_PUBLISH_RESPONSE'') \<and>
   (getWithCsr cfg pf env deviceId csr previousCertificateId acmpcaParameters t = (r, es) \<and>
    es \<noteq> [] \<and> last es = Publish topic payload (Inl m) \<longrightarrow>
      r = Inl ''UNABLE_TO_PUBLISH_RESPONSE'') \<and>
   (ack cfg pf env deviceId certId previousCertificateId t = (r, es) \<and>
    es \<noteq> [] \<and> last es = Publish topic payload (Inl m) \<longrightarrow>
      r = Inl ''UNABLE_TO_PUBLISH_RESPONSE'')"
proof -
  have last_rejected: "r = Inl ''UNABLE_TO_PUBLISH_RESPONSE''"
    if "tryThenPublish steps respond (publishResponse pf env okTopic deviceId)
             (catchBlock pf env noTopic deviceId) t = (r, es)"
       "last es = Publish topic payload (Inl m)"
    for steps :: "'a io" and respond okTopic noTopic
    using that(1)
  proof (cases rule: operation_cases)
    case (failed err es1 a)
    with that(2) show ?thesis by (auto split: sum.splits)
  next
    case (published x es1)
    with that(2) show ?thesis by auto
  next
    case (unpublished x es1 m a)
    then show ?thesis by (auto split: sum.splits)
  qed
  have g: "get cfg pf env deviceId t = (r, es) \<and> es \<noteq> [] \<and>
      last es = Publish topic payload (Inl m) \<longrightarrow> r = Inl ''UNABLE_TO_PUBLISH_RESPONSE''"
    using last_rejected [of "get_steps cfg pf env deviceId"] by (auto simp: get_def)
  have w: "getWithCsr cfg pf env deviceId csr previousCertificateId acmpcaParameters t = (r, es) \<and>
      es \<noteq> [] \<and> last es = Publish topic payload (Inl m) \<longrightarrow> r = Inl ''UNABLE_TO_PUBLISH_RESPONSE''"
    using last_rejected
      [of "getWithCsr_steps cfg pf env deviceId csr previousCertificateId acmpcaParameters"]
    by (auto simp: getWithCsr_def)
  have a: "ack cfg pf env deviceId certId previousCertificateId t = (r, es) \<and>
      es \<noteq> [] \<and> last es = Publish topic payload (Inl m) \<longrightarrow> r = Inl ''UNABLE_TO_PUBLISH_RESPONSE''"
  proof (cases "deviceId = [] \<or> certId = []")
    case True
    from ack_invalid [OF this, of cfg pf env previousCertificateId t] show ?thesis by auto
  next
    case False
    with last_rejected [of "ack_steps cfg env deviceId certId previousCertificateId"]
    show ?thesis by (auto simp: ack_valid)
  qed
  have c1: "get_steps cfg pf env deviceId t = (Inl err, es1) \<and>
    iotData_publish env (t @ es1) (replace pf (mqttGetFailureTopic cfg) ''{thingName}'' deviceId)
      (emptyResponse\<lparr>message := Some err\<rparr>) = Inl m \<longrightarrow>
    get cfg pf env deviceId t =
      (Inl ''UNABLE_TO_PUBLISH_RESPONSE'',
       es1 @ [Publish (replace pf (mqttGetFailureTopic cfg) ''{thingName}'' deviceId)
                (emptyResponse\<lparr>message := Some err\<rparr>) (Inl m)])"
    by (simp add: get_failed catchBlock_eq)
  have c2: "getWithCsr_steps cfg pf env deviceId csr previousCertificateId acmpcaParameters t = (Inl err, es1) \<and>
    iotData_publish env (t @ es1) (replace pf (mqttGetFailureTopic cfg) ''{thingName}'' deviceId)
      (emptyResponse\<lparr>message := Some err\<rparr>) = Inl m \<longrightarrow>
    getWithCsr cfg pf env deviceId csr previousCertificateId acmpcaParameters t =
      (Inl ''UNABLE_TO_PUBLISH_RESPONSE'',
       es1 @ [Publish (replace pf (mqttGetFailureTopic cfg) ''{thingName}'' deviceId)
                (emptyResponse\<lparr>message := Some err\<rparr>) (Inl m)])"
    by (simp add: getWithCsr_failed catchBlock_eq)
  have c3: "deviceId \<noteq> [] \<and> certId \<noteq> [] \<and>
    ack_steps cfg env deviceId certId previousCertificateId t = (Inl err, es1) \<and>
    iotData_publish env (t @ es1) (replace pf (mqttAckFailureTopic cfg) ''{thingName}'' deviceId)
      (emptyResponse\<lparr>message := Some err\<rparr>) = Inl m \<longrightarrow>
    ack cfg pf env deviceId certId previousCertificateId t =
      (Inl ''UNABLE_TO_PUBLISH_RESPONSE'',
       es1 @ [Publish (replace pf (mqttAckFailureTopic cfg) ''{thingName}'' deviceId)
                (emptyResponse\<lparr>message := Some err\<rparr>) (Inl m)])"
    by (simp add: ack_failed catchBlock_eq)
  show ?thesis
    by (rule conjI [OF c1 conjI [OF c2 conjI [OF c3 conjI [OF g conjI [OF w a]]]]])
qed

theorem failed_failure_publish_replaces_error_witness:
  "get_steps demoConfig demoPlatform offlineEnv ''x'' [] =
     (Inl ''DEVICE_NOT_WHITELISTED'', [IsWhitelisted ''x'' (Inr False)]) \<and>
   iotData_publish offlineEnv ([] @ [IsWhitelisted ''x'' (Inr False)])
     (replace demoPlatform (mqttGetFailureTopic demoConfig) ''{thingName}'' ''x'')
     (emptyResponse\<lparr>message := Some ''DEVICE_NOT_WHITELISTED''\<rparr>) = Inl ''offline'' \<and>
   get demoConfig demoPlatform offlineEnv ''x'' [] =
     (Inl ''UNABLE_TO_PUBLISH_RESPONSE'',
      [IsWhitelisted ''x'' (Inr False)] @
      [Publish (replace demoPlatform (mqttGetFailureTopic demoConfig) ''{thingName}'' ''x'')
         (emptyResponse\<lparr>message := Some ''DEVICE_NOT_WHITELISTED''\<rparr>) (Inl ''offline'')])"
proof -
  have s: "get_steps demoConfig demoPlatform offlineEnv ''x'' [] =
     (Inl ''DEVICE_NOT_WHITELISTED'', [IsWhitelisted ''x'' (Inr False)])"
    by code_simp
  have p: "iotData_publish offlineEnv ([] @ [IsWhitelisted ''x'' (Inr False)])
     (replace demoPlatform (mqttGetFailureTopic demoConfig) ''{thingName}'' ''x'')
     (emptyResponse\<lparr>message := Some ''DEVICE_NOT_WHITELISTED''\<rparr>) = Inl ''offline''"
    by (simp add: offlineEnv_def)
  from failed_failure_publish_replaces_error
    [of demoConfig demoPlatform offlineEnv "''x''" "[]" "''DEVICE_NOT_WHITELISTED''"
        "[IsWhitelisted ''x'' (Inr False)]" "''offline''"] s p
  show ?thesis by blast
qed

lemma get_steps_whitelisted:
  assumes "d \<noteq> []" "registry_isWhitelisted env t d = Inr True"
  shows "get_steps cfg pf env d t =
     (case andThen (getCertificateId env (s3Bucket cfg) (s3Prefix cfg @ d @ s3Suffix cfg))
           (\<lambda>cid.
         andThen (activateCertificate env cid) (\<lambda>u.
         andThen (generatePresignedUrl env (s3Bucket cfg)
                    (s3Prefix cfg @ d @ s3Suffix cfg) (presignedUrlExpiresInSeconds cfg))
           (\<lambda>presignedUrl.
         andThen (updateAssetStatus env d) (\<lambda>u.
         resolve presignedUrl)))) (t @ [IsWhitelisted d (Inr True)]) of
        (r, es) \<Rightarrow> (r, IsWhitelisted d (Inr True) # es))"
  using assms
  by (simp add: get_steps_def andThen_def ow_string_nonEmpty_eq isWhitelisted_def)

lemma get_steps_missing:
  assumes "d \<noteq> []" "registry_isWhitelisted env t d = Inr True"
    "s3_headObject env (t @ [IsWhitelisted d (Inr True)]) (s3Bucket cfg)
       (s3Prefix cfg @ d @ s3Suffix cfg) = Inr head"
    "Metadata head = None \<or> (\<exists>md. Metadata head = Some md \<and> map_of md ''certificateid'' = None)"
  shows "get_steps cfg pf env d t =
     (Inl ''MISSING_CERTIFICATE_ID'',
      [IsWhitelisted d (Inr True),
       HeadObject (s3Bucket cfg) (s3Prefix cfg @ d @ s3Suffix cfg) (Inr head)])"
  using assms(3,4)
  by (auto simp: get_steps_whitelisted [OF assms(1,2)] andThen_def getCertificateId_eq)

lemma get_steps_not_found:
  assumes "d \<noteq> []" "registry_isWhitelisted env t d = Inr True"
    "s3_headObject env (t @ [IsWhitelisted d (Inr True)]) (s3Bucket cfg)
       (s3Prefix cfg @ d @ s3Suffix cfg) = Inl m"
    "m \<noteq> ''MISSING_CERTIFICATE_ID''"
  shows "get_steps cfg pf env d t =
     (Inl ''CERTIFICATE_NOT_FOUND'',
      [IsWhitelisted d (Inr True),
       HeadObject (s3Bucket cfg) (s3Prefix cfg @ d @ s3Suffix cfg) (Inl m)])"
  using assms(3,4)
  by (auto simp: get_steps_whitelisted [OF assms(1,2)] andThen_def getCertificateId_eq)

lemma get_steps_not_activated:
  assumes "d \<noteq> []" "registry_isWhitelisted env t d = Inr True"
    "s3_headObject env (t @ [IsWhitelisted d (Inr True)]) (s3Bucket cfg)
       (s3Prefix cfg @ d @ s3Suffix cfg) = Inr head"
    "Metadata head = Some md" "map_of md ''certificateid'' = Some cid"
    "iot_updateCertificate env
       (t @ [IsWhitelisted d (Inr True),
             HeadObject (s3Bucket cfg) (s3Prefix cfg @ d @ s3Suffix cfg) (Inr head)])
       (Some cid) ACTIVE = Inl m"
  shows "get_steps cfg pf env d t =
     (Inl ''UNABLE_TO_ACTIVATE_CERTIFICATE'',
      [IsWhitelisted d (Inr True),
       HeadObject (s3Bucket cfg) (s3Prefix cfg @ d @ s3Suffix cfg) (Inr head),
       UpdateCertificate (Some cid) ACTIVE (Inl m)])"
  using assms(3-)
  by (simp add: get_steps_whitelisted [OF assms(1,2)] andThen_def getCertificateId_eq
      activateCertificate_eq)

lemma get_steps_not_presigned:
  assumes "d \<noteq> []" "registry_isWhitelisted env t d = Inr True"
    "s3_headObject env (t @ [IsWhitelisted d (Inr True)]) (s3Bucket cfg)
       (s3Prefix cfg @ d @ s3Suffix cfg) = Inr head"
    "Metadata head = Some md" "map_of md ''certificateid'' = Some cid"
    "iot_updateCertificate env
       (t @ [IsWhitelisted d (Inr True),
             HeadObject (s3Bucket cfg) (s3Prefix cfg @ d @ s3Suffix cfg) (Inr head)])
       (Some cid) ACTIVE = Inr ()"
    "s3_getSignedUrl env
       (t @ [IsWhitelisted d (Inr True),
             HeadObject (s3Bucket cfg) (s3Prefix cfg @ d @ s3Suffix cfg) (Inr head),
             UpdateCertificate (Some cid) ACTIVE (Inr ())])
       (s3Bucket cfg) (s3Prefix cfg @ d @ s3Suffix cfg) (presignedUrlExpiresInSeconds cfg) = Inl m"
  shows "get_steps cfg pf env d t =
     (Inl ''UNABLE_TO_PRESIGN_URL'',
      [IsWhitelisted d (Inr True),
       HeadObject (s3Bucket cfg) (s3Prefix cfg @ d @ s3Suffix cfg) (Inr head),
       UpdateCertificate (Some cid) ACTIVE (Inr ()),
       GetSignedUrl (s3Bucket cfg) (s3Prefix cfg @ d @ s3Suffix cfg)
         (presignedUrlExpiresInSeconds cfg) (Inl m)])"
  using assms(3-)
  by (simp add: get_steps_whitelisted [OF assms(1,2)] andThen_def getCertificateId_eq
      activateCertificate_eq generatePresignedUrl_eq)

lemma get_raises:
  assumes "get_steps cfg pf env d t = (Inl err, es1)"
  shows "\<exists>a. get cfg pf env d t =
           (case a of Inl m \<Rightarrow> Inl ''UNABLE_TO_PUBLISH_RESPONSE'' | Inr u \<Rightarrow> Inl err,
            es1 @ [Publish (replace pf (mqttGetFailureTopic cfg) ''{thingName}'' d)
                     (emptyResponse\<lparr>message := Some err\<rparr>) a])"
  by (simp add: get_failed [OF assms] catchBlock_eq)

lemma get_steps_rethrown:
  assumes "d \<noteq> []" "registry_isWhitelisted env t d = Inr True"
    "s3_headObject env (t @ [IsWhitelisted d (Inr True)]) (s3Bucket cfg)
       (s3Prefix cfg @ d @ s3Suffix cfg) = Inl ''MISSING_CERTIFICATE_ID''"
  shows "get_steps cfg pf env d t =
     (Inl ''MISSING_CERTIFICATE_ID'',
      [IsWhitelisted d (Inr True),
       HeadObject (s3Bucket cfg) (s3Prefix cfg @ d @ s3Suffix cfg) (Inl ''MISSING_CERTIFICATE_ID'')])"
  using assms(3)
  by (auto simp: get_steps_whitelisted [OF assms(1,2)] andThen_def getCertificateId_eq)

text \<open>
  Claim C7. In \<open>get\<close>, for a whitelisted device: a staged object without metadata or without
  the \<open>certificateid\<close> entry raises \<open>MISSING_CERTIFICATE_ID\<close>; a rejected lookup raises
  \<open>CERTIFICATE_NOT_FOUND\<close> (unless its own message is \<open>MISSING_CERTIFICATE_ID\<close>, which is
  thrown again as it is); a rejected activation raises \<open>UNABLE_TO_ACTIVATE_CERTIFICATE\<close>; a
  failure to sign the URL raises \<open>UNABLE_TO_PRESIGN_URL\<close>. In each case the history ends with
  the failed call followed by the publish of the failure response carrying that code: nothing
  is published on the success topic, and the operation raises the code when that publish is
  accepted.
\<close>

theorem get_failure_codes:
  assumes "deviceId \<noteq> []" and "registry_isWhitelisted env t deviceId = Inr True"
  shows
  "(\<forall>head.
      s3_headObject env (t @ [IsWhitelisted deviceId (Inr True)]) (s3Bucket cfg)
        (s3Prefix cfg @ deviceId @ s3Suffix cfg) = Inr head \<and>
      (Metadata head = None \<or>
       (\<exists>md. Metadata head = Some md \<and> map_of md ''certificateid'' = None)) \<longrightarrow>
      (\<exists>a. get cfg pf env deviceId t =
         (case a of Inl m \<Rightarrow> Inl ''UNABLE_TO_PUBLISH_RESPONSE''
                  | Inr u \<Rightarrow> Inl ''MISSING_CERTIFICATE_ID'',
          [IsWhitelisted deviceId (Inr True),
           HeadObject (s3Bucket cfg) (s3Prefix cfg @ deviceId @ s3Suffix cfg) (Inr head)] @
          [Publish (replace pf (mqttGetFailureTopic cfg) ''{thingName}'' deviceId)
             (emptyResponse\<lparr>message := Some ''MISSING_CERTIFICATE_ID''\<rparr>) a]))) \<and>
   (\<forall>m.
      s3_headObject env (t @ [IsWhitelisted deviceId (Inr True)]) (s3Bucket cfg)
        (s3Prefix cfg @ deviceId @ s3Suffix cfg) = Inl m \<and>
      m \<noteq> ''MISSING_CERTIFICATE_ID'' \<longrightarrow>
      (\<exists>a. get cfg pf env deviceId t =
         (case a of Inl m \<Rightarrow> Inl ''UNABLE_TO_PUBLISH_RESPONSE''
                  | Inr u \<Rightarrow> Inl ''CERTIFICATE_NOT_FOUND'',
          [IsWhitelisted deviceId (Inr True),
           HeadObject (s3Bucket cfg) (s3Prefix cfg @ deviceId @ s3Suffix cfg) (Inl m)] @
          [Publish (replace pf (mqttGetFailureTopic cfg) ''{thingName}'' deviceId)
             (emptyResponse\<lparr>message := Some ''CERTIFICATE_NOT_FOUND''\<rparr>) a]))) \<and>
   (s3_headObject env (t @ [IsWhitelisted deviceId (Inr True)]) (s3Bucket cfg)
        (s3Prefix cfg @ deviceId @ s3Suffix cfg) = Inl ''MISSING_CERTIFICATE_ID'' \<longrightarrow>
      (\<exists>a. get cfg pf env deviceId t =
         (case a of Inl m \<Rightarrow> Inl ''UNABLE_TO_PUBLISH_RESPONSE''
                  | Inr u \<Rightarrow> Inl ''MISSING_CERTIFICATE_ID'',
          [IsWhitelisted deviceId (Inr True),
           HeadObject (s3Bucket cfg) (s3Prefix cfg @ deviceId @ s3Suffix cfg)
             (Inl ''MISSING_CERTIFICATE_ID'')] @
          [Publish (replace pf (mqttGetFailureTopic cfg) ''{thingName}'' deviceId)
             (emptyResponse\<lparr>message := Some ''MISSING_CERTIFICATE_ID''\<rparr>) a]))) \<and>
   (\<forall>head md cid m.
      s3_headObject env (t @ [IsWhitelisted deviceId (Inr True)]) (s3Bucket cfg)
        (s3Prefix cfg @ deviceId @ s3Suffix cfg) = Inr head \<and>
      Metadata head = Some md \<and> map_of md ''certificateid'' = Some cid \<and>
      iot_updateCertificate env
        (t @ [IsWhitelisted deviceId (Inr True),
              HeadObject (s3Bucket cfg) (s3Prefix cfg @ deviceId @ s3Suffix cfg) (Inr head)])
        (Some cid) ACTIVE = Inl m \<longrightarrow>
      (\<exists>a. get cfg pf env deviceId t =
         (case a of Inl m \<Rightarrow> Inl ''UNABLE_TO_PUBLISH_RESPONSE''
                  | Inr u \<Rightarrow> Inl ''UNABLE_TO_ACTIVATE_CERTIFICATE'',
          [IsWhitelisted deviceId (Inr True),
           HeadObject (s3Bucket cfg) (s3Prefix cfg @ deviceId @ s3Suffix cfg) (Inr head),
           UpdateCertificate (Some cid) ACTIVE (Inl m)] @
          [Publish (replace pf (mqttGetFailureTopic cfg) ''{thingName}'' deviceId)
             (emptyResponse\<lparr>message := Some ''UNABLE_TO_ACTIVATE_CERTIFICATE''\<rparr>) a]))) \<and>
   (\<forall>head md cid m.
      s3_headObject env (t @ [IsWhitelisted deviceId (Inr True)]) (s3Bucket cfg)
        (s3Prefix cfg @ deviceId @ s3Suffix cfg) = Inr head \<and>
      Metadata head = Some md \<and> map_of md ''certificateid'' = Some cid \<and>
      iot_updateCertificate env
        (t @ [IsWhitelisted deviceId (Inr True),
              HeadObject (s3Bucket cfg) (s3Prefix cfg @ deviceId @ s3Suffix cfg) (Inr head)])
        (Some cid) ACTIVE = Inr () \<and>
      s3_getSignedUrl env
        (t @ [IsWhitelisted deviceId (Inr True),
              HeadObject (s3Bucket cfg) (s3Prefix cfg @ deviceId @ s3Suffix cfg) (Inr head),
              UpdateCertificate (Some cid) ACTIVE (Inr ())])
        (s3Bucket cfg) (s3Prefix cfg @ deviceId @ s3Suffix cfg)
        (presignedUrlExpiresInSeconds cfg) = Inl m \<longrightarrow>
      (\<exists>a. get cfg pf env deviceId t =
         (case a of Inl m \<Rightarrow> Inl ''UNABLE_TO_PUBLISH_RESPONSE''
                  | Inr u \<Rightarrow> Inl ''UNABLE_TO_PRESIGN_URL'',
          [IsWhitelisted deviceId (Inr True),
           HeadObject (s3Bucket cfg) (s3Prefix cfg @ deviceId @ s3Suffix cfg) (Inr head),
           UpdateCertificate (Some cid) ACTIVE (Inr ()),
           GetSignedUrl (s3Bucket cfg) (s3Prefix cfg @ deviceId @ s3Suffix cfg)
             (presignedUrlExpiresInSeconds cfg) (Inl m)] @
          [Publish (replace pf (mqttGetFailureTopic cfg) ''{thingName}'' deviceId)
             (emptyResponse\<lparr>message := Some ''UNABLE_TO_PRESIGN_URL''\<rparr>) a])))"
proof (intro conjI allI impI)
  fix head
  assume "s3_headObject env (t @ [IsWhitelisted deviceId (Inr True)]) (s3Bucket cfg)
        (s3Prefix cfg @ deviceId @ s3Suffix cfg) = Inr head \<and>
      (Metadata head = None \<or>
       (\<exists>md. Metadata head = Some md \<and> map_of md ''certificateid'' = None))"
  then show "\<exists>a. get cfg pf env deviceId t =
         (case a of Inl m \<Rightarrow> Inl ''UNABLE_TO_PUBLISH_RESPONSE''
                  | Inr u \<Rightarrow> Inl ''MISSING_CERTIFICATE_ID'',
          [IsWhitelisted deviceId (Inr True),
           HeadObject (s3Bucket cfg) (s3Prefix cfg @ deviceId @ s3Suffix cfg) (Inr head)] @
          [Publish (replace pf (mqttGetFailureTopic cfg) ''{thingName}'' deviceId)
             (emptyResponse\<lparr>message := Some ''MISSING_CERTIFICATE_ID''\<rparr>) a])"
    by (intro get_raises get_steps_missing assms) auto
next
  fix m
  assume "s3_headObject env (t @ [IsWhitelisted deviceId (Inr True)]) (s3Bucket cfg)
        (s3Prefix cfg @ deviceId @ s3Suffix cfg) = Inl m \<and>
      m \<noteq> ''MISSING_CERTIFICATE_ID''"
  then show "\<exists>a. get cfg pf env deviceId t =
         (case a of Inl m \<Rightarrow> Inl ''UNABLE_TO_PUBLISH_RESPONSE''
                  | Inr u \<Rightarrow> Inl ''CERTIFICATE_NOT_FOUND'',
          [IsWhitelisted deviceId (Inr True),
           HeadObject (s3Bucket cfg) (s3Prefix cfg @ deviceId @ s3Suffix cfg) (Inl m)] @
          [Publish (replace pf (mqttGetFailureTopic cfg) ''{thingName}'' deviceId)
             (emptyResponse\<lparr>message := Some ''CERTIFICATE_NOT_FOUND''\<rparr>) a])"
    by (intro get_raises get_steps_not_found assms) auto
next
  assume "s3_headObject env (t @ [IsWhitelisted deviceId (Inr True)]) (s3Bucket cfg)
        (s3Prefix cfg @ deviceId @ s3Suffix cfg) = Inl ''MISSING_CERTIFICATE_ID''"
  then show "\<exists>a. get cfg pf env deviceId t =
         (case a of Inl m \<Rightarrow> Inl ''UNABLE_TO_PUBLISH_RESPONSE''
                  | Inr u \<Rightarrow> Inl ''MISSING_CERTIFICATE_ID'',
          [IsWhitelisted deviceId (Inr True),
           HeadObject (s3Bucket cfg) (s3Prefix cfg @ deviceId @ s3Suffix cfg)
             (Inl ''MISSING_CERTIFICATE_ID'')] @
          [Publish (replace pf (mqttGetFailureTopic cfg) ''{thingName}'' deviceId)
             (emptyResponse\<lparr>message := Some ''MISSING_CERTIFICATE_ID''\<rparr>) a])"
    by (intro get_raises get_steps_rethrown assms) auto
next
  fix head md cid m
  assume "s3_headObject env (t @ [IsWhitelisted deviceId (Inr True)]) (s3Bucket cfg)
        (s3Prefix cfg @ deviceId @ s3Suffix cfg) = Inr head \<and>
      Metadata head = Some md \<and> map_of md ''certificateid'' = Some cid \<and>
      iot_updateCertificate env
        (t @ [IsWhitelisted deviceId (Inr True),
              HeadObject (s3Bucket cfg) (s3Prefix cfg @ deviceId @ s3Suffix cfg) (Inr head)])
        (Some cid) ACTIVE = Inl m"
  then show "\<exists>a. get cfg pf env deviceId t =
         (case a of Inl m \<Rightarrow> Inl ''UNABLE_TO_PUBLISH_RESPONSE''
                  | Inr u \<Rightarrow> Inl ''UNABLE_TO_ACTIVATE_CERTIFICATE'',
          [IsWhitelisted deviceId (Inr True),
           HeadObject (s3Bucket cfg) (s3Prefix cfg @ deviceId @ s3Suffix cfg) (Inr head),
           UpdateCertificate (Some cid) ACTIVE (Inl m)] @
          [Publish (replace pf (mqttGetFailureTopic cfg) ''{thingName}'' deviceId)
             (emptyResponse\<lparr>message := Some ''UNABLE_TO_ACTIVATE_CERTIFICATE''\<rparr>) a])"
    by (intro get_raises get_steps_not_activated assms) auto
next
  fix head md cid m
  assume "s3_headObject env (t @ [IsWhitelisted deviceId (Inr True)]) (s3Bucket cfg)
        (s3Prefix cfg @ deviceId @ s3Suffix cfg) = Inr head \<and>
      Metadata head = Some md \<and> map_of md ''certificateid'' = Some cid \<and>
      iot_updateCertificate env
        (t @ [IsWhitelisted deviceId (Inr True),
              HeadObject (s3Bucket cfg) (s3Prefix cfg @ deviceId @ s3Suffix cfg) (Inr head)])
        (Some cid) ACTIVE = Inr () \<and>
      s3_getSignedUrl env
        (t @ [IsWhitelisted deviceId (Inr True),
              HeadObject (s3Bucket cfg) (s3Prefix cfg @ deviceId @ s3Suffix cfg) (Inr head),
              UpdateCertificate (Some cid) ACTIVE (Inr ())])
        (s3Bucket cfg) (s3Prefix cfg @ deviceId @ s3Suffix cfg)
        (presignedUrlExpiresInSeconds cfg) = Inl m"
  then show "\<exists>a. get cfg pf env deviceId t =
         (case a of Inl m \<Rightarrow> Inl ''UNABLE_TO_PUBLISH_RESPONSE''
                  | Inr u \<Rightarrow> Inl ''UNABLE_TO_PRESIGN_URL'',
          [IsWhitelisted deviceId (Inr True),
           HeadObject (s3Bucket cfg) (s3Prefix cfg @ deviceId @ s3Suffix cfg) (Inr head),
           UpdateCertificate (Some cid) ACTIVE (Inr ()),
           GetSignedUrl (s3Bucket cfg) (s3Prefix cfg @ deviceId @ s3Suffix cfg)
             (presignedUrlExpiresInSeconds cfg) (Inl m)] @
          [Publish (replace pf (mqttGetFailureTopic cfg) ''{thingName}'' deviceId)
             (emptyResponse\<lparr>message := Some ''UNABLE_TO_PRESIGN_URL''\<rparr>) a])"
    by (intro get_raises get_steps_not_presigned assms) auto
qed

theorem get_failure_codes_witness:
  "''d'' \<noteq> [] \<and> registry_isWhitelisted noMetadataEnv [] ''d'' = Inr True \<and>
   (\<exists>a. get demoConfig demoPlatform noMetadataEnv ''d'' [] =
      (case a of Inl m \<Rightarrow> Inl ''UNABLE_TO_PUBLISH_RESPONSE''
               | Inr u \<Rightarrow> Inl ''MISSING_CERTIFICATE_ID'',
       [IsWhitelisted ''d'' (Inr True),
        HeadObject (s3Bucket demoConfig) (s3Prefix demoConfig @ ''d'' @ s3Suffix demoConfig)
          (Inr \<lparr>Metadata = None\<rparr>)] @
       [Publish (replace demoPlatform (mqttGetFailureTopic demoConfig) ''{thingName}'' ''d'')
          (emptyResponse\<lparr>message := Some ''MISSING_CERTIFICATE_ID''\<rparr>) a])) \<and>
   (\<exists>a. get demoConfig demoPlatform noObjectEnv ''d'' [] =
      (case a of Inl m \<Rightarrow> Inl ''UNABLE_TO_PUBLISH_RESPONSE''
               | Inr u \<Rightarrow> Inl ''CERTIFICATE_NOT_FOUND'',
       [IsWhitelisted ''d'' (Inr True),
        HeadObject (s3Bucket demoConfig) (s3Prefix demoConfig @ ''d'' @ s3Suffix demoConfig)
          (Inl ''NotFound'')] @
       [Publish (replace demoPlatform (mqttGetFailureTopic demoConfig) ''{thingName}'' ''d'')
          (emptyResponse\<lparr>message := Some ''CERTIFICATE_NOT_FOUND''\<rparr>) a])) \<and>
   (\<exists>a. get demoConfig demoPlatform noActivationEnv ''d'' [] =
      (case a of Inl m \<Rightarrow> Inl ''UNABLE_TO_PUBLISH_RESPONSE''
               | Inr u \<Rightarrow> Inl ''UNABLE_TO_ACTIVATE_CERTIFICATE'',
       [IsWhitelisted ''d'' (Inr True),
        HeadObject (s3Bucket demoConfig) (s3Prefix demoConfig @ ''d'' @ s3Suffix demoConfig)
          (Inr \<lparr>Metadata = Some [(''certificateid'', ''c1'')]\<rparr>),
        UpdateCertificate (Some ''c1'') ACTIVE (Inl ''denied'')] @
       [Publish (replace demoPlatform (mqttGetFailureTopic demoConfig) ''{thingName}'' ''d'')
          (emptyResponse\<lparr>message := Some ''UNABLE_TO_ACTIVATE_CERTIFICATE''\<rparr>) a])) \<and>
   (\<exists>a. get demoConfig demoPlatform noUrlEnv ''d'' [] =
      (case a of Inl m \<Rightarrow> Inl ''UNABLE_TO_PUBLISH_RESPONSE''
               | Inr u \<Rightarrow> Inl ''UNABLE_TO_PRESIGN_URL'',
       [IsWhitelisted ''d'' (Inr True),
        HeadObject (s3Bucket demoConfig) (s3Prefix demoConfig @ ''d'' @ s3Suffix demoConfig)
          (Inr \<lparr>Metadata = Some [(''certificateid'', ''c1'')]\<rparr>),
        UpdateCertificate (Some ''c1'') ACTIVE (Inr ()),
        GetSignedUrl (s3Bucket demoConfig) (s3Prefix demoConfig @ ''d'' @ s3Suffix demoConfig)
          (presignedUrlExpiresInSeconds demoConfig) (Inl ''no credentials'')] @
       [Publish (replace demoPlatform (mqttGetFailureTopic demoConfig) ''{thingName}'' ''d'')
          (emptyResponse\<lparr>message := Some ''UNABLE_TO_PRESIGN_URL''\<rparr>) a]))"
proof -
  have d: "''d'' \<noteq> []" by simp
  have w1: "registry_isWhitelisted noMetadataEnv [] ''d'' = Inr True"
    by (simp add: noMetadataEnv_def demoEnv_def)
  have w2: "registry_isWhitelisted noObjectEnv [] ''d'' = Inr True"
    by (simp add: noObjectEnv_def demoEnv_def)
  have w3: "registry_isWhitelisted noActivationEnv [] ''d'' = Inr True"
    by (simp add: noActivationEnv_def demoEnv_def)
  have w4: "registry_isWhitelisted noUrlEnv [] ''d'' = Inr True"
    by (simp add: noUrlEnv_def demoEnv_def)
  have "\<exists>a. get demoConfig demoPlatform noMetadataEnv ''d'' [] =
      (case a of Inl m \<Rightarrow> Inl ''UNABLE_TO_PUBLISH_RESPONSE''
               | Inr u \<Rightarrow> Inl ''MISSING_CERTIFICATE_ID'',
       [IsWhitelisted ''d'' (Inr True),
        HeadObject (s3Bucket demoConfig) (s3Prefix demoConfig @ ''d'' @ s3Suffix demoConfig)
          (Inr \<lparr>Metadata = None\<rparr>)] @
       [Publish (replace demoPlatform (mqttGetFailureTopic demoConfig) ''{thingName}'' ''d'')
          (emptyResponse\<lparr>message := Some ''MISSING_CERTIFICATE_ID''\<rparr>) a])"
    using get_failure_codes [OF d w1, of demoConfig demoPlatform]
    by (simp add: noMetadataEnv_def)
  moreover have "\<exists>a. get demoConfig demoPlatform noObjectEnv ''d'' [] =
      (case a of Inl m \<Rightarrow> Inl ''UNABLE_TO_PUBLISH_RESPONSE''
               | Inr u \<Rightarrow> Inl ''CERTIFICATE_NOT_FOUND'',
       [IsWhitelisted ''d'' (Inr True),
        HeadObject (s3Bucket demoConfig) (s3Prefix demoConfig @ ''d'' @ s3Suffix demoConfig)
          (Inl ''NotFound'')] @
       [Publish (replace demoPlatform (mqttGetFailureTopic demoConfig) ''{thingName}'' ''d'')
          (emptyResponse\<lparr>message := Some ''CERTIFICATE_NOT_FOUND''\<rparr>) a])"
    using get_failure_codes [OF d w2, of demoConfig demoPlatform]
    by (simp add: noObjectEnv_def)
  moreover have "\<exists>a. get demoConfig demoPlatform noActivationEnv ''d'' [] =
      (case a of Inl m \<Rightarrow> Inl ''UNABLE_TO_PUBLISH_RESPONSE''
               | Inr u \<Rightarrow> Inl ''UNABLE_TO_ACTIVATE_CERTIFICATE'',
       [IsWhitelisted ''d'' (Inr True),
        HeadObject (s3Bucket demoConfig) (s3Prefix demoConfig @ ''d'' @ s3Suffix demoConfig)
          (Inr \<lparr>Metadata = Some [(''certificateid'', ''c1'')]\<rparr>),
        UpdateCertificate (Some ''c1'') ACTIVE (Inl ''denied'')] @
       [Publish (replace demoPlatform (mqttGetFailureTopic demoConfig) ''{thingName}'' ''d'')
          (emptyResponse\<lparr>message := Some ''UNABLE_TO_ACTIVATE_CERTIFICATE''\<rparr>) a])"
    using get_failure_codes [OF d w3, of demoConfig demoPlatform]
    by (simp add: noActivationEnv_def demoEnv_def)
  moreover have "\<exists>a. get demoConfig demoPlatform noUrlEnv ''d'' [] =
      (case a of Inl m \<Rightarrow> Inl ''UNABLE_TO_PUBLISH_RESPONSE''
               | Inr u \<Rightarrow> Inl ''UNABLE_TO_PRESIGN_URL'',
       [IsWhitelisted ''d'' (Inr True),
        HeadObject (s3Bucket demoConfig) (s3Prefix demoConfig @ ''d'' @ s3Suffix demoConfig)
          (Inr \<lparr>Metadata = Some [(''certificateid'', ''c1'')]\<rparr>),
        UpdateCertificate (Some ''c1'') ACTIVE (Inr ()),
        GetSignedUrl (s3Bucket demoConfig) (s3Prefix demoConfig @ ''d'' @ s3Suffix demoConfig)
          (presignedUrlExpiresInSeconds demoConfig) (Inl ''no credentials'')] @
       [Publish (replace demoPlatform (mqttGetFailureTopic demoConfig) ''{thingName}'' ''d'')
          (emptyResponse\<lparr>message := Some ''UNABLE_TO_PRESIGN_URL''\<rparr>) a])"
    using get_failure_codes [OF d w4, of demoConfig demoPlatform]
    by (simp add: noUrlEnv_def demoEnv_def)
  ultimately show ?thesis using d w1 by blast
qed

subsection \<open>Kinds of events, step by step\<close>

lemma emitsD: "emits P m \<Longrightarrow> m t = (r, es) \<Longrightarrow> e \<in> set es \<Longrightarrow> P e"
  by (auto simp: emits_def)

lemma emits_resolve: "emits P (resolve a)"
  by (simp add: emits_def resolve_def)

lemma emits_throw: "emits P (throw m)"
  by (simp add: emits_def throw_def)

lemma emits_andThen:
  assumes "emits P m" "\<And>a. emits P (f a)"
  shows "emits P (andThen m f)"
  unfolding emits_def
proof (intro allI impI)
  fix t r es
  assume "andThen m f t = (r, es)"
  then show "\<forall>e\<in>set es. P e"
  proof (cases rule: andThen_cases)
    case (stop e)
    with assms(1) show ?thesis by (auto simp: emits_def)
  next
    case (go a es1 es2)
    with assms(1) assms(2) [of a] show ?thesis by (auto simp: emits_def)
  qed
qed

lemma emits_tryCatch:
  assumes "emits P m" "\<And>e. emits P (h e)"
  shows "emits P (tryCatch m h)"
  unfolding emits_def
proof (intro allI impI)
  fix t r es
  assume run: "tryCatch m h t = (r, es)"
  obtain r1 es1 where m: "m t = (r1, es1)" by (cases "m t") auto
  show "\<forall>e\<in>set es. P e"
  proof (cases r1)
    case (Inr a)
    with run m assms(1) show ?thesis by (auto simp: tryCatch_def emits_def)
  next
    case (Inl e)
    obtain r2 es2 where h: "h e (t @ es1) = (r2, es2)" by (cases "h e (t @ es1)") auto
    with run m Inl have "es = es1 @ es2" by (simp add: tryCatch_def)
    with m h assms(1) assms(2) [of e] show ?thesis by (auto simp: emits_def)
  qed
qed

lemma emits_pair: "emits P (\<lambda>t. (g t, [h t])) = (\<forall>t. P (h t))"
  by (auto simp: emits_def)

lemmas emits_intros = emits_andThen emits_tryCatch emits_resolve emits_throw

lemma emits_ow: "emits P (ow_string_nonEmpty pf label v)"
  by (simp add: ow_string_nonEmpty_def emits_throw emits_resolve)

lemma emits_ow_message: "emits P (ow_string_message msg v)"
  by (simp add: ow_string_message_def emits_throw emits_resolve split: option.splits)

lemma unpublished_get_steps: "emits (\<lambda>e. \<not> isPublish e) (get_steps cfg pf env d)"
  unfolding get_steps_def getCertificateId_def activateCertificate_def generatePresignedUrl_def
  by (auto intro!: emits_intros emits_ow simp: call_defs emits_pair split: option.splits)

lemma emits_mono: "emits P m \<Longrightarrow> (\<And>e. P e \<Longrightarrow> Q e) \<Longrightarrow> emits Q m"
  by (auto simp: emits_def)

lemma emits_attachPolicies:
  "(\<And>target n a. P (AttachPolicy target n a)) \<Longrightarrow> emits P (attachPolicies env params)"
  by (induction params) (auto intro!: emits_intros simp: attachPolicy_def emits_pair)

lemma emits_detachPolicies:
  "(\<And>n a. P (DetachPolicy target n a)) \<Longrightarrow> emits P (detachPolicies env target ps)"
  by (induction ps) (auto intro!: emits_intros simp: detachPolicy_def emits_pair)

lemma quiet_attachPolicyToCertificate:
  "emits (\<lambda>e. \<not> isPublish e \<and> \<not> isUpdateAssetStatus e)
     (attachPolicyToCertificate cfg env arn policy prev)"
  unfolding attachPolicyToCertificate_def getEffectivePolicies_def
  by (auto intro!: emits_intros emits_attachPolicies simp: call_defs emits_pair)

lemma quiet_removePrincipal:
  "emits (\<lambda>e. \<not> isPublish e \<and> \<not> isUpdateAssetStatus e) (removePrincipal cfg env d p)"
  unfolding removePrincipal_def
  by (auto intro!: emits_intros emits_detachPolicies simp: call_defs emits_pair)

lemma quiet_removePrincipals:
  "emits (\<lambda>e. \<not> isPublish e \<and> \<not> isUpdateAssetStatus e) (removePrincipals cfg env d c prev ps)"
  by (induction ps) (auto intro!: emits_intros quiet_removePrincipal)

lemma quiet_ack_steps:
  "emits (\<lambda>e. \<not> isPublish e \<and> \<not> isUpdateAssetStatus e) (ack_steps cfg env d c prev)"
  unfolding ack_steps_def removePreviousCertificate_def
  by (auto intro!: emits_intros quiet_removePrincipals simp: call_defs emits_pair)

lemma emits_selectAuthority: "emits P (selectAuthority cfg pf ps)"
  unfolding selectAuthority_def aliasOrId_def
  by (auto intro!: emits_intros emits_ow_message split: option.splits)

lemma quiet_issue:
  "emits (\<lambda>e. \<not> isPublish e \<and> \<not> isUpdateAssetStatus e \<and> \<not> isAttachPolicy e)
     (issue cfg pf env csr ps)"
  unfolding issue_def getCaCertificate_def getACMCertificate_def getSSMCertificate_def
    getCAKey_def createCertificateFromCsr_def
  by (auto intro!: emits_intros emits_selectAuthority simp: call_defs emits_pair)

lemma unpublished_getWithCsr_steps:
  "emits (\<lambda>e. \<not> isPublish e) (getWithCsr_steps cfg pf env d csr prev ps)"
  unfolding getWithCsr_steps_def registerCertificate_def attachCertificateToThing_def
  by (auto intro!: emits_intros emits_ow
        emits_mono [OF quiet_issue] emits_mono [OF quiet_attachPolicyToCertificate]
      simp: call_defs emits_pair)

lemma updatesLast_throw: "updatesLast d (throw m)"
  by (simp add: updatesLast_def throw_def)

lemma updatesLast_final: "updatesLast d (andThen (updateAssetStatus env d) (\<lambda>u. resolve x))"
  by (auto simp: updatesLast_def andThen_def updateAssetStatus_def resolve_def
      split: sum.splits)

lemma updatesLast_if:
  "(c \<Longrightarrow> updatesLast d m) \<Longrightarrow> (\<not> c \<Longrightarrow> updatesLast d m') \<Longrightarrow> updatesLast d (if c then m else m')"
  by simp

lemma updatesLast_andThen:
  assumes "emits (\<lambda>e. \<not> isUpdateAssetStatus e) m" "\<And>a. updatesLast d (f a)"
  shows "updatesLast d (andThen m f)"
  unfolding updatesLast_def
proof (intro allI impI)
  fix t r es
  assume "andThen m f t = (r, es)"
  then show "((\<forall>e\<in>set es. \<not> isUpdateAssetStatus e) \<and> isl r) \<or>
        (\<exists>es0 a. es = es0 @ [UpdateAssetStatus d a] \<and>
           (\<forall>e\<in>set es0. \<not> isUpdateAssetStatus e) \<and> (isl r \<longleftrightarrow> isl a))"
  proof (cases rule: andThen_cases)
    case (stop e)
    with assms(1) show ?thesis by (auto simp: emits_def)
  next
    case (go a es1 es2)
    from assms(1) go(1) have q: "\<forall>e\<in>set es1. \<not> isUpdateAssetStatus e"
      by (auto simp: emits_def)
    from assms(2) [of a] go(2)
    have "((\<forall>e\<in>set es2. \<not> isUpdateAssetStatus e) \<and> isl r) \<or>
        (\<exists>es0 a. es2 = es0 @ [UpdateAssetStatus d a] \<and>
           (\<forall>e\<in>set es0. \<not> isUpdateAssetStatus e) \<and> (isl r \<longleftrightarrow> isl a))"
      unfolding updatesLast_def by blast
    then show ?thesis
    proof
      assume "(\<forall>e\<in>set es2. \<not> isUpdateAssetStatus e) \<and> isl r"
      with q go(3) show ?thesis by auto
    next
      assume "\<exists>es0 a. es2 = es0 @ [UpdateAssetStatus d a] \<and>
           (\<forall>e\<in>set es0. \<not> isUpdateAssetStatus e) \<and> (isl r \<longleftrightarrow> isl a)"
      then obtain es0 a' where "es2 = es0 @ [UpdateAssetStatus d a']"
        "\<forall>e\<in>set es0. \<not> isUpdateAssetStatus e" "isl r \<longleftrightarrow> isl a'" by blast
      with q go(3) have "es = (es1 @ es0) @ [UpdateAssetStatus d a'] \<and>
           (\<forall>e\<in>set (es1 @ es0). \<not> isUpdateAssetStatus e) \<and> (isl r \<longleftrightarrow> isl a')" by auto
      then show ?thesis by blast
    qed
  qed
qed

lemma updatesLast_andThen_andThen:
  assumes "emits (\<lambda>e. \<not> isUpdateAssetStatus e) m" "\<And>a. updatesLast d (andThen (g a) (h a))"
  shows "updatesLast d (andThen m (\<lambda>a. andThen (g a) (h a)))"
  using assms by (rule updatesLast_andThen)

lemma updatesLast_andThen_if:
  assumes "emits (\<lambda>e. \<not> isUpdateAssetStatus e) m" "\<And>a. updatesLast d (if c a then p a else q a)"
  shows "updatesLast d (andThen m (\<lambda>a. if c a then p a else q a))"
  using assms by (rule updatesLast_andThen)

lemma updatesLast_get_steps: "updatesLast d (get_steps cfg pf env d)"
  unfolding get_steps_def getCertificateId_def activateCertificate_def generatePresignedUrl_def
  by (intro updatesLast_andThen_andThen updatesLast_andThen_if updatesLast_final
        updatesLast_throw emits_intros emits_ow updatesLast_if)
     (auto intro!: emits_intros simp: call_defs emits_pair split: option.splits)

lemma updatesLast_getWithCsr_steps:
  "updatesLast d (getWithCsr_steps cfg pf env d csr prev ps)"
  unfolding getWithCsr_steps_def registerCertificate_def attachCertificateToThing_def
  by (intro updatesLast_andThen_andThen updatesLast_andThen_if updatesLast_final
        updatesLast_throw emits_intros emits_ow updatesLast_if)
     (auto intro!: emits_intros
        emits_mono [OF quiet_issue] emits_mono [OF quiet_attachPolicyToCertificate]
      simp: call_defs emits_pair)

subsection \<open>Publishing and the status update\<close>

lemma filter_none: "\<forall>e\<in>set es. \<not> P e \<Longrightarrow> filter P es = []"
  by (induction es) auto

lemma operation_publishes:
  assumes run: "tryThenPublish steps respond (publishResponse pf env okTopic d)
             (catchBlock pf env noTopic d) t = (r, es)"
    and quiet: "emits (\<lambda>e. \<not> isPublish e) steps"
    and accepted: "\<forall>topic payload m. Publish topic payload (Inl m) \<notin> set es"
  shows "case r of
           Inr u \<Rightarrow> \<exists>payload. filter isPublish es =
                      [Publish (replace pf okTopic ''{thingName}'' d) payload (Inr ())]
         | Inl err \<Rightarrow> \<exists>payload. filter isPublish es =
                      [Publish (replace pf noTopic ''{thingName}'' d) payload (Inr ())] \<and>
                      message payload = Some err"
  using run
proof (cases rule: operation_cases)
  case (failed err es1 a)
  from emitsD [OF quiet failed(1)] have "filter isPublish es1 = []" by (intro filter_none) blast
  moreover from accepted failed(2) obtain u where "a = Inr u" by (cases a) auto
  ultimately show ?thesis using failed(2,4) by auto
next
  case (published x es1)
  from emitsD [OF quiet published(1)] have "filter isPublish es1 = []"
    by (intro filter_none) blast
  with published(2,4) show ?thesis by auto
next
  case (unpublished x es1 m a)
  with accepted show ?thesis by auto
qed

text \<open>
  Claim C5, as amended. An invocation in which no publish call is rejected (for \<open>ack\<close>: one
  whose two arguments are not empty, since \<open>ack\<close> validates them before its \<open>try\<close> block)
  makes exactly one publish call: on the success topic when the operation resolves, and on the
  failure topic, with the message of the error in the payload, when it raises that error.
\<close>

theorem publish_exactly_once:
  "(get cfg pf env deviceId t = (r, es) \<and>
    (\<forall>topic payload m. Publish topic payload (Inl m) \<notin> set es) \<longrightarrow>
    (case r of
       Inr u \<Rightarrow> \<exists>payload. filter isPublish es =
         [Publish (replace pf (mqttGetSuccessTopic cfg) ''{thingName}'' deviceId) payload (Inr ())]
     | Inl err \<Rightarrow> \<exists>payload. filter isPublish es =
         [Publish (replace pf (mqttGetFailureTopic cfg) ''{thingName}'' deviceId) payload (Inr ())] \<and>
         message payload = Some err)) \<and>
   (getWithCsr cfg pf env deviceId csr previousCertificateId acmpcaParameters t = (r, es) \<and>
    (\<forall>topic payload m. Publish topic payload (Inl m) \<notin> set es) \<longrightarrow>
    (case r of
       Inr u \<Rightarrow> \<exists>payload. filter isPublish es =
         [Publish (replace pf (mqttGetSuccessTopic cfg) ''{thingName}'' deviceId) payload (Inr ())]
     | Inl err \<Rightarrow> \<exists>payload. filter isPublish es =
         [Publish (replace pf (mqttGetFailureTopic cfg) ''{thingName}'' deviceId) payload (Inr ())] \<and>
         message payload = Some err)) \<and>
   (deviceId \<noteq> [] \<and> certId \<noteq> [] \<and>
    ack cfg pf env deviceId certId previousCertificateId t = (r, es) \<and>
    (\<forall>topic payload m. Publish topic payload (Inl m) \<notin> set es) \<longrightarrow>
    (case r of
       Inr u \<Rightarrow> \<exists>payload. filter isPublish es =
         [Publish (replace pf (mqttAckSuccessTopic cfg) ''{thingName}'' deviceId) payload (Inr ())]
     | Inl err \<Rightarrow> \<exists>payload. filter isPublish es =
         [Publish (replace pf (mqttAckFailureTopic cfg) ''{thingName}'' deviceId) payload (Inr ())] \<and>
         message payload = Some err))"
proof (intro conjI impI)
  assume h: "get cfg pf env deviceId t = (r, es) \<and>
    (\<forall>topic payload m. Publish topic payload (Inl m) \<notin> set es)"
  then have run: "tryThenPublish (get_steps cfg pf env deviceId)
       (\<lambda>presignedUrl. emptyResponse\<lparr>location := Some presignedUrl\<rparr>)
       (publishResponse pf env (mqttGetSuccessTopic cfg) deviceId)
       (catchBlock pf env (mqttGetFailureTopic cfg) deviceId) t = (r, es)"
    by (simp add: get_def)
  from h have acc: "\<forall>topic payload m. Publish topic payload (Inl m) \<notin> set es" by blast
  from operation_publishes [OF run unpublished_get_steps acc]
  show "case r of
       Inr u \<Rightarrow> \<exists>payload. filter isPublish es =
         [Publish (replace pf (mqttGetSuccessTopic cfg) ''{thingName}'' deviceId) payload (Inr ())]
     | Inl err \<Rightarrow> \<exists>payload. filter isPublish es =
         [Publish (replace pf (mqttGetFailureTopic cfg) ''{thingName}'' deviceId) payload (Inr ())] \<and>
         message payload = Some err" .
next
  assume h: "getWithCsr cfg pf env deviceId csr previousCertificateId acmpcaParameters t = (r, es) \<and>
    (\<forall>topic payload m. Publish topic payload (Inl m) \<notin> set es)"
  then have run: "tryThenPublish
       (getWithCsr_steps cfg pf env deviceId csr previousCertificateId acmpcaParameters)
       (\<lambda>out. emptyResponse\<lparr>certificate := Some (fst out),
                              certificateId := certificateIdOf (snd out)\<rparr>)
       (publishResponse pf env (mqttGetSuccessTopic cfg) deviceId)
       (catchBlock pf env (mqttGetFailureTopic cfg) deviceId) t = (r, es)"
    by (simp add: getWithCsr_def)
  from h have acc: "\<forall>topic payload m. Publish topic payload (Inl m) \<notin> set es" by blast
  from operation_publishes [OF run unpublished_getWithCsr_steps acc]
  show "case r of
       Inr u \<Rightarrow> \<exists>payload. filter isPublish es =
         [Publish (replace pf (mqttGetSuccessTopic cfg) ''{thingName}'' deviceId) payload (Inr ())]
     | Inl err \<Rightarrow> \<exists>payload. filter isPublish es =
         [Publish (replace pf (mqttGetFailureTopic cfg) ''{thingName}'' deviceId) payload (Inr ())] \<and>
         message payload = Some err" .
next
  assume h: "deviceId \<noteq> [] \<and> certId \<noteq> [] \<and>
    ack cfg pf env deviceId certId previousCertificateId t = (r, es) \<and>
    (\<forall>topic payload m. Publish topic payload (Inl m) \<notin> set es)"
  have q: "emits (\<lambda>e. \<not> isPublish e) (ack_steps cfg env deviceId certId previousCertificateId)"
    by (rule emits_mono [OF quiet_ack_steps]) simp
  from h have d: "deviceId \<noteq> []" and c: "certId \<noteq> []"
    and a: "ack cfg pf env deviceId certId previousCertificateId t = (r, es)" by blast+
  from a have run: "tryThenPublish (ack_steps cfg env deviceId certId previousCertificateId)
       (\<lambda>u. emptyResponse\<lparr>message := Some ''OK''\<rparr>)
       (publishResponse pf env (mqttAckSuccessTopic cfg) deviceId)
       (catchBlock pf env (mqttAckFailureTopic cfg) deviceId) t = (r, es)"
    by (simp add: ack_valid [OF d c])
  from h have acc: "\<forall>topic payload m. Publish topic payload (Inl m) \<notin> set es" by blast
  from operation_publishes [OF run q acc]
  show "case r of
       Inr u \<Rightarrow> \<exists>payload. filter isPublish es =
         [Publish (replace pf (mqttAckSuccessTopic cfg) ''{thingName}'' deviceId) payload (Inr ())]
     | Inl err \<Rightarrow> \<exists>payload. filter isPublish es =
         [Publish (replace pf (mqttAckFailureTopic cfg) ''{thingName}'' deviceId) payload (Inr ())] \<and>
         message payload = Some err" .
qed

theorem publish_exactly_once_witness:
  "get demoConfig demoPlatform demoEnv ''x'' [] =
     (Inl ''DEVICE_NOT_WHITELISTED'',
      [IsWhitelisted ''x'' (Inr False),
       Publish ''g/no'' (emptyResponse\<lparr>message := Some ''DEVICE_NOT_WHITELISTED''\<rparr>) (Inr ())]) \<and>
   (\<exists>payload.
      filter isPublish
        [IsWhitelisted ''x'' (Inr False),
         Publish ''g/no'' (emptyResponse\<lparr>message := Some ''DEVICE_NOT_WHITELISTED''\<rparr>) (Inr ())] =
      [Publish (replace demoPlatform (mqttGetFailureTopic demoConfig) ''{thingName}'' ''x'')
         payload (Inr ())] \<and>
      message payload = Some ''DEVICE_NOT_WHITELISTED'') \<and>
   ack demoConfig demoPlatform demoEnv ''d'' ''c1'' (Some ''c3'') [] =
     (Inr (),
      [IsWhitelisted ''d'' (Inr True), RemoveThingFromThingGroup ''d'' ''grp'' (Inr ()),
       ListThingPrincipals ''d'' (Inr [''c/c1'', ''c/c2'', ''c/c3'']),
       DetachThingPrincipal ''d'' ''c/c3'' (Inr ()), ListPrincipalThings ''c/c3'' (Inr [''e'']),
       Publish ''a/ok'' (emptyResponse\<lparr>message := Some ''OK''\<rparr>) (Inr ())]) \<and>
   (\<exists>payload.
      filter isPublish
        [IsWhitelisted ''d'' (Inr True), RemoveThingFromThingGroup ''d'' ''grp'' (Inr ()),
         ListThingPrincipals ''d'' (Inr [''c/c1'', ''c/c2'', ''c/c3'']),
         DetachThingPrincipal ''d'' ''c/c3'' (Inr ()), ListPrincipalThings ''c/c3'' (Inr [''e'']),
         Publish ''a/ok'' (emptyResponse\<lparr>message := Some ''OK''\<rparr>) (Inr ())] =
      [Publish (replace demoPlatform (mqttAckSuccessTopic demoConfig) ''{thingName}'' ''d'')
         payload (Inr ())])"
proof -
  have g: "get demoConfig demoPlatform demoEnv ''x'' [] =
     (Inl ''DEVICE_NOT_WHITELISTED'',
      [IsWhitelisted ''x'' (Inr False),
       Publish ''g/no'' (emptyResponse\<lparr>message := Some ''DEVICE_NOT_WHITELISTED''\<rparr>) (Inr ())])"
    by code_simp
  have a: "ack demoConfig demoPlatform demoEnv ''d'' ''c1'' (Some ''c3'') [] =
     (Inr (),
      [IsWhitelisted ''d'' (Inr True), RemoveThingFromThingGroup ''d'' ''grp'' (Inr ()),
       ListThingPrincipals ''d'' (Inr [''c/c1'', ''c/c2'', ''c/c3'']),
       DetachThingPrincipal ''d'' ''c/c3'' (Inr ()), ListPrincipalThings ''c/c3'' (Inr [''e'']),
       Publish ''a/ok'' (emptyResponse\<lparr>message := Some ''OK''\<rparr>) (Inr ())])"
    by code_simp
  have "\<exists>payload.
      filter isPublish
        [IsWhitelisted ''x'' (Inr False),
         Publish ''g/no'' (emptyResponse\<lparr>message := Some ''DEVICE_NOT_WHITELISTED''\<rparr>) (Inr ())] =
      [Publish (replace demoPlatform (mqttGetFailureTopic demoConfig) ''{thingName}'' ''x'')
         payload (Inr ())] \<and>
      message payload = Some ''DEVICE_NOT_WHITELISTED''"
    using publish_exactly_once
      [of demoConfig demoPlatform demoEnv "''x''" "[]" "Inl ''DEVICE_NOT_WHITELISTED''"
        "[IsWhitelisted ''x'' (Inr False),
          Publish ''g/no'' (emptyResponse\<lparr>message := Some ''DEVICE_NOT_WHITELISTED''\<rparr>) (Inr ())]"]
      g
    by simp
  moreover have "\<exists>payload.
      filter isPublish
        [IsWhitelisted ''d'' (Inr True), RemoveThingFromThingGroup ''d'' ''grp'' (Inr ()),
         ListThingPrincipals ''d'' (Inr [''c/c1'', ''c/c2'', ''c/c3'']),
         DetachThingPrincipal ''d'' ''c/c3'' (Inr ()), ListPrincipalThings ''c/c3'' (Inr [''e'']),
         Publish ''a/ok'' (emptyResponse\<lparr>message := Some ''OK''\<rparr>) (Inr ())] =
      [Publish (replace demoPlatform (mqttAckSuccessTopic demoConfig) ''{thingName}'' ''d'')
         payload (Inr ())]"
    using publish_exactly_once
      [of demoConfig demoPlatform demoEnv "''d''" "[]" "Inr ()"
        "[IsWhitelisted ''d'' (Inr True), RemoveThingFromThingGroup ''d'' ''grp'' (Inr ()),
         ListThingPrincipals ''d'' (Inr [''c/c1'', ''c/c2'', ''c/c3'']),
         DetachThingPrincipal ''d'' ''c/c3'' (Inr ()), ListPrincipalThings ''c/c3'' (Inr [''e'']),
         Publish ''a/ok'' (emptyResponse\<lparr>message := Some ''OK''\<rparr>) (Inr ())]"
        "''csr''" "Some ''c3''" None "''c1''"]
      a
    by simp
  ultimately show ?thesis using g a by blast
qed

text \<open>
  Against claim C5 as it is stated: an acknowledgement with an empty certificate id raises
  without publishing anything; with a broker that rejects every publish, \<open>get\<close> for a device
  that is not whitelisted publishes nothing and raises \<open>UNABLE_TO_PUBLISH_RESPONSE\<close> in
  place of \<open>DEVICE_NOT_WHITELISTED\<close>; with a broker that rejects the success topic only,
  \<open>get\<close> calls publish on both topics.
\<close>

theorem publish_exactly_once_counterexample:
  "ack demoConfig demoPlatform demoEnv ''d'' [] None [] = (Inl ''empty'', []) \<and>
   get demoConfig demoPlatform offlineEnv ''x'' [] =
     (Inl ''UNABLE_TO_PUBLISH_RESPONSE'',
      [IsWhitelisted ''x'' (Inr False),
       Publish ''g/no'' (emptyResponse\<lparr>message := Some ''DEVICE_NOT_WHITELISTED''\<rparr>)
         (Inl ''offline'')]) \<and>
   get demoConfig demoPlatform halfEnv ''d'' [] =
     (Inl ''UNABLE_TO_PUBLISH_RESPONSE'',
      [IsWhitelisted ''d'' (Inr True),
       HeadObject ''b'' ''k/d.z'' (Inr \<lparr>Metadata = Some [(''certificateid'', ''c1'')]\<rparr>),
       UpdateCertificate (Some ''c1'') ACTIVE (Inr ()),
       GetSignedUrl ''b'' ''k/d.z'' 60 (Inr ''url''),
       UpdateAssetStatus ''d'' (Inr ()),
       Publish ''g/ok'' (emptyResponse\<lparr>location := Some ''url''\<rparr>) (Inl ''offline''),
       Publish ''g/no''
         (emptyResponse\<lparr>location := Some ''url'',
                          message := Some ''UNABLE_TO_PUBLISH_RESPONSE''\<rparr>) (Inr ())])"
proof -
  have "ack demoConfig demoPlatform demoEnv ''d'' [] None [] = (Inl ''empty'', [])"
    by code_simp
  moreover have "get demoConfig demoPlatform offlineEnv ''x'' [] =
     (Inl ''UNABLE_TO_PUBLISH_RESPONSE'',
      [IsWhitelisted ''x'' (Inr False),
       Publish ''g/no'' (emptyResponse\<lparr>message := Some ''DEVICE_NOT_WHITELISTED''\<rparr>)
         (Inl ''offline'')])"
    by code_simp
  moreover have "get demoConfig demoPlatform halfEnv ''d'' [] =
     (Inl ''UNABLE_TO_PUBLISH_RESPONSE'',
      [IsWhitelisted ''d'' (Inr True),
       HeadObject ''b'' ''k/d.z'' (Inr \<lparr>Metadata = Some [(''certificateid'', ''c1'')]\<rparr>),
       UpdateCertificate (Some ''c1'') ACTIVE (Inr ()),
       GetSignedUrl ''b'' ''k/d.z'' 60 (Inr ''url''),
       UpdateAssetStatus ''d'' (Inr ()),
       Publish ''g/ok'' (emptyResponse\<lparr>location := Some ''url''\<rparr>) (Inl ''offline''),
       Publish ''g/no''
         (emptyResponse\<lparr>location := Some ''url'',
                          message := Some ''UNABLE_TO_PUBLISH_RESPONSE''\<rparr>) (Inr ())])"
    by code_simp
  ultimately show ?thesis by blast
qed

lemma updatesLastD:
  assumes "updatesLast d m" "m t = (r, es)"
  shows "((\<forall>e\<in>set es. \<not> isUpdateAssetStatus e) \<and> isl r) \<or>
        (\<exists>es0 a. es = es0 @ [UpdateAssetStatus d a] \<and>
           (\<forall>e\<in>set es0. \<not> isUpdateAssetStatus e) \<and> (isl r \<longleftrightarrow> isl a))"
  using assms unfolding updatesLast_def by blast

lemma updatesLast_resolved:
  assumes "updatesLast d m" "m t = (Inr x, es)"
  shows "filter isUpdateAssetStatus es = [UpdateAssetStatus d (Inr ())]"
proof -
  from updatesLastD [OF assms] obtain es0 a where es: "es = es0 @ [UpdateAssetStatus d a]"
    and es0: "\<forall>e\<in>set es0. \<not> isUpdateAssetStatus e" and a: "\<not> isl a" by auto
  from a have "a = Inr ()" by (cases a) auto
  with es es0 show ?thesis by (simp add: filter_none)
qed

lemma updatesLast_rejected:
  assumes "updatesLast d m" "m t = (Inl err, es)"
  shows "filter isUpdateAssetStatus es = [] \<or>
       (\<exists>m. filter isUpdateAssetStatus es = [UpdateAssetStatus d (Inl m)])"
proof -
  from updatesLastD [OF assms]
  have "(\<forall>e\<in>set es. \<not> isUpdateAssetStatus e) \<or>
        (\<exists>es0 a. es = es0 @ [UpdateAssetStatus d a] \<and>
           (\<forall>e\<in>set es0. \<not> isUpdateAssetStatus e) \<and> isl a)" by auto
  then show ?thesis
  proof
    assume "\<forall>e\<in>set es. \<not> isUpdateAssetStatus e"
    then show ?thesis by (simp add: filter_none)
  next
    assume "\<exists>es0 a. es = es0 @ [UpdateAssetStatus d a] \<and>
           (\<forall>e\<in>set es0. \<not> isUpdateAssetStatus e) \<and> isl a"
    then obtain es0 a0 where "es = es0 @ [UpdateAssetStatus d a0]"
      "\<forall>e\<in>set es0. \<not> isUpdateAssetStatus e" "isl a0" by blast
    moreover from \<open>isl a0\<close> obtain m where "a0 = Inl m" by (cases a0) auto
    ultimately show ?thesis by (simp add: filter_none)
  qed
qed

lemma operation_updates:
  assumes run: "tryThenPublish steps respond (publishResponse pf env okTopic d)
             (catchBlock pf env noTopic d) t = (r, es)"
    and last: "updatesLast d steps"
  shows "(r = Inr () \<longrightarrow> filter isUpdateAssetStatus es = [UpdateAssetStatus d (Inr ())]) \<and>
    (\<forall>err. r = Inl err \<longrightarrow>
       filter isUpdateAssetStatus es = [] \<or>
       (\<exists>m. filter isUpdateAssetStatus es = [UpdateAssetStatus d (Inl m)]) \<or>
       (filter isUpdateAssetStatus es = [UpdateAssetStatus d (Inr ())] \<and>
        (\<exists>payload m. Publish (replace pf okTopic ''{thingName}'' d) payload (Inl m) \<in> set es)))"
  using run
proof (cases rule: operation_cases)
  case (failed err es1 a)
  from failed(2) have fe: "filter isUpdateAssetStatus es = filter isUpdateAssetStatus es1"
    by simp
  from failed(4) have nr: "r \<noteq> Inr ()" by (cases a) auto
  from updatesLast_rejected [OF last failed(1)] fe nr show ?thesis by auto
next
  case (published x es1)
  from published(2) have fe: "filter isUpdateAssetStatus es = filter isUpdateAssetStatus es1"
    by simp
  from updatesLast_resolved [OF last published(1)] fe published(4) show ?thesis by auto
next
  case (unpublished x es1 m a)
  from unpublished(2) have fe: "filter isUpdateAssetStatus es = filter isUpdateAssetStatus es1"
    by simp
  from unpublished(2) have pe: "Publish (replace pf okTopic ''{thingName}'' d) (respond x) (Inl m)
      \<in> set es" by simp
  from unpublished(4) have nr: "r \<noteq> Inr ()" by (cases a) auto
  from updatesLast_resolved [OF last unpublished(1)] fe
  have "filter isUpdateAssetStatus es = [UpdateAssetStatus d (Inr ())]" by simp
  moreover from pe have "\<exists>payload m. Publish (replace pf okTopic ''{thingName}'' d) payload (Inl m)
      \<in> set es" by (intro exI)
  ultimately show ?thesis using nr by simp
qed

lemma ack_never_updates:
  assumes "ack cfg pf env d c prev t = (r, es)"
  shows "filter isUpdateAssetStatus es = []"
proof (cases "d = [] \<or> c = []")
  case True
  from ack_invalid [OF this, of cfg pf env prev t] assms show ?thesis by auto
next
  case False
  have q: "emits (\<lambda>e. \<not> isUpdateAssetStatus e) (ack_steps cfg env d c prev)"
    by (rule emits_mono [OF quiet_ack_steps]) simp
  from False assms have "tryThenPublish (ack_steps cfg env d c prev)
       (\<lambda>u. emptyResponse\<lparr>message := Some ''OK''\<rparr>)
       (publishResponse pf env (mqttAckSuccessTopic cfg) d)
       (catchBlock pf env (mqttAckFailureTopic cfg) d) t = (r, es)"
    by (simp add: ack_valid)
  then show ?thesis
  proof (cases rule: operation_cases)
    case (failed err es1 a)
    from emitsD [OF q failed(1)] failed(2) show ?thesis by (auto simp: filter_none)
  next
    case (published x es1)
    from emitsD [OF q published(1)] published(2) show ?thesis by (auto simp: filter_none)
  next
    case (unpublished x es1 m a)
    from emitsD [OF q unpublished(1)] unpublished(2) show ?thesis by (auto simp: filter_none)
  qed
qed

text \<open>
  Claim C6, as amended. A \<open>get\<close> or \<open>getWithCsr\<close> that resolves has called the status
  update exactly once, for its device, and the call was accepted. One that raises has called
  it at most once, and then either that call was rejected or the publish on the success
  topic that follows it was. An acknowledgement never calls the status update.
\<close>

theorem status_update_calls:
  "(get cfg pf env deviceId t = (r, es) \<longrightarrow>
    (r = Inr () \<longrightarrow> filter isUpdateAssetStatus es = [UpdateAssetStatus deviceId (Inr ())]) \<and>
    (\<forall>err. r = Inl err \<longrightarrow>
       filter isUpdateAssetStatus es = [] \<or>
       (\<exists>m. filter isUpdateAssetStatus es = [UpdateAssetStatus deviceId (Inl m)]) \<or>
       (filter isUpdateAssetStatus es = [UpdateAssetStatus deviceId (Inr ())] \<and>
        (\<exists>payload m. Publish (replace pf (mqttGetSuccessTopic cfg) ''{thingName}'' deviceId) payload (Inl m)
           \<in> set es)))) \<and>
   (getWithCsr cfg pf env deviceId csr previousCertificateId acmpcaParameters t = (r, es) \<longrightarrow>
    (r = Inr () \<longrightarrow> filter isUpdateAssetStatus es = [UpdateAssetStatus deviceId (Inr ())]) \<and>
    (\<forall>err. r = Inl err \<longrightarrow>
       filter isUpdateAssetStatus es = [] \<or>
       (\<exists>m. filter isUpdateAssetStatus es = [UpdateAssetStatus deviceId (Inl m)]) \<or>
       (filter isUpdateAssetStatus es = [UpdateAssetStatus deviceId (Inr ())] \<and>
        (\<exists>payload m. Publish (replace pf (mqttGetSuccessTopic cfg) ''{thingName}'' deviceId) payload (Inl m)
           \<in> set es)))) \<and>
   (ack cfg pf env deviceId certId previousCertificateId t = (r, es) \<longrightarrow>
      filter isUpdateAssetStatus es = [])"
proof (intro conjI)
  show "get cfg pf env deviceId t = (r, es) \<longrightarrow>
    (r = Inr () \<longrightarrow> filter isUpdateAssetStatus es = [UpdateAssetStatus deviceId (Inr ())]) \<and>
    (\<forall>err. r = Inl err \<longrightarrow>
       filter isUpdateAssetStatus es = [] \<or>
       (\<exists>m. filter isUpdateAssetStatus es = [UpdateAssetStatus deviceId (Inl m)]) \<or>
       (filter isUpdateAssetStatus es = [UpdateAssetStatus deviceId (Inr ())] \<and>
        (\<exists>payload m. Publish (replace pf (mqttGetSuccessTopic cfg) ''{thingName}'' deviceId) payload (Inl m)
           \<in> set es)))"
  proof
    assume "get cfg pf env deviceId t = (r, es)"
    then have run: "tryThenPublish (get_steps cfg pf env deviceId)
       (\<lambda>presignedUrl. emptyResponse\<lparr>location := Some presignedUrl\<rparr>)
       (publishResponse pf env (mqttGetSuccessTopic cfg) deviceId)
       (catchBlock pf env (mqttGetFailureTopic cfg) deviceId) t = (r, es)"
      by (simp add: get_def)
    from operation_updates [OF run updatesLast_get_steps]
    show "(r = Inr () \<longrightarrow> filter isUpdateAssetStatus es = [UpdateAssetStatus deviceId (Inr ())]) \<and>
    (\<forall>err. r = Inl err \<longrightarrow>
       filter isUpdateAssetStatus es = [] \<or>
       (\<exists>m. filter isUpdateAssetStatus es = [UpdateAssetStatus deviceId (Inl m)]) \<or>
       (filter isUpdateAssetStatus es = [UpdateAssetStatus deviceId (Inr ())] \<and>
        (\<exists>payload m. Publish (replace pf (mqttGetSuccessTopic cfg) ''{thingName}'' deviceId) payload (Inl m)
           \<in> set es)))" .
  qed
  show "getWithCsr cfg pf env deviceId csr previousCertificateId acmpcaParameters t = (r, es) \<longrightarrow>
    (r = Inr () \<longrightarrow> filter isUpdateAssetStatus es = [UpdateAssetStatus deviceId (Inr ())]) \<and>
    (\<forall>err. r = Inl err \<longrightarrow>
       filter isUpdateAssetStatus es = [] \<or>
       (\<exists>m. filter isUpdateAssetStatus es = [UpdateAssetStatus deviceId (Inl m)]) \<or>
       (filter isUpdateAssetStatus es = [UpdateAssetStatus deviceId (Inr ())] \<and>
        (\<exists>payload m. Publish (replace pf (mqttGetSuccessTopic cfg) ''{thingName}'' deviceId) payload (Inl m)
           \<in> set es)))"
  proof
    assume "getWithCsr cfg pf env deviceId csr previousCertificateId acmpcaParameters t = (r, es)"
    then have run: "tryThenPublish
       (getWithCsr_steps cfg pf env deviceId csr previousCertificateId acmpcaParameters)
       (\<lambda>out. emptyResponse\<lparr>certificate := Some (fst out),
                              certificateId := certificateIdOf (snd out)\<rparr>)
       (publishResponse pf env (mqttGetSuccessTopic cfg) deviceId)
       (catchBlock pf env (mqttGetFailureTopic cfg) deviceId) t = (r, es)"
      by (simp add: getWithCsr_def)
    from operation_updates [OF run updatesLast_getWithCsr_steps]
    show "(r = Inr () \<longrightarrow> filter isUpdateAssetStatus es = [UpdateAssetStatus deviceId (Inr ())]) \<and>
    (\<forall>err. r = Inl err \<longrightarrow>
       filter isUpdateAssetStatus es = [] \<or>
       (\<exists>m. filter isUpdateAssetStatus es = [UpdateAssetStatus deviceId (Inl m)]) \<or>
       (filter isUpdateAssetStatus es = [UpdateAssetStatus deviceId (Inr ())] \<and>
        (\<exists>payload m. Publish (replace pf (mqttGetSuccessTopic cfg) ''{thingName}'' deviceId) payload (Inl m)
           \<in> set es)))" .
  qed
  show "ack cfg pf env deviceId certId previousCertificateId t = (r, es) \<longrightarrow>
      filter isUpdateAssetStatus es = []"
    using ack_never_updates by blast
qed

theorem status_update_calls_witness:
  "get demoConfig demoPlatform demoEnv ''d'' [] =
     (Inr (),
      [IsWhitelisted ''d'' (Inr True),
       HeadObject ''b'' ''k/d.z'' (Inr \<lparr>Metadata = Some [(''certificateid'', ''c1'')]\<rparr>),
       UpdateCertificate (Some ''c1'') ACTIVE (Inr ()),
       GetSignedUrl ''b'' ''k/d.z'' 60 (Inr ''url''),
       UpdateAssetStatus ''d'' (Inr ()),
       Publish ''g/ok'' (emptyResponse\<lparr>location := Some ''url''\<rparr>) (Inr ())]) \<and>
   filter isUpdateAssetStatus
     [IsWhitelisted ''d'' (Inr True),
       HeadObject ''b'' ''k/d.z'' (Inr \<lparr>Metadata = Some [(''certificateid'', ''c1'')]\<rparr>),
       UpdateCertificate (Some ''c1'') ACTIVE (Inr ()),
       GetSignedUrl ''b'' ''k/d.z'' 60 (Inr ''url''),
       UpdateAssetStatus ''d'' (Inr ()),
       Publish ''g/ok'' (emptyResponse\<lparr>location := Some ''url''\<rparr>) (Inr ())] =
     [UpdateAssetStatus ''d'' (Inr ())] \<and>
   ack demoConfig demoPlatform demoEnv ''d'' ''c1'' (Some ''c3'') [] =
     (Inr (),
      [IsWhitelisted ''d'' (Inr True), RemoveThingFromThingGroup ''d'' ''grp'' (Inr ()),
       ListThingPrincipals ''d'' (Inr [''c/c1'', ''c/c2'', ''c/c3'']),
       DetachThingPrincipal ''d'' ''c/c3'' (Inr ()), ListPrincipalThings ''c/c3'' (Inr [''e'']),
       Publish ''a/ok'' (emptyResponse\<lparr>message := Some ''OK''\<rparr>) (Inr ())]) \<and>
   filter isUpdateAssetStatus
     [IsWhitelisted ''d'' (Inr True), RemoveThingFromThingGroup ''d'' ''grp'' (Inr ()),
       ListThingPrincipals ''d'' (Inr [''c/c1'', ''c/c2'', ''c/c3'']),
       DetachThingPrincipal ''d'' ''c/c3'' (Inr ()), ListPrincipalThings ''c/c3'' (Inr [''e'']),
       Publish ''a/ok'' (emptyResponse\<lparr>message := Some ''OK''\<rparr>) (Inr ())] = []"
proof -
  have g: "get demoConfig demoPlatform demoEnv ''d'' [] =
     (Inr (),
      [IsWhitelisted ''d'' (Inr True),
       HeadObject ''b'' ''k/d.z'' (Inr \<lparr>Metadata = Some [(''certificateid'', ''c1'')]\<rparr>),
       UpdateCertificate (Some ''c1'') ACTIVE (Inr ()),
       GetSignedUrl ''b'' ''k/d.z'' 60 (Inr ''url''),
       UpdateAssetStatus ''d'' (Inr ()),
       Publish ''g/ok'' (emptyResponse\<lparr>location := Some ''url''\<rparr>) (Inr ())])"
    by code_simp
  have a: "ack demoConfig demoPlatform demoEnv ''d'' ''c1'' (Some ''c3'') [] =
     (Inr (),
      [IsWhitelisted ''d'' (Inr True), RemoveThingFromThingGroup ''d'' ''grp'' (Inr ()),
       ListThingPrincipals ''d'' (Inr [''c/c1'', ''c/c2'', ''c/c3'']),
       DetachThingPrincipal ''d'' ''c/c3'' (Inr ()), ListPrincipalThings ''c/c3'' (Inr [''e'']),
       Publish ''a/ok'' (emptyResponse\<lparr>message := Some ''OK''\<rparr>) (Inr ())])"
    by code_simp
  from g status_update_calls
    [where cfg = demoConfig and pf = demoPlatform and env = demoEnv and deviceId = "''d''"
       and t = "[]" and r = "Inr ()" and es = "[IsWhitelisted ''d'' (Inr True),
       HeadObject ''b'' ''k/d.z'' (Inr \<lparr>Metadata = Some [(''certificateid'', ''c1'')]\<rparr>),
       UpdateCertificate (Some ''c1'') ACTIVE (Inr ()),
       GetSignedUrl ''b'' ''k/d.z'' 60 (Inr ''url''),
       UpdateAssetStatus ''d'' (Inr ()),
       Publish ''g/ok'' (emptyResponse\<lparr>location := Some ''url''\<rparr>) (Inr ())]"]
  have "filter isUpdateAssetStatus
     [IsWhitelisted ''d'' (Inr True),
       HeadObject ''b'' ''k/d.z'' (Inr \<lparr>Metadata = Some [(''certificateid'', ''c1'')]\<rparr>),
       UpdateCertificate (Some ''c1'') ACTIVE (Inr ()),
       GetSignedUrl ''b'' ''k/d.z'' 60 (Inr ''url''),
       UpdateAssetStatus ''d'' (Inr ()),
       Publish ''g/ok'' (emptyResponse\<lparr>location := Some ''url''\<rparr>) (Inr ())] =
     [UpdateAssetStatus ''d'' (Inr ())]"
    by blast
  moreover from a status_update_calls
    [where cfg = demoConfig and pf = demoPlatform and env = demoEnv and deviceId = "''d''"
       and t = "[]" and r = "Inr ()" and certId = "''c1''" and previousCertificateId = "Some ''c3''"
       and es = "[IsWhitelisted ''d'' (Inr True), RemoveThingFromThingGroup ''d'' ''grp'' (Inr ()),
       ListThingPrincipals ''d'' (Inr [''c/c1'', ''c/c2'', ''c/c3'']),
       DetachThingPrincipal ''d'' ''c/c3'' (Inr ()), ListPrincipalThings ''c/c3'' (Inr [''e'']),
       Publish ''a/ok'' (emptyResponse\<lparr>message := Some ''OK''\<rparr>) (Inr ())]"]
  have "filter isUpdateAssetStatus
     [IsWhitelisted ''d'' (Inr True), RemoveThingFromThingGroup ''d'' ''grp'' (Inr ()),
       ListThingPrincipals ''d'' (Inr [''c/c1'', ''c/c2'', ''c/c3'']),
       DetachThingPrincipal ''d'' ''c/c3'' (Inr ()), ListPrincipalThings ''c/c3'' (Inr [''e'']),
       Publish ''a/ok'' (emptyResponse\<lparr>message := Some ''OK''\<rparr>) (Inr ())] = []"
    by blast
  ultimately show ?thesis using g a by blast
qed

text \<open>
  Against claim C6 as it is stated: an acknowledgement that resolves has not called the
  status update; and with a broker that rejects the success topic, \<open>get\<close> raises although
  the status update was called and accepted.
\<close>

theorem status_update_calls_counterexample:
  "ack demoConfig demoPlatform demoEnv ''d'' ''c1'' (Some ''c3'') [] =
     (Inr (),
      [IsWhitelisted ''d'' (Inr True), RemoveThingFromThingGroup ''d'' ''grp'' (Inr ()),
       ListThingPrincipals ''d'' (Inr [''c/c1'', ''c/c2'', ''c/c3'']),
       DetachThingPrincipal ''d'' ''c/c3'' (Inr ()), ListPrincipalThings ''c/c3'' (Inr [''e'']),
       Publish ''a/ok'' (emptyResponse\<lparr>message := Some ''OK''\<rparr>) (Inr ())]) \<and>
   get demoConfig demoPlatform halfEnv ''d'' [] =
     (Inl ''UNABLE_TO_PUBLISH_RESPONSE'',
      [IsWhitelisted ''d'' (Inr True),
       HeadObject ''b'' ''k/d.z'' (Inr \<lparr>Metadata = Some [(''certificateid'', ''c1'')]\<rparr>),
       UpdateCertificate (Some ''c1'') ACTIVE (Inr ()),
       GetSignedUrl ''b'' ''k/d.z'' 60 (Inr ''url''),
       UpdateAssetStatus ''d'' (Inr ()),
       Publish ''g/ok'' (emptyResponse\<lparr>location := Some ''url''\<rparr>) (Inl ''offline''),
       Publish ''g/no''
         (emptyResponse\<lparr>location := Some ''url'',
                          message := Some ''UNABLE_TO_PUBLISH_RESPONSE''\<rparr>) (Inr ())])"
proof -
  have "ack demoConfig demoPlatform demoEnv ''d'' ''c1'' (Some ''c3'') [] =
     (Inr (),
      [IsWhitelisted ''d'' (Inr True), RemoveThingFromThingGroup ''d'' ''grp'' (Inr ()),
       ListThingPrincipals ''d'' (Inr [''c/c1'', ''c/c2'', ''c/c3'']),
       DetachThingPrincipal ''d'' ''c/c3'' (Inr ()), ListPrincipalThings ''c/c3'' (Inr [''e'']),
       Publish ''a/ok'' (emptyResponse\<lparr>message := Some ''OK''\<rparr>) (Inr ())])"
    by code_simp
  moreover have "get demoConfig demoPlatform halfEnv ''d'' [] =
     (Inl ''UNABLE_TO_PUBLISH_RESPONSE'',
      [IsWhitelisted ''d'' (Inr True),
       HeadObject ''b'' ''k/d.z'' (Inr \<lparr>Metadata = Some [(''certificateid'', ''c1'')]\<rparr>),
       UpdateCertificate (Some ''c1'') ACTIVE (Inr ()),
       GetSignedUrl ''b'' ''k/d.z'' 60 (Inr ''url''),
       UpdateAssetStatus ''d'' (Inr ()),
       Publish ''g/ok'' (emptyResponse\<lparr>location := Some ''url''\<rparr>) (Inl ''offline''),
       Publish ''g/no''
         (emptyResponse\<lparr>location := Some ''url'',
                          message := Some ''UNABLE_TO_PUBLISH_RESPONSE''\<rparr>) (Inr ())])"
    by code_simp
  ultimately show ?thesis by blast
qed

subsection \<open>Issuing with a signing request\<close>

lemma tryCatch_throw_Inr:
  "tryCatch m (\<lambda>err. throw code) t = (Inr a, es) \<longleftrightarrow> m t = (Inr a, es)"
  by (auto simp: tryCatch_def throw_def split: prod.splits sum.splits)

lemma attachPolicies_ok:
  "attachPolicies env params t = (Inr (), es) \<Longrightarrow>
     es = map (\<lambda>param. AttachPolicy (fst param) (snd param) (Inr ())) params"
proof (induction params arbitrary: t es)
  case Nil
  then show ?case by (simp add: resolve_def)
next
  case (Cons p ps)
  from Cons.prems obtain a es1 es2 where
    "attachPolicy env (fst p) (snd p) t = (Inr a, es1)"
    "attachPolicies env ps (t @ es1) = (Inr (), es2)" "es = es1 @ es2"
    by (auto simp: andThen_Inr)
  with Cons.IH [of "t @ es1" es2] show ?case by (auto simp: attachPolicy_def)
qed

lemma attachPolicyToCertificate_ok:
  assumes "attachPolicyToCertificate cfg env arn policy prev t = (Inr (), es)"
  shows "if truthy prev \<and> \<not> useDefaultPolicy cfg
         then \<exists>policies. es = GetEffectivePolicies (certArn cfg (the prev)) (Inr policies) #
                 map (\<lambda>n. AttachPolicy arn n (Inr ())) policies
         else es = [AttachPolicy arn policy (Inr ())]"
  using assms
  by (auto simp: attachPolicyToCertificate_def andThen_Inr tryCatch_throw_Inr resolve_def
        getEffectivePolicies_def iotGetEffectivePolicies_def comp_def attachPolicy_def
      dest!: attachPolicies_ok split: if_splits)

lemma attachPolicies_abort:
  "attachPolicies env params t = (r, es) \<Longrightarrow> es = pre @ AttachPolicy target n (Inl m) # post \<Longrightarrow>
     post = [] \<and> r = Inl m \<and> (\<forall>e\<in>set pre. \<exists>tg n'. e = AttachPolicy tg n' (Inr ()))"
proof (induction params arbitrary: t es pre)
  case Nil
  then show ?case by (simp add: resolve_def)
next
  case (Cons p ps)
  from Cons.prems(1)
  have "andThen (attachPolicy env (fst p) (snd p)) (\<lambda>u. attachPolicies env ps) t = (r, es)"
    by simp
  then show ?case
  proof (cases rule: andThen_cases)
    case (stop e)
    with Cons.prems(2) show ?thesis
      by (auto simp: attachPolicy_def Cons_eq_append_conv)
  next
    case (go a es1 es2)
    then have es1: "es1 = [AttachPolicy (fst p) (snd p) (Inr ())]"
      by (auto simp: attachPolicy_def)
    with go(3) Cons.prems(2) obtain pre' where
      "pre = AttachPolicy (fst p) (snd p) (Inr ()) # pre'"
      "es2 = pre' @ AttachPolicy target n (Inl m) # post"
      by (cases pre) auto
    with Cons.IH [OF go(2) this(2)] show ?thesis by auto
  qed
qed

lemma attachPolicyToCertificate_abort:
  assumes "attachPolicyToCertificate cfg env arn policy prev t = (r, es)"
    "es = pre @ AttachPolicy target n (Inl m) # post"
  shows "post = [] \<and> r = Inl ''UNABLE_TO_ATTACH_POLICY'' \<and>
         (\<forall>e\<in>set pre. \<forall>tg n' a. e = AttachPolicy tg n' a \<longrightarrow> a = Inr ())"
proof -
  let ?params = "if truthy prev \<and> \<not> useDefaultPolicy cfg
        then andThen (getEffectivePolicies cfg env (the prev))
               (\<lambda>policies. resolve (map (\<lambda>policyName. (arn, policyName)) policies))
        else resolve [(arn, policy)]"
  from assms(1) have "andThen ?params
       (\<lambda>params. tryCatch (attachPolicies env params) (\<lambda>err. throw ''UNABLE_TO_ATTACH_POLICY'')) t
     = (r, es)"
    by (simp add: attachPolicyToCertificate_def)
  then show ?thesis
  proof (cases rule: andThen_cases)
    case (stop e)
    then have "\<exists>a. es = [GetEffectivePolicies (certArn cfg (the prev)) a]"
      by (auto simp: andThen_def resolve_def getEffectivePolicies_def iotGetEffectivePolicies_def
          split: if_splits sum.splits)
    with assms(2) show ?thesis by (auto simp: Cons_eq_append_conv append_eq_Cons_conv)
  next
    case (go params es1 es2)
    then have es1: "es1 = [] \<or> (\<exists>a. es1 = [GetEffectivePolicies (certArn cfg (the prev)) a])"
      by (auto simp: andThen_def resolve_def getEffectivePolicies_def iotGetEffectivePolicies_def
          split: if_splits sum.splits)
    obtain r2 where ap: "attachPolicies env params (t @ es1) = (r2, es2)"
      and r: "r = (case r2 of Inl e \<Rightarrow> Inl ''UNABLE_TO_ATTACH_POLICY'' | Inr u \<Rightarrow> Inr u)"
      using go(2) by (auto simp: tryCatch_def throw_def split: prod.splits sum.splits)
    from es1 go(3) assms(2) obtain pre' where
      pre: "es2 = pre' @ AttachPolicy target n (Inl m) # post"
        "pre = pre' \<or> (\<exists>a. pre = GetEffectivePolicies (certArn cfg (the prev)) a # pre')"
      by (cases pre) auto
    from attachPolicies_abort [OF ap pre(1)] r pre(2) show ?thesis by auto
  qed
qed

lemma getWithCsr_steps_ok:
  assumes "getWithCsr_steps cfg pf env d csr prev ps t = (Inr x, es)"
  shows "\<exists>issued ies arn aes.
     issue cfg pf env csr ps (t @ [IsWhitelisted d (Inr True)]) = (Inr issued, ies) \<and>
     attachPolicyToCertificate cfg env arn (rotatedCertificatePolicy cfg) prev
       (t @ IsWhitelisted d (Inr True) # ies @
          [RegisterCertificate (fst issued) (snd issued) (Inr arn),
           AttachThingPrincipal arn d (Inr ())]) = (Inr (), aes) \<and>
     es = IsWhitelisted d (Inr True) # ies @
          [RegisterCertificate (fst issued) (snd issued) (Inr arn),
           AttachThingPrincipal arn d (Inr ())] @ aes @ [UpdateAssetStatus d (Inr ())] \<and>
     x = (snd issued, arn)"
proof -
  from assms obtain w es1 es2 where
    w: "isWhitelisted env d t = (Inr w, es1)" and
    rest: "(if w \<noteq> True then throw ''DEVICE_NOT_WHITELISTED''
       else
         andThen (issue cfg pf env csr ps) (\<lambda>issued.
         andThen (registerCertificate env (fst issued) (snd issued)) (\<lambda>certificateArn.
         andThen (attachCertificateToThing env certificateArn d) (\<lambda>u.
         andThen (attachPolicyToCertificate cfg env certificateArn
                    (rotatedCertificatePolicy cfg) prev) (\<lambda>u.
         andThen (updateAssetStatus env d) (\<lambda>u.
         resolve (snd issued, certificateArn))))))) (t @ es1) = (Inr x, es2)" and
    es: "es = es1 @ es2"
    by (auto simp: getWithCsr_steps_def andThen_Inr ow_string_nonEmpty_eq split: if_splits)
  from rest have wt: "w = True" by (auto simp: throw_def split: if_splits)
  with w have es1: "es1 = [IsWhitelisted d (Inr True)]" by (auto simp: isWhitelisted_def)
  from rest wt obtain issued ies es3 where
    i: "issue cfg pf env csr ps (t @ es1) = (Inr issued, ies)" and
    r3: "andThen (registerCertificate env (fst issued) (snd issued)) (\<lambda>certificateArn.
         andThen (attachCertificateToThing env certificateArn d) (\<lambda>u.
         andThen (attachPolicyToCertificate cfg env certificateArn
                    (rotatedCertificatePolicy cfg) prev) (\<lambda>u.
         andThen (updateAssetStatus env d) (\<lambda>u.
         resolve (snd issued, certificateArn))))) ((t @ es1) @ ies) = (Inr x, es3)" and
    e2: "es2 = ies @ es3"
    by (auto simp: andThen_Inr)
  from r3 obtain arn es4 where
    reg: "registerCertificate env (fst issued) (snd issued) ((t @ es1) @ ies) =
            (Inr arn, [RegisterCertificate (fst issued) (snd issued) (Inr arn)])" and
    r4: "andThen (attachCertificateToThing env arn d) (\<lambda>u.
         andThen (attachPolicyToCertificate cfg env arn
                    (rotatedCertificatePolicy cfg) prev) (\<lambda>u.
         andThen (updateAssetStatus env d) (\<lambda>u.
         resolve (snd issued, arn))))
           (((t @ es1) @ ies) @ [RegisterCertificate (fst issued) (snd issued) (Inr arn)]) =
         (Inr x, es4)" and
    e3: "es3 = RegisterCertificate (fst issued) (snd issued) (Inr arn) # es4"
    by (auto simp: andThen_Inr registerCertificate_eq split: sum.splits)
  from r4 obtain es5 where
    r5: "andThen (attachPolicyToCertificate cfg env arn
                    (rotatedCertificatePolicy cfg) prev) (\<lambda>u.
         andThen (updateAssetStatus env d) (\<lambda>u.
         resolve (snd issued, arn)))
           ((((t @ es1) @ ies) @ [RegisterCertificate (fst issued) (snd issued) (Inr arn)]) @
              [AttachThingPrincipal arn d (Inr ())]) =
         (Inr x, es5)" and
    e4: "es4 = AttachThingPrincipal arn d (Inr ()) # es5"
    by (auto simp: andThen_Inr attachCertificateToThing_eq split: sum.splits)
  from r5 obtain aes where
    ap: "attachPolicyToCertificate cfg env arn (rotatedCertificatePolicy cfg) prev
           ((((t @ es1) @ ies) @ [RegisterCertificate (fst issued) (snd issued) (Inr arn)]) @
              [AttachThingPrincipal arn d (Inr ())]) = (Inr (), aes)" and
    e5: "es5 = aes @ [UpdateAssetStatus d (Inr ())]" and x: "x = (snd issued, arn)"
    by (auto simp: andThen_Inr updateAssetStatus_def resolve_def)
  from i ap es es1 e2 e3 e4 e5 x show ?thesis by auto
qed

lemma selectAuthority_silent:
  assumes "selectAuthority cfg pf ps t = (r, es)"
  shows "es = []"
proof -
  have "emits (\<lambda>e. False) (selectAuthority cfg pf ps)" by (rule emits_selectAuthority)
  from emitsD [OF this assms] show ?thesis by (cases es) auto
qed

lemma getACMCertificate_ok:
  assumes "getACMCertificate cfg env csr caArn info t = (Inr cert, es)"
  shows "\<exists>arn issuedCert.
     es = [IssueCertificate csr caArn (acmpcaSigningAlgorithm cfg) (certificateExpiryDays cfg) info
             (Inr arn),
           WaitForCertificateIssued caArn arn (Inr issuedCert)] \<and>
     cert = Certificate issuedCert @ [CHR 0x0A] @ CertificateChain issuedCert"
  using assms
  by (auto simp: getACMCertificate_def andThen_Inr tryCatch_throw_Inr issueCertificate_def
      waitForCertificateIssued_def resolve_def)

lemma issue_acm_ok:
  assumes "acmpcaEnabled cfg" "issue cfg pf env csr ps t = (Inr issued, ies)"
  shows "\<exists>caId caArn info arn issuedCert.
     ies = [DescribeCACertificate caId (Inr (fst issued)),
            IssueCertificate csr caArn (acmpcaSigningAlgorithm cfg) (certificateExpiryDays cfg) info
              (Inr arn),
            WaitForCertificateIssued caArn arn (Inr issuedCert)] \<and>
     snd issued = Certificate issuedCert @ [CHR 0x0A] @ CertificateChain issuedCert"
proof -
  from assms obtain sel es1 caPem es2 cert es3 where
    s: "selectAuthority cfg pf ps t = (Inr sel, es1)" and
    c: "getCaCertificate env (fst sel) (t @ es1) = (Inr caPem, es2)" and
    a: "getACMCertificate cfg env csr (fst (snd sel)) (snd (snd sel)) ((t @ es1) @ es2) =
          (Inr cert, es3)" and
    i: "issued = (caPem, cert)" and e: "ies = es1 @ es2 @ es3"
    by (auto simp: issue_def andThen_Inr resolve_def)
  from selectAuthority_silent [OF s] have "es1 = []" .
  moreover from c have "es2 = [DescribeCACertificate (fst sel) (Inr caPem)]"
    by (auto simp: getCaCertificate_eq split: sum.splits)
  ultimately show ?thesis using getACMCertificate_ok [OF a] i e by auto
qed

lemma getWithCsr_ok:
  assumes "getWithCsr cfg pf env d csr prev ps t = (Inr (), es)"
  shows "\<exists>x es1. getWithCsr_steps cfg pf env d csr prev ps t = (Inr x, es1) \<and>
           es = es1 @ [Publish (replace pf (mqttGetSuccessTopic cfg) ''{thingName}'' d)
                         (emptyResponse\<lparr>certificate := Some (fst x),
                                          certificateId := certificateIdOf (snd x)\<rparr>) (Inr ())]"
proof -
  from assms have "tryThenPublish (getWithCsr_steps cfg pf env d csr prev ps)
       (\<lambda>out. emptyResponse\<lparr>certificate := Some (fst out),
                              certificateId := certificateIdOf (snd out)\<rparr>)
       (publishResponse pf env (mqttGetSuccessTopic cfg) d)
       (catchBlock pf env (mqttGetFailureTopic cfg) d) t = (Inr (), es)"
    by (simp add: getWithCsr_def)
  then show ?thesis
  proof (cases rule: operation_cases)
    case (failed err es1 a)
    then show ?thesis by (auto split: sum.splits)
  next
    case (published x es1)
    then show ?thesis by auto
  next
    case (unpublished x es1 m a)
    then show ?thesis by (auto split: sum.splits)
  qed
qed

lemma issue_attaches_nothing:
  assumes "issue cfg pf env csr ps t = (r, ies)"
  shows "filter isAttachPolicy ies = []"
proof -
  from emitsD [OF quiet_issue assms] show ?thesis by (intro filter_none) blast
qed

text \<open>
  Claim C4. When \<open>getWithCsr\<close> resolves, the policy attachments of the run are all to the ARN
  that the registration returned and all accepted, and they are: with a previous certificate
  id that is given (not empty) and a deployment that does not force the default policy, one
  attachment for each effective policy of the previous certificate, in the order the registry
  listed them, and no other; otherwise the single attachment of the configured rotated
  policy. In \<open>attachPolicyToCertificate\<close> a rejected attachment is the last call made: the
  attachments before it were accepted, none follows, and \<open>UNABLE_TO_ATTACH_POLICY\<close> is raised.
\<close>

theorem policies_of_new_certificate:
  "(getWithCsr cfg pf env deviceId csr previousCertificateId acmpcaParameters t = (Inr (), es) \<longrightarrow>
      (\<exists>ca pem certificateArn.
         RegisterCertificate ca pem (Inr certificateArn) \<in> set es \<and>
         (if truthy previousCertificateId \<and> \<not> useDefaultPolicy cfg
          then \<exists>policies.
                 GetEffectivePolicies (certArn cfg (the previousCertificateId)) (Inr policies)
                   \<in> set es \<and>
                 filter isAttachPolicy es =
                   map (\<lambda>policyName. AttachPolicy certificateArn policyName (Inr ())) policies
          else filter isAttachPolicy es =
                 [AttachPolicy certificateArn (rotatedCertificatePolicy cfg) (Inr ())]))) \<and>
   (attachPolicyToCertificate cfg env arn policy previousCertificateId t = (r, es') \<and>
    es' = before @ AttachPolicy target policyName (Inl m) # after \<longrightarrow>
      after = [] \<and> r = Inl ''UNABLE_TO_ATTACH_POLICY'' \<and>
      (\<forall>e\<in>set before. \<forall>tg n a. e = AttachPolicy tg n a \<longrightarrow> a = Inr ()))"
proof (intro conjI impI)
  assume "getWithCsr cfg pf env deviceId csr previousCertificateId acmpcaParameters t = (Inr (), es)"
  from getWithCsr_ok [OF this] obtain x es1 where
    s: "getWithCsr_steps cfg pf env deviceId csr previousCertificateId acmpcaParameters t =
          (Inr x, es1)" and
    es: "es = es1 @ [Publish (replace pf (mqttGetSuccessTopic cfg) ''{thingName}'' deviceId)
                         (emptyResponse\<lparr>certificate := Some (fst x),
                                          certificateId := certificateIdOf (snd x)\<rparr>) (Inr ())]"
    by blast
  from getWithCsr_steps_ok [OF s] obtain issued ies certificateArn aes where
    i: "issue cfg pf env csr acmpcaParameters (t @ [IsWhitelisted deviceId (Inr True)]) =
          (Inr issued, ies)" and
    ap: "attachPolicyToCertificate cfg env certificateArn (rotatedCertificatePolicy cfg)
           previousCertificateId
           (t @ IsWhitelisted deviceId (Inr True) # ies @
              [RegisterCertificate (fst issued) (snd issued) (Inr certificateArn),
               AttachThingPrincipal certificateArn deviceId (Inr ())]) = (Inr (), aes)" and
    es1: "es1 = IsWhitelisted deviceId (Inr True) # ies @
          [RegisterCertificate (fst issued) (snd issued) (Inr certificateArn),
           AttachThingPrincipal certificateArn deviceId (Inr ())] @ aes @
          [UpdateAssetStatus deviceId (Inr ())]"
    by blast
  from es es1 issue_attaches_nothing [OF i]
  have f: "filter isAttachPolicy es = filter isAttachPolicy aes" by simp
  from es es1 have reg: "RegisterCertificate (fst issued) (snd issued) (Inr certificateArn) \<in> set es"
    and sub: "set aes \<subseteq> set es" by auto
  have "if truthy previousCertificateId \<and> \<not> useDefaultPolicy cfg
          then \<exists>policies.
                 GetEffectivePolicies (certArn cfg (the previousCertificateId)) (Inr policies)
                   \<in> set es \<and>
                 filter isAttachPolicy es =
                   map (\<lambda>policyName. AttachPolicy certificateArn policyName (Inr ())) policies
          else filter isAttachPolicy es =
                 [AttachPolicy certificateArn (rotatedCertificatePolicy cfg) (Inr ())]"
  proof (cases "truthy previousCertificateId \<and> \<not> useDefaultPolicy cfg")
    case True
    with attachPolicyToCertificate_ok [OF ap] obtain policies where
      aes: "aes = GetEffectivePolicies (certArn cfg (the previousCertificateId)) (Inr policies) #
                 map (\<lambda>n. AttachPolicy certificateArn n (Inr ())) policies" by auto
    then have "filter isAttachPolicy aes =
        map (\<lambda>n. AttachPolicy certificateArn n (Inr ())) policies"
      by (simp add: filter_map comp_def)
    moreover from aes sub
    have "GetEffectivePolicies (certArn cfg (the previousCertificateId)) (Inr policies) \<in> set es"
      by auto
    ultimately show ?thesis using True f by auto
  next
    case False
    with attachPolicyToCertificate_ok [OF ap]
    have "aes = [AttachPolicy certificateArn (rotatedCertificatePolicy cfg) (Inr ())]" by auto
    with False f show ?thesis by auto
  qed
  with reg show "\<exists>ca pem certificateArn.
         RegisterCertificate ca pem (Inr certificateArn) \<in> set es \<and>
         (if truthy previousCertificateId \<and> \<not> useDefaultPolicy cfg
          then \<exists>policies.
                 GetEffectivePolicies (certArn cfg (the previousCertificateId)) (Inr policies)
                   \<in> set es \<and>
                 filter isAttachPolicy es =
                   map (\<lambda>policyName. AttachPolicy certificateArn policyName (Inr ())) policies
          else filter isAttachPolicy es =
                 [AttachPolicy certificateArn (rotatedCertificatePolicy cfg) (Inr ())])"
    by blast
next
  assume a: "attachPolicyToCertificate cfg env arn policy previousCertificateId t = (r, es') \<and>
    es' = before @ AttachPolicy target policyName (Inl m) # after"
  then have 1: "attachPolicyToCertificate cfg env arn policy previousCertificateId t = (r, es')"
    and 2: "es' = before @ AttachPolicy target policyName (Inl m) # after" by blast+
  from attachPolicyToCertificate_abort [OF 1 2]
  show "after = []" "r = Inl ''UNABLE_TO_ATTACH_POLICY''"
    "\<forall>e\<in>set before. \<forall>tg n a. e = AttachPolicy tg n a \<longrightarrow> a = Inr ()" by blast+
qed

theorem policies_of_new_certificate_witness:
  "getWithCsr demoConfig demoPlatform demoEnv ''d'' ''csr'' (Some ''c1'') None [] =
     (Inr (),
      [IsWhitelisted ''d'' (Inr True),
       DescribeCACertificate ''ca1'' (Inr ''ca''),
       IssueCertificate ''csr'' ''pca'' ''alg'' 30 None (Inr ''new''),
       WaitForCertificateIssued ''pca'' ''new''
         (Inr \<lparr>Certificate = ''L'', CertificateChain = ''C''\<rparr>),
       RegisterCertificate ''ca'' (''L'' @ [CHR 0x0A] @ ''C'') (Inr ''c/n1''),
       AttachThingPrincipal ''c/n1'' ''d'' (Inr ()),
       GetEffectivePolicies ''arn:aws:iot:r:1:cert/c1'' (Inr [''p1'', ''p2'']),
       AttachPolicy ''c/n1'' ''p1'' (Inr ()),
       AttachPolicy ''c/n1'' ''p2'' (Inr ()),
       UpdateAssetStatus ''d'' (Inr ()),
       Publish ''g/ok''
         (emptyResponse\<lparr>certificate := Some (''L'' @ [CHR 0x0A] @ ''C''),
                          certificateId := Some ''n1''\<rparr>) (Inr ())]) \<and>
   filter isAttachPolicy
     [IsWhitelisted ''d'' (Inr True),
       DescribeCACertificate ''ca1'' (Inr ''ca''),
       IssueCertificate ''csr'' ''pca'' ''alg'' 30 None (Inr ''new''),
       WaitForCertificateIssued ''pca'' ''new''
         (Inr \<lparr>Certificate = ''L'', CertificateChain = ''C''\<rparr>),
       RegisterCertificate ''ca'' (''L'' @ [CHR 0x0A] @ ''C'') (Inr ''c/n1''),
       AttachThingPrincipal ''c/n1'' ''d'' (Inr ()),
       GetEffectivePolicies ''arn:aws:iot:r:1:cert/c1'' (Inr [''p1'', ''p2'']),
       AttachPolicy ''c/n1'' ''p1'' (Inr ()),
       AttachPolicy ''c/n1'' ''p2'' (Inr ()),
       UpdateAssetStatus ''d'' (Inr ()),
       Publish ''g/ok''
         (emptyResponse\<lparr>certificate := Some (''L'' @ [CHR 0x0A] @ ''C''),
                          certificateId := Some ''n1''\<rparr>) (Inr ())] =
     [AttachPolicy ''c/n1'' ''p1'' (Inr ()), AttachPolicy ''c/n1'' ''p2'' (Inr ())] \<and>
   getWithCsr demoConfig demoPlatform demoEnv ''d'' ''csr'' None None [] =
     (Inr (),
      [IsWhitelisted ''d'' (Inr True),
       DescribeCACertificate ''ca1'' (Inr ''ca''),
       IssueCertificate ''csr'' ''pca'' ''alg'' 30 None (Inr ''new''),
       WaitForCertificateIssued ''pca'' ''new''
         (Inr \<lparr>Certificate = ''L'', CertificateChain = ''C''\<rparr>),
       RegisterCertificate ''ca'' (''L'' @ [CHR 0x0A] @ ''C'') (Inr ''c/n1''),
       AttachThingPrincipal ''c/n1'' ''d'' (Inr ()),
       AttachPolicy ''c/n1'' ''pol'' (Inr ()),
       UpdateAssetStatus ''d'' (Inr ()),
       Publish ''g/ok''
         (emptyResponse\<lparr>certificate := Some (''L'' @ [CHR 0x0A] @ ''C''),
                          certificateId := Some ''n1''\<rparr>) (Inr ())]) \<and>
   (\<exists>ca pem certificateArn.
      RegisterCertificate ca pem (Inr certificateArn) \<in> set
        [IsWhitelisted ''d'' (Inr True),
       DescribeCACertificate ''ca1'' (Inr ''ca''),
       IssueCertificate ''csr'' ''pca'' ''alg'' 30 None (Inr ''new''),
       WaitForCertificateIssued ''pca'' ''new''
         (Inr \<lparr>Certificate = ''L'', CertificateChain = ''C''\<rparr>),
       RegisterCertificate ''ca'' (''L'' @ [CHR 0x0A] @ ''C'') (Inr ''c/n1''),
       AttachThingPrincipal ''c/n1'' ''d'' (Inr ()),
       AttachPolicy ''c/n1'' ''pol'' (Inr ()),
       UpdateAssetStatus ''d'' (Inr ()),
       Publish ''g/ok''
         (emptyResponse\<lparr>certificate := Some (''L'' @ [CHR 0x0A] @ ''C''),
                          certificateId := Some ''n1''\<rparr>) (Inr ())] \<and>
      filter isAttachPolicy
        [IsWhitelisted ''d'' (Inr True),
       DescribeCACertificate ''ca1'' (Inr ''ca''),
       IssueCertificate ''csr'' ''pca'' ''alg'' 30 None (Inr ''new''),
       WaitForCertificateIssued ''pca'' ''new''
         (Inr \<lparr>Certificate = ''L'', CertificateChain = ''C''\<rparr>),
       RegisterCertificate ''ca'' (''L'' @ [CHR 0x0A] @ ''C'') (Inr ''c/n1''),
       AttachThingPrincipal ''c/n1'' ''d'' (Inr ()),
       AttachPolicy ''c/n1'' ''pol'' (Inr ()),
       UpdateAssetStatus ''d'' (Inr ()),
       Publish ''g/ok''
         (emptyResponse\<lparr>certificate := Some (''L'' @ [CHR 0x0A] @ ''C''),
                          certificateId := Some ''n1''\<rparr>) (Inr ())] =
        [AttachPolicy certificateArn (rotatedCertificatePolicy demoConfig) (Inr ())]) \<and>
   attachPolicyToCertificate demoConfig pickyEnv ''c/n1'' ''pol'' (Some ''c1'') [] =
     (Inl ''UNABLE_TO_ATTACH_POLICY'',
      [GetEffectivePolicies ''arn:aws:iot:r:1:cert/c1'' (Inr [''p1'', ''p2''])] @
      AttachPolicy ''c/n1'' ''p1'' (Inl ''denied'') # [])"
proof -
  have r1: "getWithCsr demoConfig demoPlatform demoEnv ''d'' ''csr'' (Some ''c1'') None [] =
     (Inr (),
      [IsWhitelisted ''d'' (Inr True),
       DescribeCACertificate ''ca1'' (Inr ''ca''),
       IssueCertificate ''csr'' ''pca'' ''alg'' 30 None (Inr ''new''),
       WaitForCertificateIssued ''pca'' ''new''
         (Inr \<lparr>Certificate = ''L'', CertificateChain = ''C''\<rparr>),
       RegisterCertificate ''ca'' (''L'' @ [CHR 0x0A] @ ''C'') (Inr ''c/n1''),
       AttachThingPrincipal ''c/n1'' ''d'' (Inr ()),
       GetEffectivePolicies ''arn:aws:iot:r:1:cert/c1'' (Inr [''p1'', ''p2'']),
       AttachPolicy ''c/n1'' ''p1'' (Inr ()),
       AttachPolicy ''c/n1'' ''p2'' (Inr ()),
       UpdateAssetStatus ''d'' (Inr ()),
       Publish ''g/ok''
         (emptyResponse\<lparr>certificate := Some (''L'' @ [CHR 0x0A] @ ''C''),
                          certificateId := Some ''n1''\<rparr>) (Inr ())])"
    by code_simp
  have r0: "getWithCsr demoConfig demoPlatform demoEnv ''d'' ''csr'' None None [] =
     (Inr (),
      [IsWhitelisted ''d'' (Inr True),
       DescribeCACertificate ''ca1'' (Inr ''ca''),
       IssueCertificate ''csr'' ''pca'' ''alg'' 30 None (Inr ''new''),
       WaitForCertificateIssued ''pca'' ''new''
         (Inr \<lparr>Certificate = ''L'', CertificateChain = ''C''\<rparr>),
       RegisterCertificate ''ca'' (''L'' @ [CHR 0x0A] @ ''C'') (Inr ''c/n1''),
       AttachThingPrincipal ''c/n1'' ''d'' (Inr ()),
       AttachPolicy ''c/n1'' ''pol'' (Inr ()),
       UpdateAssetStatus ''d'' (Inr ()),
       Publish ''g/ok''
         (emptyResponse\<lparr>certificate := Some (''L'' @ [CHR 0x0A] @ ''C''),
                          certificateId := Some ''n1''\<rparr>) (Inr ())])"
    by code_simp
  have r2: "attachPolicyToCertificate demoConfig pickyEnv ''c/n1'' ''pol'' (Some ''c1'') [] =
     (Inl ''UNABLE_TO_ATTACH_POLICY'',
      [GetEffectivePolicies ''arn:aws:iot:r:1:cert/c1'' (Inr [''p1'', ''p2''])] @
      AttachPolicy ''c/n1'' ''p1'' (Inl ''denied'') # [])"
    by code_simp
  have f1: "filter isAttachPolicy
     [IsWhitelisted ''d'' (Inr True),
       DescribeCACertificate ''ca1'' (Inr ''ca''),
       IssueCertificate ''csr'' ''pca'' ''alg'' 30 None (Inr ''new''),
       WaitForCertificateIssued ''pca'' ''new''
         (Inr \<lparr>Certificate = ''L'', CertificateChain = ''C''\<rparr>),
       RegisterCertificate ''ca'' (''L'' @ [CHR 0x0A] @ ''C'') (Inr ''c/n1''),
       AttachThingPrincipal ''c/n1'' ''d'' (Inr ()),
       GetEffectivePolicies ''arn:aws:iot:r:1:cert/c1'' (Inr [''p1'', ''p2'']),
       AttachPolicy ''c/n1'' ''p1'' (Inr ()),
       AttachPolicy ''c/n1'' ''p2'' (Inr ()),
       UpdateAssetStatus ''d'' (Inr ()),
       Publish ''g/ok''
         (emptyResponse\<lparr>certificate := Some (''L'' @ [CHR 0x0A] @ ''C''),
                          certificateId := Some ''n1''\<rparr>) (Inr ())] =
     [AttachPolicy ''c/n1'' ''p1'' (Inr ()), AttachPolicy ''c/n1'' ''p2'' (Inr ())]"
    by simp
  have imp: "getWithCsr demoConfig demoPlatform demoEnv ''d'' ''csr'' None None [] =
     (Inr (),
      [IsWhitelisted ''d'' (Inr True),
       DescribeCACertificate ''ca1'' (Inr ''ca''),
       IssueCertificate ''csr'' ''pca'' ''alg'' 30 None (Inr ''new''),
       WaitForCertificateIssued ''pca'' ''new''
         (Inr \<lparr>Certificate = ''L'', CertificateChain = ''C''\<rparr>),
       RegisterCertificate ''ca'' (''L'' @ [CHR 0x0A] @ ''C'') (Inr ''c/n1''),
       AttachThingPrincipal ''c/n1'' ''d'' (Inr ()),
       AttachPolicy ''c/n1'' ''pol'' (Inr ()),
       UpdateAssetStatus ''d'' (Inr ()),
       Publish ''g/ok''
         (emptyResponse\<lparr>certificate := Some (''L'' @ [CHR 0x0A] @ ''C''),
                          certificateId := Some ''n1''\<rparr>) (Inr ())]) \<longrightarrow>
      (\<exists>ca pem certificateArn.
         RegisterCertificate ca pem (Inr certificateArn) \<in> set
           [IsWhitelisted ''d'' (Inr True),
       DescribeCACertificate ''ca1'' (Inr ''ca''),
       IssueCertificate ''csr'' ''pca'' ''alg'' 30 None (Inr ''new''),
       WaitForCertificateIssued ''pca'' ''new''
         (Inr \<lparr>Certificate = ''L'', CertificateChain = ''C''\<rparr>),
       RegisterCertificate ''ca'' (''L'' @ [CHR 0x0A] @ ''C'') (Inr ''c/n1''),
       AttachThingPrincipal ''c/n1'' ''d'' (Inr ()),
       AttachPolicy ''c/n1'' ''pol'' (Inr ()),
       UpdateAssetStatus ''d'' (Inr ()),
       Publish ''g/ok''
         (emptyResponse\<lparr>certificate := Some (''L'' @ [CHR 0x0A] @ ''C''),
                          certificateId := Some ''n1''\<rparr>) (Inr ())] \<and>
         (if truthy None \<and> \<not> useDefaultPolicy demoConfig
          then \<exists>policies.
                 GetEffectivePolicies (certArn demoConfig (the None)) (Inr policies)
                   \<in> set
                   [IsWhitelisted ''d'' (Inr True),
       DescribeCACertificate ''ca1'' (Inr ''ca''),
       IssueCertificate ''csr'' ''pca'' ''alg'' 30 None (Inr ''new''),
       WaitForCertificateIssued ''pca'' ''new''
         (Inr \<lparr>Certificate = ''L'', CertificateChain = ''C''\<rparr>),
       RegisterCertificate ''ca'' (''L'' @ [CHR 0x0A] @ ''C'') (Inr ''c/n1''),
       AttachThingPrincipal ''c/n1'' ''d'' (Inr ()),
       AttachPolicy ''c/n1'' ''pol'' (Inr ()),
       UpdateAssetStatus ''d'' (Inr ()),
       Publish ''g/ok''
         (emptyResponse\<lparr>certificate := Some (''L'' @ [CHR 0x0A] @ ''C''),
                          certificateId := Some ''n1''\<rparr>) (Inr ())] \<and>
                 filter isAttachPolicy
                   [IsWhitelisted ''d'' (Inr True),
       DescribeCACertificate ''ca1'' (Inr ''ca''),
       IssueCertificate ''csr'' ''pca'' ''alg'' 30 None (Inr ''new''),
       WaitForCertificateIssued ''pca'' ''new''
         (Inr \<lparr>Certificate = ''L'', CertificateChain = ''C''\<rparr>),
       RegisterCertificate ''ca'' (''L'' @ [CHR 0x0A] @ ''C'') (Inr ''c/n1''),
       AttachThingPrincipal ''c/n1'' ''d'' (Inr ()),
       AttachPolicy ''c/n1'' ''pol'' (Inr ()),
       UpdateAssetStatus ''d'' (Inr ()),
       Publish ''g/ok''
         (emptyResponse\<lparr>certificate := Some (''L'' @ [CHR 0x0A] @ ''C''),
                          certificateId := Some ''n1''\<rparr>) (Inr ())] =
                   map (\<lambda>policyName. AttachPolicy certificateArn policyName (Inr ())) policies
          else filter isAttachPolicy
                 [IsWhitelisted ''d'' (Inr True),
       DescribeCACertificate ''ca1'' (Inr ''ca''),
       IssueCertificate ''csr'' ''pca'' ''alg'' 30 None (Inr ''new''),
       WaitForCertificateIssued ''pca'' ''new''
         (Inr \<lparr>Certificate = ''L'', CertificateChain = ''C''\<rparr>),
       RegisterCertificate ''ca'' (''L'' @ [CHR 0x0A] @ ''C'') (Inr ''c/n1''),
       AttachThingPrincipal ''c/n1'' ''d'' (Inr ()),
       AttachPolicy ''c/n1'' ''pol'' (Inr ()),
       UpdateAssetStatus ''d'' (Inr ()),
       Publish ''g/ok''
         (emptyResponse\<lparr>certificate := Some (''L'' @ [CHR 0x0A] @ ''C''),
                          certificateId := Some ''n1''\<rparr>) (Inr ())] =
                 [AttachPolicy certificateArn (rotatedCertificatePolicy demoConfig) (Inr ())]))"
    by (rule conjunct1 [OF policies_of_new_certificate])
  from mp [OF imp r0]
  have "\<exists>ca pem certificateArn.
      RegisterCertificate ca pem (Inr certificateArn) \<in> set
        [IsWhitelisted ''d'' (Inr True),
       DescribeCACertificate ''ca1'' (Inr ''ca''),
       IssueCertificate ''csr'' ''pca'' ''alg'' 30 None (Inr ''new''),
       WaitForCertificateIssued ''pca'' ''new''
         (Inr \<lparr>Certificate = ''L'', CertificateChain = ''C''\<rparr>),
       RegisterCertificate ''ca'' (''L'' @ [CHR 0x0A] @ ''C'') (Inr ''c/n1''),
       AttachThingPrincipal ''c/n1'' ''d'' (Inr ()),
       AttachPolicy ''c/n1'' ''pol'' (Inr ()),
       UpdateAssetStatus ''d'' (Inr ()),
       Publish ''g/ok''
         (emptyResponse\<lparr>certificate := Some (''L'' @ [CHR 0x0A] @ ''C''),
                          certificateId := Some ''n1''\<rparr>) (Inr ())] \<and>
      filter isAttachPolicy
        [IsWhitelisted ''d'' (Inr True),
       DescribeCACertificate ''ca1'' (Inr ''ca''),
       IssueCertificate ''csr'' ''pca'' ''alg'' 30 None (Inr ''new''),
       WaitForCertificateIssued ''pca'' ''new''
         (Inr \<lparr>Certificate = ''L'', CertificateChain = ''C''\<rparr>),
       RegisterCertificate ''ca'' (''L'' @ [CHR 0x0A] @ ''C'') (Inr ''c/n1''),
       AttachThingPrincipal ''c/n1'' ''d'' (Inr ()),
       AttachPolicy ''c/n1'' ''pol'' (Inr ()),
       UpdateAssetStatus ''d'' (Inr ()),
       Publish ''g/ok''
         (emptyResponse\<lparr>certificate := Some (''L'' @ [CHR 0x0A] @ ''C''),
                          certificateId := Some ''n1''\<rparr>) (Inr ())] =
        [AttachPolicy certificateArn (rotatedCertificatePolicy demoConfig) (Inr ())]"
    by (simp only: truthy.simps HOL.simp_thms if_False)
  with r1 r0 r2 f1 show ?thesis by blast
qed

text \<open>
  Claim C8. A managed-CA issuance that succeeds returns the leaf certificate that the waiter
  answered, a line feed, and the certificate chain that the waiter answered. When ACM PCA is
  enabled and \<open>getWithCsr\<close> resolves, that value is the certificate registered with the
  registry and the certificate of the published success response.
\<close>

theorem managed_ca_bundle:
  "(getACMCertificate cfg env csr caArn info t = (Inr cert, es') \<longrightarrow>
      (\<exists>arn issuedCert.
         es' = [IssueCertificate csr caArn (acmpcaSigningAlgorithm cfg) (certificateExpiryDays cfg)
                  info (Inr arn),
                WaitForCertificateIssued caArn arn (Inr issuedCert)] \<and>
         cert = Certificate issuedCert @ [CHR 0x0A] @ CertificateChain issuedCert)) \<and>
   (acmpcaEnabled cfg \<and>
    getWithCsr cfg pf env deviceId csr previousCertificateId acmpcaParameters t = (Inr (), es) \<longrightarrow>
      (\<exists>authority arn issuedCert ca certificateArn.
         WaitForCertificateIssued authority arn (Inr issuedCert) \<in> set es \<and>
         RegisterCertificate ca (Certificate issuedCert @ [CHR 0x0A] @ CertificateChain issuedCert)
           (Inr certificateArn) \<in> set es \<and>
         last es = Publish (replace pf (mqttGetSuccessTopic cfg) ''{thingName}'' deviceId)
           (emptyResponse\<lparr>certificate :=
                              Some (Certificate issuedCert @ [CHR 0x0A] @ CertificateChain issuedCert),
                            certificateId := certificateIdOf certificateArn\<rparr>) (Inr ())))"
proof (intro conjI impI)
  assume "getACMCertificate cfg env csr caArn info t = (Inr cert, es')"
  from getACMCertificate_ok [OF this]
  show "\<exists>arn issuedCert.
         es' = [IssueCertificate csr caArn (acmpcaSigningAlgorithm cfg) (certificateExpiryDays cfg)
                  info (Inr arn),
                WaitForCertificateIssued caArn arn (Inr issuedCert)] \<and>
         cert = Certificate issuedCert @ [CHR 0x0A] @ CertificateChain issuedCert" .
next
  assume a: "acmpcaEnabled cfg \<and>
    getWithCsr cfg pf env deviceId csr previousCertificateId acmpcaParameters t = (Inr (), es)"
  then have en: "acmpcaEnabled cfg"
    and run: "getWithCsr cfg pf env deviceId csr previousCertificateId acmpcaParameters t = (Inr (), es)"
    by blast+
  from getWithCsr_ok [OF run] obtain x es1 where
    s: "getWithCsr_steps cfg pf env deviceId csr previousCertificateId acmpcaParameters t =
          (Inr x, es1)" and
    es: "es = es1 @ [Publish (replace pf (mqttGetSuccessTopic cfg) ''{thingName}'' deviceId)
                         (emptyResponse\<lparr>certificate := Some (fst x),
                                          certificateId := certificateIdOf (snd x)\<rparr>) (Inr ())]"
    by blast
  from getWithCsr_steps_ok [OF s] obtain issued ies certificateArn aes where
    i: "issue cfg pf env csr acmpcaParameters (t @ [IsWhitelisted deviceId (Inr True)]) =
          (Inr issued, ies)" and
    es1: "es1 = IsWhitelisted deviceId (Inr True) # ies @
          [RegisterCertificate (fst issued) (snd issued) (Inr certificateArn),
           AttachThingPrincipal certificateArn deviceId (Inr ())] @ aes @
          [UpdateAssetStatus deviceId (Inr ())]" and
    x: "x = (snd issued, certificateArn)"
    by blast
  from issue_acm_ok [OF en i] obtain caId authority inf arn issuedCert where
    ies: "ies = [DescribeCACertificate caId (Inr (fst issued)),
            IssueCertificate csr authority (acmpcaSigningAlgorithm cfg) (certificateExpiryDays cfg)
              inf (Inr arn),
            WaitForCertificateIssued authority arn (Inr issuedCert)]" and
    joined: "snd issued = Certificate issuedCert @ [CHR 0x0A] @ CertificateChain issuedCert"
    by blast
  from es es1 ies have "WaitForCertificateIssued authority arn (Inr issuedCert) \<in> set es"
    by simp
  moreover from es es1 joined
  have "RegisterCertificate (fst issued)
          (Certificate issuedCert @ [CHR 0x0A] @ CertificateChain issuedCert)
          (Inr certificateArn) \<in> set es" by simp
  moreover from es x joined
  have "last es = Publish (replace pf (mqttGetSuccessTopic cfg) ''{thingName}'' deviceId)
           (emptyResponse\<lparr>certificate :=
                              Some (Certificate issuedCert @ [CHR 0x0A] @ CertificateChain issuedCert),
                            certificateId := certificateIdOf certificateArn\<rparr>) (Inr ())"
    by simp
  ultimately show "\<exists>authority arn issuedCert ca certificateArn.
         WaitForCertificateIssued authority arn (Inr issuedCert) \<in> set es \<and>
         RegisterCertificate ca (Certificate issuedCert @ [CHR 0x0A] @ CertificateChain issuedCert)
           (Inr certificateArn) \<in> set es \<and>
         last es = Publish (replace pf (mqttGetSuccessTopic cfg) ''{thingName}'' deviceId)
           (emptyResponse\<lparr>certificate :=
                              Some (Certificate issuedCert @ [CHR 0x0A] @ CertificateChain issuedCert),
                            certificateId := certificateIdOf certificateArn\<rparr>) (Inr ())"
    by blast
qed

theorem managed_ca_bundle_witness:
  "getACMCertificate demoConfig demoEnv ''csr'' ''pca'' None [] =
     (Inr (''L'' @ [CHR 0x0A] @ ''C''),
      [IssueCertificate ''csr'' ''pca'' ''alg'' 30 None (Inr ''new''),
       WaitForCertificateIssued ''pca'' ''new''
         (Inr \<lparr>Certificate = ''L'', CertificateChain = ''C''\<rparr>)]) \<and>
   acmpcaEnabled demoConfig \<and>
   getWithCsr demoConfig demoPlatform demoEnv ''d'' ''csr'' None None [] =
     (Inr (),
      [IsWhitelisted ''d'' (Inr True),
       DescribeCACertificate ''ca1'' (Inr ''ca''),
       IssueCertificate ''csr'' ''pca'' ''alg'' 30 None (Inr ''new''),
       WaitForCertificateIssued ''pca'' ''new''
         (Inr \<lparr>Certificate = ''L'', CertificateChain = ''C''\<rparr>),
       RegisterCertificate ''ca'' (''L'' @ [CHR 0x0A] @ ''C'') (Inr ''c/n1''),
       AttachThingPrincipal ''c/n1'' ''d'' (Inr ()),
       AttachPolicy ''c/n1'' ''pol'' (Inr ()),
       UpdateAssetStatus ''d'' (Inr ()),
       Publish ''g/ok''
         (emptyResponse\<lparr>certificate := Some (''L'' @ [CHR 0x0A] @ ''C''),
                          certificateId := Some ''n1''\<rparr>) (Inr ())]) \<and>
   (\<exists>authority arn issuedCert ca certificateArn.
      WaitForCertificateIssued authority arn (Inr issuedCert) \<in> set
        [IsWhitelisted ''d'' (Inr True),
       DescribeCACertificate ''ca1'' (Inr ''ca''),
       IssueCertificate ''csr'' ''pca'' ''alg'' 30 None (Inr ''new''),
       WaitForCertificateIssued ''pca'' ''new''
         (Inr \<lparr>Certificate = ''L'', CertificateChain = ''C''\<rparr>),
       RegisterCertificate ''ca'' (''L'' @ [CHR 0x0A] @ ''C'') (Inr ''c/n1''),
       AttachThingPrincipal ''c/n1'' ''d'' (Inr ()),
       AttachPolicy ''c/n1'' ''pol'' (Inr ()),
       UpdateAssetStatus ''d'' (Inr ()),
       Publish ''g/ok''
         (emptyResponse\<lparr>certificate := Some (''L'' @ [CHR 0x0A] @ ''C''),
                          certificateId := Some ''n1''\<rparr>) (Inr ())] \<and>
      RegisterCertificate ca (Certificate issuedCert @ [CHR 0x0A] @ CertificateChain issuedCert)
        (Inr certificateArn) \<in> set
        [IsWhitelisted ''d'' (Inr True),
       DescribeCACertificate ''ca1'' (Inr ''ca''),
       IssueCertificate ''csr'' ''pca'' ''alg'' 30 None (Inr ''new''),
       WaitForCertificateIssued ''pca'' ''new''
         (Inr \<lparr>Certificate = ''L'', CertificateChain = ''C''\<rparr>),
       RegisterCertificate ''ca'' (''L'' @ [CHR 0x0A] @ ''C'') (Inr ''c/n1''),
       AttachThingPrincipal ''c/n1'' ''d'' (Inr ()),
       AttachPolicy ''c/n1'' ''pol'' (Inr ()),
       UpdateAssetStatus ''d'' (Inr ()),
       Publish ''g/ok''
         (emptyResponse\<lparr>certificate := Some (''L'' @ [CHR 0x0A] @ ''C''),
                          certificateId := Some ''n1''\<rparr>) (Inr ())] \<and>
      last
        [IsWhitelisted ''d'' (Inr True),
       DescribeCACertificate ''ca1'' (Inr ''ca''),
       IssueCertificate ''csr'' ''pca'' ''alg'' 30 None (Inr ''new''),
       WaitForCertificateIssued ''pca'' ''new''
         (Inr \<lparr>Certificate = ''L'', CertificateChain = ''C''\<rparr>),
       RegisterCertificate ''ca'' (''L'' @ [CHR 0x0A] @ ''C'') (Inr ''c/n1''),
       AttachThingPrincipal ''c/n1'' ''d'' (Inr ()),
       AttachPolicy ''c/n1'' ''pol'' (Inr ()),
       UpdateAssetStatus ''d'' (Inr ()),
       Publish ''g/ok''
         (emptyResponse\<lparr>certificate := Some (''L'' @ [CHR 0x0A] @ ''C''),
                          certificateId := Some ''n1''\<rparr>) (Inr ())] =
        Publish (replace demoPlatform (mqttGetSuccessTopic demoConfig) ''{thingName}'' ''d'')
          (emptyResponse\<lparr>certificate :=
                             Some (Certificate issuedCert @ [CHR 0x0A] @ CertificateChain issuedCert),
                           certificateId := certificateIdOf certificateArn\<rparr>) (Inr ()))"
proof -
  have a: "getACMCertificate demoConfig demoEnv ''csr'' ''pca'' None [] =
     (Inr (''L'' @ [CHR 0x0A] @ ''C''),
      [IssueCertificate ''csr'' ''pca'' ''alg'' 30 None (Inr ''new''),
       WaitForCertificateIssued ''pca'' ''new''
         (Inr \<lparr>Certificate = ''L'', CertificateChain = ''C''\<rparr>)])"
    by code_simp
  have en: "acmpcaEnabled demoConfig" by (simp add: demoConfig_def)
  have r0: "getWithCsr demoConfig demoPlatform demoEnv ''d'' ''csr'' None None [] =
     (Inr (),
      [IsWhitelisted ''d'' (Inr True),
       DescribeCACertificate ''ca1'' (Inr ''ca''),
       IssueCertificate ''csr'' ''pca'' ''alg'' 30 None (Inr ''new''),
       WaitForCertificateIssued ''pca'' ''new''
         (Inr \<lparr>Certificate = ''L'', CertificateChain = ''C''\<rparr>),
       RegisterCertificate ''ca'' (''L'' @ [CHR 0x0A] @ ''C'') (Inr ''c/n1''),
       AttachThingPrincipal ''c/n1'' ''d'' (Inr ()),
       AttachPolicy ''c/n1'' ''pol'' (Inr ()),
       UpdateAssetStatus ''d'' (Inr ()),
       Publish ''g/ok''
         (emptyResponse\<lparr>certificate := Some (''L'' @ [CHR 0x0A] @ ''C''),
                          certificateId := Some ''n1''\<rparr>) (Inr ())])"
    by code_simp
  from managed_ca_bundle
    [where cfg = demoConfig and pf = demoPlatform and env = demoEnv and deviceId = "''d''"
       and csr = "''csr''" and previousCertificateId = None and acmpcaParameters = None
       and t = "[]" and es = "[IsWhitelisted ''d'' (Inr True),
       DescribeCACertificate ''ca1'' (Inr ''ca''),
       IssueCertificate ''csr'' ''pca'' ''alg'' 30 None (Inr ''new''),
       WaitForCertificateIssued ''pca'' ''new''
         (Inr \<lparr>Certificate = ''L'', CertificateChain = ''C''\<rparr>),
       RegisterCertificate ''ca'' (''L'' @ [CHR 0x0A] @ ''C'') (Inr ''c/n1''),
       AttachThingPrincipal ''c/n1'' ''d'' (Inr ()),
       AttachPolicy ''c/n1'' ''pol'' (Inr ()),
       UpdateAssetStatus ''d'' (Inr ()),
       Publish ''g/ok''
         (emptyResponse\<lparr>certificate := Some (''L'' @ [CHR 0x0A] @ ''C''),
                          certificateId := Some ''n1''\<rparr>) (Inr ())]"] en r0 a
  show ?thesis by blast
qed

end
